(* ===== verification/Bot_Prelude.thy ===== *)
theory Bot_Prelude
  imports Main
begin

text \<open>
  Shared vocabulary of the model of \<^verbatim>\<open>src/main.py\<close>: Python values that can be
  \<^verbatim>\<open>None\<close>, the exceptions the program can raise, the start-up configuration read
  from the environment, and an exception-and-state monad in which every handler of
  the program is written.  A value of \<open>('s, 'a) exc_st\<close> takes the state and
  returns either \<open>Inl\<close> of the exception raised or \<open>Inr\<close> of the result, together
  with the state as it was when the exception left the code: Python does not roll
  back the assignments made before a \<^verbatim>\<open>raise\<close>, and neither does the model.
\<close>

named_theorems exc_simps "equations that execute the exception-state monad"

subsection \<open>Python values\<close>

text \<open>
  \<^verbatim>\<open>message.text\<close> is \<^verbatim>\<open>str | None\<close>; an f-string renders \<^verbatim>\<open>None\<close> as
  \<^verbatim>\<open>"None"\<close>.  Python \<^verbatim>\<open>str\<close> is a sequence of code points; the model's
  \<open>string\<close> is a list of \<open>char\<close>, read as the code points 0--255 (Latin-1),
  which holds the placeholders of the template (\<^verbatim>\<open>\<guillemotleft>\<close> is U+00AB,
  \<^verbatim>\<open>\<guillemotright>\<close> is U+00BB).
\<close>

datatype pyval = PyNone | PyStr string

fun py_format :: "pyval \<Rightarrow> string" where
  "py_format PyNone = ''None''"
| "py_format (PyStr s) = s"

subsection \<open>Exceptions\<close>

datatype exc =
    TokenRefreshError        \<comment> \<open>\<^verbatim>\<open>raise Exception(...)\<close> in \<^verbatim>\<open>refresh_access_token\<close>\<close>
  | KeyError string          \<comment> \<open>\<^verbatim>\<open>d[k]\<close> on an absent key\<close>
  | JSONDecodeError          \<comment> \<open>\<^verbatim>\<open>response.json()\<close> on a body that is not JSON\<close>
  | ConnectionError          \<comment> \<open>\<^verbatim>\<open>requests.post\<close> gets no response\<close>
  | PackageNotFoundError string  \<comment> \<open>\<^verbatim>\<open>Document(path)\<close> on a missing file\<close>
  | FileNotFoundError string \<comment> \<open>\<^verbatim>\<open>open(path, "rb")\<close> on a missing file\<close>
  | TypeError string         \<comment> \<open>\<^verbatim>\<open>int(None)\<close>\<close>
  | ValueError string        \<comment> \<open>\<^verbatim>\<open>int(s)\<close> on a string that is not a decimal literal\<close>
  | AttributeError string    \<comment> \<open>\<^verbatim>\<open>None.split\<close>\<close>
  | TokenValidationError     \<comment> \<open>aiogram's \<^verbatim>\<open>Bot(token=...)\<close> on a malformed token\<close>

subsection \<open>Configuration read at start-up\<close>

text \<open>
  The module-level constants of lines 17--31, after \<^verbatim>\<open>load_dotenv()\<close>; theory
  \<open>Config\<close> computes them from the environment.  \<^verbatim>\<open>os.getenv\<close> gives
  \<^verbatim>\<open>None\<close> for an unset variable, so the values only read are \<open>pyval\<close>.
  \<^verbatim>\<open>ACCESS_TOKEN\<close> and \<^verbatim>\<open>REFRESH_TOKEN\<close> are mutable globals and live in the
  state (theory \<open>Token\<close>); the rest never changes.  \<open>bot_username\<close> is the
  bot's Telegram user name, which aiogram's \<^verbatim>\<open>Command\<close> filter compares with a
  \<^verbatim>\<open>/cmd@name\<close> mention.
\<close>

record config =
  client_id :: pyval
  client_secret :: pyval
  tenant_id :: pyval
  redirect_uri :: pyval
  allowed_user_id :: int
  test_recipients :: "string list"
  prod_recipients :: "string list"
  bot_username :: string

subsection \<open>The exception-state monad\<close>

type_synonym ('s, 'a) exc_st = "'s \<Rightarrow> (exc + 'a) \<times> 's"

definition returnE :: "'a \<Rightarrow> ('s, 'a) exc_st" where
  "returnE a s = (Inr a, s)"

definition raiseE :: "exc \<Rightarrow> ('s, 'a) exc_st" where
  "raiseE e s = (Inl e, s)"

definition bindE :: "('s, 'a) exc_st \<Rightarrow> ('a \<Rightarrow> ('s, 'b) exc_st) \<Rightarrow> ('s, 'b) exc_st" where
  "bindE m f s = (case m s of (Inl e, s') \<Rightarrow> (Inl e, s') | (Inr a, s') \<Rightarrow> f a s')"

definition thenE :: "('s, 'a) exc_st \<Rightarrow> ('s, 'b) exc_st \<Rightarrow> ('s, 'b) exc_st" where
  "thenE m k = bindE m (\<lambda>_. k)"

definition getsE :: "('s \<Rightarrow> 'a) \<Rightarrow> ('s, 'a) exc_st" where
  "getsE f s = (Inr (f s), s)"

definition modifyE :: "('s \<Rightarrow> 's) \<Rightarrow> ('s, unit) exc_st" where
  "modifyE f s = (Inr (), f s)"

text \<open>A Python expression that may raise and touches no state.\<close>

definition liftE :: "exc + 'a \<Rightarrow> ('s, 'a) exc_st" where
  "liftE r s = (r, s)"

text \<open>\<^verbatim>\<open>d[k]\<close> on a dictionary.\<close>

definition lookupE :: "(string \<rightharpoonup> 'v) \<Rightarrow> string \<Rightarrow> exc + 'v" where
  "lookupE d k = (case d k of None \<Rightarrow> Inl (KeyError k) | Some v \<Rightarrow> Inr v)"

lemma bindE_returnE [exc_simps]: "bindE (returnE a) f = f a"
  by (simp add: bindE_def returnE_def fun_eq_iff)

lemma bindE_right_id: "bindE m returnE = m"
  by (simp add: bindE_def returnE_def fun_eq_iff split: prod.splits sum.splits)

lemma bindE_assoc:
  "bindE (bindE m f) g = bindE m (\<lambda>a. bindE (f a) g)"
  by (simp add: bindE_def fun_eq_iff split: prod.splits sum.splits)

lemma bindE_raiseE [exc_simps]: "bindE (raiseE e) f = raiseE e"
  by (simp add: bindE_def raiseE_def fun_eq_iff)

lemma bindE_step:
  "bindE m f s = (case m s of (r, s') \<Rightarrow> (case r of Inl e \<Rightarrow> (Inl e, s') | Inr a \<Rightarrow> f a s'))"
  by (simp add: bindE_def split: prod.splits sum.splits)

lemma bindE_Inr [exc_simps]: "m s = (Inr a, s') \<Longrightarrow> bindE m f s = f a s'"
  by (simp add: bindE_def)

lemma bindE_Inl [exc_simps]: "m s = (Inl e, s') \<Longrightarrow> bindE m f s = (Inl e, s')"
  by (simp add: bindE_def)

lemma thenE_bindE: "thenE m k = bindE m (\<lambda>_. k)"
  by (fact thenE_def)

lemma getsE_bindE [exc_simps]: "bindE (getsE f) g s = g (f s) s"
  by (simp add: bindE_def getsE_def)

lemma modifyE_bindE [exc_simps]: "bindE (modifyE f) g s = g () (f s)"
  by (simp add: bindE_def modifyE_def)

lemma liftE_bindE [exc_simps]:
  "bindE (liftE r) g s = (case r of Inl e \<Rightarrow> (Inl e, s) | Inr a \<Rightarrow> g a s)"
  by (simp add: bindE_def liftE_def split: sum.splits)

lemma returnE_apply [exc_simps]: "returnE a s = (Inr a, s)"
  and raiseE_apply [exc_simps]: "raiseE e s = (Inl e, s)"
  and getsE_apply [exc_simps]: "getsE f s = (Inr (f s), s)"
  and modifyE_apply [exc_simps]: "modifyE f s = (Inr (), f s)"
  and liftE_apply [exc_simps]: "liftE r s = (r, s)"
  by (simp_all add: returnE_def raiseE_def getsE_def modifyE_def liftE_def)

lemma lookupE_Some [simp]: "d k = Some v \<Longrightarrow> lookupE d k = Inr v"
  and lookupE_None [simp]: "d k = None \<Longrightarrow> lookupE d k = Inl (KeyError k)"
  by (simp_all add: lookupE_def)

declare thenE_def [exc_simps]

subsection \<open>Frame reasoning\<close>

text \<open>
  \<open>preserves f m\<close>: running \<open>m\<close> never changes the view \<open>f\<close> of the state,
  whether it returns or raises.  The rules of the collection \<open>preserves_intros\<close>
  decompose a computation along its binds, so a frame fact about a whole handler is
  one \<open>intro\<close> away from frame facts about the operations it calls.
\<close>

named_theorems preserves_intros "decomposition rules for preserves"

definition preserves :: "('s \<Rightarrow> 'b) \<Rightarrow> ('s, 'a) exc_st \<Rightarrow> bool" where
  "preserves f m \<longleftrightarrow> (\<forall>s x s'. m s = (x, s') \<longrightarrow> f s' = f s)"

lemma preservesD: "preserves f m \<Longrightarrow> m s = (x, s') \<Longrightarrow> f s' = f s"
  by (simp add: preserves_def)

lemma preserves_bindE [preserves_intros]:
  "preserves f m \<Longrightarrow> (\<And>a. preserves f (g a)) \<Longrightarrow> preserves f (bindE m g)"
  by (fastforce simp: preserves_def bindE_def split: prod.splits sum.splits)

lemma preserves_thenE [preserves_intros]:
  "preserves f m \<Longrightarrow> preserves f k \<Longrightarrow> preserves f (thenE m k)"
  by (simp add: thenE_def preserves_bindE)

lemma preserves_returnE [preserves_intros]: "preserves f (returnE a)"
  and preserves_raiseE [preserves_intros]: "preserves f (raiseE e)"
  and preserves_getsE [preserves_intros]: "preserves f (getsE g)"
  and preserves_liftE [preserves_intros]: "preserves f (liftE r)"
  by (simp_all add: preserves_def returnE_def raiseE_def getsE_def liftE_def)

lemma preserves_modifyE [preserves_intros]:
  "(\<And>s. f (g s) = f s) \<Longrightarrow> preserves f (modifyE g)"
  by (simp add: preserves_def modifyE_def)

lemma preserves_if [preserves_intros]:
  "preserves f a \<Longrightarrow> preserves f b \<Longrightarrow> preserves f (if c then a else b)"
  by simp

lemma preserves_Let [preserves_intros]:
  "preserves f (k v) \<Longrightarrow> preserves f (let x = v in k x)"
  by simp

lemma preserves_case_prod [preserves_intros]:
  "(\<And>a b. preserves f (k a b)) \<Longrightarrow> preserves f (case p of (a, b) \<Rightarrow> k a b)"
  by (simp split: prod.splits)

text \<open>The two ways \<open>thenE m k\<close> can end.\<close>

lemma thenE_cases:
  assumes "thenE m k s = (x, s')"
  obtains (raised) e where "m s = (Inl e, s')" and "x = Inl e"
  | (ran) a s1 where "m s = (Inr a, s1)" and "k s1 = (x, s')"
proof (cases "m s")
  case (Pair r s1)
  then show ?thesis
    using assms that by (cases r) (auto simp: thenE_def bindE_def)
qed

end
