(* ===== verification/Py_Str.thy ===== *)
theory Py_Str
  imports Bot_Prelude
begin

text \<open>
  The Python string operations \<^verbatim>\<open>src/main.py\<close> relies on, as CPython defines
  them: the membership test \<^verbatim>\<open>needle in hay\<close> (lines 81 and 131),
  \<^verbatim>\<open>str.replace\<close> (lines 82--86), and \<^verbatim>\<open>str.split(sep)\<close> with
  \<^verbatim>\<open>str.join\<close> (lines 30--31 and 189).  The operations are polymorphic in the
  alphabet, so nothing depends on how code points are represented.
  \<^verbatim>\<open>str.replace\<close> scans left to right and replaces non-overlapping
  occurrences; it is proved equal to \<^verbatim>\<open>new.join(s.split(old))\<close>, and
  \<^verbatim>\<open>sep.join(s.split(sep))\<close> is proved to give back \<open>s\<close>.
\<close>

subsection \<open>Definitions\<close>

definition starts_with :: "'a list \<Rightarrow> 'a list \<Rightarrow> bool" where
  "starts_with pre xs \<longleftrightarrow> take (length pre) xs = pre"

text \<open>
  Python's whitespace (\<^verbatim>\<open>str.isspace\<close>, which \<^verbatim>\<open>str.split()\<close>,
  \<^verbatim>\<open>str.strip()\<close> and \<^verbatim>\<open>int()\<close> use) on the code points 0--255.
\<close>

definition is_py_space :: "char \<Rightarrow> bool" where
  "is_py_space c \<longleftrightarrow>
     c \<in> set [CHR 0x09, CHR 0x0A, CHR 0x0B, CHR 0x0C, CHR 0x0D, CHR 0x1C, CHR 0x1D,
              CHR 0x1E, CHR 0x1F, CHR 0x20, CHR 0x85, CHR 0xA0]"

text \<open>\<^verbatim>\<open>s.strip()\<close>.\<close>

definition py_strip :: "string \<Rightarrow> string" where
  "py_strip s = rev (dropWhile is_py_space (rev (dropWhile is_py_space s)))"

text \<open>\<^verbatim>\<open>needle in hay\<close> for strings.\<close>

fun py_in :: "'a list \<Rightarrow> 'a list \<Rightarrow> bool" where
  "py_in n [] \<longleftrightarrow> n = []"
| "py_in n (c # cs) \<longleftrightarrow> starts_with n (c # cs) \<or> py_in n cs"

text \<open>The scanning loop of \<^verbatim>\<open>str.replace\<close> for a non-empty pattern.\<close>

function replace_scan :: "'a list \<Rightarrow> 'a list \<Rightarrow> 'a list \<Rightarrow> 'a list" where
  "replace_scan old new [] = []"
| "replace_scan old new (c # cs) =
     (if old \<noteq> [] \<and> starts_with old (c # cs)
      then new @ replace_scan old new (drop (length old) (c # cs))
      else c # replace_scan old new cs)"
  by pat_completeness auto
termination
  by (relation "measure (\<lambda>(old, new, s). length s)") auto

text \<open>
  \<^verbatim>\<open>s.replace(old, new)\<close>; with an empty \<^verbatim>\<open>old\<close>, CPython inserts
  \<^verbatim>\<open>new\<close> before every character and at the end.
\<close>

definition py_replace :: "'a list \<Rightarrow> 'a list \<Rightarrow> 'a list \<Rightarrow> 'a list" where
  "py_replace s old new =
     (if old = [] then new @ concat (map (\<lambda>c. c # new) s) else replace_scan old new s)"

definition cons_first :: "'a \<Rightarrow> 'a list list \<Rightarrow> 'a list list" where
  "cons_first c ps = (case ps of [] \<Rightarrow> [[c]] | p # ps' \<Rightarrow> (c # p) # ps')"

text \<open>\<^verbatim>\<open>s.split(sep)\<close> for a non-empty separator.\<close>

function split_on :: "'a list \<Rightarrow> 'a list \<Rightarrow> 'a list list" where
  "split_on sep [] = [[]]"
| "split_on sep (c # cs) =
     (if sep \<noteq> [] \<and> starts_with sep (c # cs)
      then [] # split_on sep (drop (length sep) (c # cs))
      else cons_first c (split_on sep cs))"
  by pat_completeness auto
termination
  by (relation "measure (\<lambda>(sep, s). length s)") auto

text \<open>\<^verbatim>\<open>sep.join(parts)\<close>.\<close>

fun py_join :: "'a list \<Rightarrow> 'a list list \<Rightarrow> 'a list" where
  "py_join sep [] = []"
| "py_join sep [p] = p"
| "py_join sep (p # q # ps) = p @ sep @ py_join sep (q # ps)"

subsection \<open>Basic facts\<close>

lemma starts_with_append [simp]: "starts_with pre (pre @ ys)"
  by (simp add: starts_with_def)

lemma starts_with_drop:
  "starts_with pre xs \<Longrightarrow> xs = pre @ drop (length pre) xs"
  by (metis append_take_drop_id starts_with_def)

lemma starts_with_hd:
  "starts_with pre (c # cs) \<Longrightarrow> pre \<noteq> [] \<Longrightarrow> hd pre = c"
  by (cases pre) (auto simp: starts_with_def)

lemma py_in_iff: "py_in n h \<longleftrightarrow> (\<exists>xs ys. h = xs @ n @ ys)"
proof (induction h)
  case Nil
  then show ?case by simp
next
  case (Cons c cs)
  show ?case
  proof
    assume "py_in n (c # cs)"
    then consider "starts_with n (c # cs)" | "py_in n cs" by auto
    then show "\<exists>xs ys. c # cs = xs @ n @ ys"
    proof cases
      case 1
      then show ?thesis by (metis append_Nil starts_with_drop)
    next
      case 2
      with Cons.IH obtain xs ys where "cs = xs @ n @ ys" by blast
      then show ?thesis by (metis append_Cons)
    qed
  next
    assume "\<exists>xs ys. c # cs = xs @ n @ ys"
    then obtain xs ys where eq: "c # cs = xs @ n @ ys" by blast
    show "py_in n (c # cs)"
    proof (cases xs)
      case Nil
      with eq have "starts_with n (c # cs)" by (simp add: starts_with_def)
      then show ?thesis by simp
    next
      case (Cons x xs')
      with eq have "cs = xs' @ n @ ys" by simp
      with Cons.IH show ?thesis by auto
    qed
  qed
qed

lemma py_join_Cons:
  "py_join sep (p # ps) = (if ps = [] then p else p @ sep @ py_join sep ps)"
  by (cases ps) simp_all

lemma split_on_not_Nil [simp]: "split_on sep s \<noteq> []"
  by (induction sep s rule: split_on.induct) (auto simp: cons_first_def split: list.splits)

lemma py_join_cons_first:
  "ps \<noteq> [] \<Longrightarrow> py_join sep (cons_first c ps) = c # py_join sep ps"
  by (cases ps) (simp_all add: cons_first_def py_join_Cons)

subsection \<open>Round trip and equivalence\<close>

lemma py_join_split_on:
  "sep \<noteq> [] \<Longrightarrow> py_join sep (split_on sep s) = s"
proof (induction sep s rule: split_on.induct)
  case (1 sep)
  then show ?case by simp
next
  case (2 sep c cs)
  show ?case
  proof (cases "starts_with sep (c # cs)")
    case True
    with "2.IH"(1) "2.prems" show ?thesis
      by (simp add: py_join_Cons flip: starts_with_drop)
  next
    case False
    with "2.IH"(2) "2.prems" show ?thesis
      by (simp add: py_join_cons_first)
  qed
qed

lemma replace_scan_join_split:
  "old \<noteq> [] \<Longrightarrow> replace_scan old new s = py_join new (split_on old s)"
proof (induction old s rule: split_on.induct)
  case (1 old)
  then show ?case by simp
next
  case (2 old c cs)
  then show ?case
    by (cases "starts_with old (c # cs)") (simp_all add: py_join_Cons py_join_cons_first)
qed

lemma py_replace_absent:
  "\<not> py_in old s \<Longrightarrow> py_replace s old new = s"
proof -
  assume absent: "\<not> py_in old s"
  then have "old \<noteq> []" by (cases s) (auto simp: starts_with_def)
  moreover from absent have "replace_scan old new s = s"
    by (induction s) auto
  ultimately show ?thesis by (simp add: py_replace_def)
qed

lemma split_on_hd_prefix: "\<exists>r. s = hd (split_on sep s) @ r"
proof (induction sep s rule: split_on.induct)
  case (1 sep)
  then show ?case by simp
next
  case (2 sep c cs)
  show ?case
  proof (cases "sep \<noteq> [] \<and> starts_with sep (c # cs)")
    case True
    then show ?thesis by simp
  next
    case False
    with "2.IH"(2) obtain r where "cs = hd (split_on sep cs) @ r" by blast
    with False show ?thesis
      by (cases "split_on sep cs") (auto simp: cons_first_def)
  qed
qed

lemma starts_with_prefix:
  "starts_with pre xs \<Longrightarrow> starts_with pre (xs @ r)"
  using starts_with_drop [of pre xs] by (metis append.assoc starts_with_append)

lemma split_on_pieces_free:
  "sep \<noteq> [] \<Longrightarrow> p \<in> set (split_on sep s) \<Longrightarrow> \<not> py_in sep p"
proof (induction sep s arbitrary: p rule: split_on.induct)
  case (1 sep)
  then show ?case by (cases sep) (auto simp: starts_with_def)
next
  case (2 sep c cs)
  show ?case
  proof (cases "starts_with sep (c # cs)")
    case True
    with "2.IH"(1) "2.prems" show ?thesis by (auto simp: starts_with_def)
  next
    case False
    obtain q qs where split_cs: "split_on sep cs = q # qs"
      by (cases "split_on sep cs") auto
    from split_on_hd_prefix [of cs sep] split_cs obtain r where cs: "cs = q @ r" by auto
    have head_free: "\<not> py_in sep (c # q)"
    proof
      assume "py_in sep (c # q)"
      then consider "starts_with sep (c # q)" | "py_in sep q" by auto
      then show False
      proof cases
        case 1
        then have "starts_with sep (c # cs)"
          using cs starts_with_prefix [of sep "c # q" r] by simp
        with False show False by simp
      next
        case 2
        with "2.IH"(2) False "2.prems"(1) split_cs show False by auto
      qed
    qed
    from "2.prems"(2) False split_cs consider "p = c # q" | "p \<in> set qs"
      by (auto simp: cons_first_def)
    then show ?thesis
    proof cases
      case 1
      with head_free show ?thesis by simp
    next
      case 2
      with "2.IH"(2) False "2.prems"(1) split_cs show ?thesis by auto
    qed
  qed
qed

subsection \<open>Replacement on concatenations\<close>

lemma replace_scan_skip:
  "old \<noteq> [] \<Longrightarrow> hd old \<notin> set xs \<Longrightarrow> replace_scan old new (xs @ ys) = xs @ replace_scan old new ys"
  by (induction xs) (auto dest: starts_with_hd)

lemma replace_scan_hit:
  assumes "old \<noteq> []"
  shows "replace_scan old new (old @ ys) = new @ replace_scan old new ys"
proof -
  from assms obtain c cs where old: "old = c # cs" by (cases old) auto
  have "starts_with (c # cs) (c # cs @ ys)"
    using starts_with_append [of "c # cs" ys] by simp
  with old show ?thesis by simp
qed

lemma py_replace_skip:
  "old \<noteq> [] \<Longrightarrow> hd old \<notin> set xs \<Longrightarrow> py_replace (xs @ ys) old new = xs @ py_replace ys old new"
  by (simp add: py_replace_def replace_scan_skip)

lemma py_replace_hit:
  "old \<noteq> [] \<Longrightarrow> py_replace (old @ ys) old new = new @ py_replace ys old new"
  by (simp add: py_replace_def replace_scan_hit)

lemma py_replace_Nil [simp]: "old \<noteq> [] \<Longrightarrow> py_replace [] old new = []"
  by (simp add: py_replace_def)

lemma py_in_hd_absent:
  "n \<noteq> [] \<Longrightarrow> hd n \<notin> set h \<Longrightarrow> \<not> py_in n h"
  by (cases n) (auto simp: py_in_iff)

lemma py_replace_miss:
  "old \<noteq> [] \<Longrightarrow> \<not> starts_with old (c # cs) \<Longrightarrow>
   py_replace (c # cs) old new = c # py_replace cs old new"
  by (simp add: py_replace_def)

end
