(* ===== verification/Docx.thy ===== *)
theory Docx
  imports Py_Str
begin

text \<open>
  The Document Filler: \<^verbatim>\<open>fill_document\<close> (\<^verbatim>\<open>src/main.py\<close>, lines 77--96)
  and the part of python-docx it uses.  A document is its list of body paragraphs
  (\<^verbatim>\<open>doc.paragraphs\<close>), a paragraph is its list of runs, a run has its text and
  the two font attributes the code sets.  Reading \<^verbatim>\<open>paragraph.text\<close>
  concatenates the runs' texts; assigning it removes every run and adds one new run,
  with no font set, holding the new text.  A paragraph is its list of plain runs:
  hyperlinks, whose text python-docx 1.x includes in \<^verbatim>\<open>paragraph.text\<close> though
  their runs are not in \<^verbatim>\<open>paragraph.runs\<close>, are not modelled.  The file system
  is a map from path to document: \<^verbatim>\<open>Document(path)\<close> reads it and
  \<^verbatim>\<open>doc.save(path)\<close> overwrites the entry; the bytes of a saved document are
  given in theory \<open>Mail\<close> (\<open>docx_bytes\<close>), where \<^verbatim>\<open>send_email\<close> reads them.
\<close>

record run =
  run_text :: string
  font_name :: "string option"
  font_size :: "int option"

type_synonym docx_paragraph = "run list"

record document =
  paragraphs :: "docx_paragraph list"

record fs_st =
  files :: "string \<rightharpoonup> document"

subsection \<open>python-docx\<close>

definition paragraph_text :: "docx_paragraph \<Rightarrow> string" where
  "paragraph_text p = concat (map run_text p)"

definition set_paragraph_text :: "docx_paragraph \<Rightarrow> string \<Rightarrow> docx_paragraph" where
  "set_paragraph_text p t = [\<lparr>run_text = t, font_name = None, font_size = None\<rparr>]"

text \<open>\<^verbatim>\<open>Pt(n)\<close>: a length in English Metric Units, 12700 per point.\<close>

definition Pt :: "int \<Rightarrow> int" where
  "Pt n = n * 12700"

subsection \<open>The placeholders and their replacement\<close>

definition departure_placeholder :: string where
  "departure_placeholder = [CHR 0xAB] @ ''_____'' @ [CHR 0xBB] @ '' ________''"

definition arrival_placeholder :: string where
  "arrival_placeholder = [CHR 0xAB] @ ''_____'' @ [CHR 0xBB] @ ''  ____________''"

text \<open>The f-string \<^verbatim>\<open>f"\<guillemotleft>{date}\<guillemotright>"\<close>.\<close>

definition bracketed :: "pyval \<Rightarrow> string" where
  "bracketed v = [CHR 0xAB] @ py_format v @ [CHR 0xBB]"

text \<open>One iteration of the first loop (lines 81--86).\<close>

definition fill_paragraph :: "pyval \<Rightarrow> pyval \<Rightarrow> docx_paragraph \<Rightarrow> docx_paragraph" where
  "fill_paragraph departure_date arrival_date p =
     (if py_in departure_placeholder (paragraph_text p)
      then set_paragraph_text p
             (py_replace
               (py_replace (paragraph_text p) departure_placeholder (bracketed departure_date))
               arrival_placeholder (bracketed arrival_date))
      else p)"

text \<open>One iteration of the second loop (lines 89--91).\<close>

definition set_run_font :: "run \<Rightarrow> run" where
  "set_run_font r = r\<lparr>font_name := Some ''Times New Roman'', font_size := Some (Pt 14)\<rparr>"

definition fill_paragraphs :: "pyval \<Rightarrow> pyval \<Rightarrow> document \<Rightarrow> document" where
  "fill_paragraphs departure_date arrival_date doc =
     doc\<lparr>paragraphs := map (fill_paragraph departure_date arrival_date) (paragraphs doc)\<rparr>"

definition format_runs :: "document \<Rightarrow> document" where
  "format_runs doc = doc\<lparr>paragraphs := map (map set_run_font) (paragraphs doc)\<rparr>"

definition template_path :: string where
  "template_path = ''template.docx''"

definition output_file :: string where
  "output_file = ''filled_document.docx''"

definition fill_document :: "pyval \<Rightarrow> pyval \<Rightarrow> ('a fs_st_scheme, string) exc_st" where
  "fill_document departure_date arrival_date s =
     (case files s template_path of
        None \<Rightarrow> (Inl (PackageNotFoundError template_path), s)
      | Some doc \<Rightarrow>
          (let doc' = format_runs (fill_paragraphs departure_date arrival_date doc)
           in (Inr output_file, s\<lparr>files := (files s)(output_file \<mapsto> doc')\<rparr>)))"

subsection \<open>Lemmas\<close>

lemma fill_document_Some:
  "files s template_path = Some doc \<Longrightarrow>
   fill_document d a s =
     (Inr output_file,
      s\<lparr>files := (files s)(output_file \<mapsto> format_runs (fill_paragraphs d a doc))\<rparr>)"
  by (simp add: fill_document_def)

lemma fill_document_None:
  "files s template_path = None \<Longrightarrow>
   fill_document d a s = (Inl (PackageNotFoundError template_path), s)"
  by (simp add: fill_document_def)

lemma fill_document_effect:
  "fill_document d a s = (x, s') \<Longrightarrow> s' = s\<lparr>files := files s'\<rparr>"
  by (auto simp: fill_document_def split: option.splits)

lemma template_path_neq_output [simp]: "template_path \<noteq> output_file"
  by (simp add: template_path_def output_file_def)

lemma length_format_runs [simp]:
  "length (paragraphs (format_runs doc)) = length (paragraphs doc)"
  and length_fill_paragraphs [simp]:
  "length (paragraphs (fill_paragraphs d a doc)) = length (paragraphs doc)"
  by (simp_all add: format_runs_def fill_paragraphs_def)

lemma paragraph_text_format [simp]:
  "paragraph_text (map set_run_font p) = paragraph_text p"
  by (simp add: paragraph_text_def set_run_font_def comp_def)

lemma paragraph_text_set [simp]: "paragraph_text (set_paragraph_text p t) = t"
  by (simp add: paragraph_text_def set_paragraph_text_def)

lemma fill_paragraph_untouched:
  "\<not> py_in departure_placeholder (paragraph_text p) \<Longrightarrow> fill_paragraph d a p = p"
  by (simp add: fill_paragraph_def)

lemma departure_placeholder_ne [simp]: "departure_placeholder \<noteq> []"
  and arrival_placeholder_ne [simp]: "arrival_placeholder \<noteq> []"
  and hd_departure_placeholder [simp]: "hd departure_placeholder = CHR 0xAB"
  and hd_arrival_placeholder [simp]: "hd arrival_placeholder = CHR 0xAB"
  by (simp_all add: departure_placeholder_def arrival_placeholder_def)

lemma starts_with_second:
  "starts_with (a # b # t) (c # x # y) \<Longrightarrow> b = x"
  by (simp add: starts_with_def)

lemma departure_not_in_arrival:
  "CHR 0xAB \<notin> set zs \<Longrightarrow> \<not> py_in departure_placeholder (arrival_placeholder @ zs)"
proof -
  assume zs: "CHR 0xAB \<notin> set zs"
  have "\<not> starts_with departure_placeholder (arrival_placeholder @ zs)"
    by (simp add: starts_with_def departure_placeholder_def arrival_placeholder_def)
  moreover have "\<not> py_in departure_placeholder (tl arrival_placeholder @ zs)"
    using zs by (intro py_in_hd_absent) (simp_all add: arrival_placeholder_def)
  ultimately show ?thesis
    by (simp add: arrival_placeholder_def)
qed

text \<open>The first \<^verbatim>\<open>replace\<close> of line 82 on a line with both placeholders.\<close>

lemma replace_departure_line:
  assumes "CHR 0xAB \<notin> set xs" "CHR 0xAB \<notin> set ys" "CHR 0xAB \<notin> set zs"
  shows "py_replace (xs @ departure_placeholder @ ys @ arrival_placeholder @ zs)
           departure_placeholder new = xs @ new @ ys @ arrival_placeholder @ zs"
  using assms
  by (simp add: py_replace_skip py_replace_hit py_replace_absent departure_not_in_arrival)

text \<open>The second \<^verbatim>\<open>replace\<close> (line 84), after the departure date is in.\<close>

lemma replace_arrival_line:
  assumes xs: "CHR 0xAB \<notin> set xs" and ys: "CHR 0xAB \<notin> set ys" and zs: "CHR 0xAB \<notin> set zs"
    and d1: "CHR 0xAB \<notin> set (py_format d)" and d2: "CHR 0x5F \<notin> set (py_format d)"
  shows "py_replace (xs @ bracketed d @ ys @ arrival_placeholder @ zs) arrival_placeholder new =
           xs @ bracketed d @ ys @ new @ zs"
proof -
  define rest where "rest = py_format d @ CHR 0xBB # ys"
  have rest_free: "CHR 0xAB \<notin> set rest" using d1 ys by (simp add: rest_def)
  have no_start: "\<not> starts_with arrival_placeholder (CHR 0xAB # rest @ arrival_placeholder @ zs)"
  proof
    assume start: "starts_with arrival_placeholder (CHR 0xAB # rest @ arrival_placeholder @ zs)"
    show False
    proof (cases "py_format d")
      case Nil
      with start show False
        by (simp add: rest_def arrival_placeholder_def starts_with_def)
    next
      case (Cons e es)
      with start have "e = CHR 0x5F"
        by (auto simp: rest_def arrival_placeholder_def dest: starts_with_second)
      with Cons d2 show False by simp
    qed
  qed
  have bd: "bracketed d @ ys = CHR 0xAB # rest" by (simp add: bracketed_def rest_def)
  have "py_replace (CHR 0xAB # rest @ arrival_placeholder @ zs) arrival_placeholder new =
        CHR 0xAB # rest @ new @ zs"
    using no_start rest_free zs
    by (simp add: py_replace_miss py_replace_skip py_replace_hit py_replace_absent
        py_in_hd_absent)
  with xs bd show ?thesis
    by (simp add: py_replace_skip flip: append_assoc)
qed

lemma py_in_departure_line:
  "py_in departure_placeholder (xs @ departure_placeholder @ ys)"
  by (auto simp: py_in_iff)

lemma format_runs_fonts:
  "p \<in> set (paragraphs (format_runs doc)) \<Longrightarrow> r \<in> set p \<Longrightarrow>
   font_name r = Some ''Times New Roman'' \<and> font_size r = Some (Pt 14)"
  by (auto simp: format_runs_def set_run_font_def)

lemma nth_paragraphs_filled:
  "i < length (paragraphs doc) \<Longrightarrow>
   paragraphs (format_runs (fill_paragraphs d a doc)) ! i =
     map set_run_font (fill_paragraph d a (paragraphs doc ! i))"
  by (simp add: format_runs_def fill_paragraphs_def)

subsection \<open>Properties of the Document Filler\<close>

text \<open>
  C9. A template line that holds the departure placeholder and, after it, the arrival
  placeholder (and no other \<^verbatim>\<open>\<guillemotleft>\<close>) becomes one run whose text has the
  bracketed departure date and the bracketed arrival date in their places, provided
  the departure date has no \<^verbatim>\<open>\<guillemotleft>\<close> and no underscore (which could start a
  new arrival placeholder together with the text after it).
\<close>

theorem fill_paragraph_both_dates:
  assumes line: "paragraph_text p = xs @ departure_placeholder @ ys @ arrival_placeholder @ zs"
    and "CHR 0xAB \<notin> set xs" "CHR 0xAB \<notin> set ys" "CHR 0xAB \<notin> set zs"
    and "CHR 0xAB \<notin> set (py_format d)" "CHR 0x5F \<notin> set (py_format d)"
  shows "fill_paragraph d a p =
           set_paragraph_text p (xs @ bracketed d @ ys @ bracketed a @ zs)"
proof -
  have "py_replace (paragraph_text p) departure_placeholder (bracketed d) =
        xs @ bracketed d @ ys @ arrival_placeholder @ zs"
    using assms by (simp add: replace_departure_line)
  with assms show ?thesis
    by (simp add: fill_paragraph_def py_in_departure_line replace_arrival_line)
qed

definition example_line :: docx_paragraph where
  "example_line =
     [\<lparr>run_text = ''from '' @ departure_placeholder @ '' to '' @ arrival_placeholder @ ''.'',
       font_name = None, font_size = None\<rparr>]"

theorem fill_paragraph_both_dates_witness:
  "fill_paragraph (PyStr ''15 Oct'') (PyStr ''20 Oct'') example_line =
     set_paragraph_text example_line
       (''from '' @ bracketed (PyStr ''15 Oct'') @ '' to '' @ bracketed (PyStr ''20 Oct'') @ ''.'')"
  by (rule fill_paragraph_both_dates [of example_line "''from ''" "'' to ''" "''.''"])
     (simp_all add: example_line_def paragraph_text_def)

text \<open>
  C10. After a successful \<^verbatim>\<open>fill_document\<close>, every run of every paragraph of the
  saved file is set in Times New Roman at 14 points, whatever the template held.
\<close>

theorem fill_document_fonts:
  assumes "fill_document d a s = (Inr path, s')"
    and "files s' path = Some doc" and "p \<in> set (paragraphs doc)" and "r \<in> set p"
  shows "font_name r = Some ''Times New Roman'' \<and> font_size r = Some (Pt 14)"
proof (cases "files s template_path")
  case None
  with assms(1) show ?thesis by (simp add: fill_document_None)
next
  case (Some t)
  with assms(1,2) have "doc = format_runs (fill_paragraphs d a t)"
    by (auto simp: fill_document_Some)
  with assms(3,4) show ?thesis by (simp add: format_runs_fonts)
qed

definition example_fs :: fs_st where
  "example_fs = \<lparr>files = [template_path \<mapsto> \<lparr>paragraphs = [example_line]\<rparr>]\<rparr>"

theorem fill_document_fonts_witness:
  "font_name (hd (hd (paragraphs (the (files (snd (fill_document PyNone PyNone example_fs))
                                       output_file))))) = Some ''Times New Roman''"
proof -
  let ?s' = "snd (fill_document PyNone PyNone example_fs)"
  let ?doc = "the (files ?s' output_file)"
  have run: "fill_document PyNone PyNone example_fs = (Inr output_file, ?s')"
    by (simp add: fill_document_Some example_fs_def)
  have saved: "files ?s' output_file = Some ?doc"
    by (simp add: fill_document_Some example_fs_def)
  have "hd (paragraphs ?doc) \<in> set (paragraphs ?doc)"
    and "hd (hd (paragraphs ?doc)) \<in> set (hd (paragraphs ?doc))"
    by (simp_all add: fill_document_Some example_fs_def format_runs_def fill_paragraphs_def
        fill_paragraph_def example_line_def set_paragraph_text_def)
  from fill_document_fonts [OF run saved this] show ?thesis by simp
qed

text \<open>
  C13. The arrival placeholder is only replaced inside a paragraph that also holds
  the departure placeholder (the guard of line 81 tests the departure placeholder
  only): a template paragraph holding the arrival placeholder alone reaches the
  saved file with its text unchanged, placeholder included.
\<close>

theorem fill_document_arrival_alone:
  assumes "files s template_path = Some t" and "i < length (paragraphs t)"
    and "\<not> py_in departure_placeholder (paragraph_text (paragraphs t ! i))"
    and "fill_document d a s = (r, s')" and "files s' output_file = Some doc"
  shows "paragraph_text (paragraphs doc ! i) = paragraph_text (paragraphs t ! i)"
proof -
  from assms(1,4,5) have "doc = format_runs (fill_paragraphs d a t)"
    by (auto simp: fill_document_Some)
  with assms(2,3) show ?thesis
    by (simp add: nth_paragraphs_filled fill_paragraph_untouched)
qed

definition arrival_only_line :: docx_paragraph where
  "arrival_only_line =
     [\<lparr>run_text = ''to '' @ arrival_placeholder, font_name = None, font_size = None\<rparr>]"

definition arrival_only_fs :: fs_st where
  "arrival_only_fs = \<lparr>files = [template_path \<mapsto> \<lparr>paragraphs = [arrival_only_line]\<rparr>]\<rparr>"

theorem fill_document_arrival_alone_witness:
  "paragraph_text (paragraphs (the (files (snd (fill_document (PyStr ''15 Oct'') (PyStr ''20 Oct'')
        arrival_only_fs)) output_file)) ! 0) = ''to '' @ arrival_placeholder"
proof -
  let ?d = "PyStr ''15 Oct''" and ?a = "PyStr ''20 Oct''"
  let ?t = "\<lparr>paragraphs = [arrival_only_line]\<rparr>"
  let ?s' = "snd (fill_document ?d ?a arrival_only_fs)"
  have t: "files arrival_only_fs template_path = Some ?t" by (simp add: arrival_only_fs_def)
  have len: "0 < length (paragraphs ?t)" by simp
  have free: "\<not> py_in departure_placeholder (paragraph_text (paragraphs ?t ! 0))"
    by (simp add: arrival_only_line_def paragraph_text_def departure_placeholder_def
        arrival_placeholder_def starts_with_def)
  have run: "fill_document ?d ?a arrival_only_fs = (fst (fill_document ?d ?a arrival_only_fs), ?s')"
    by simp
  have saved: "files ?s' output_file = Some (the (files ?s' output_file))"
    using t by (simp add: fill_document_Some)
  from fill_document_arrival_alone [OF t len free run saved] show ?thesis
    by (simp add: arrival_only_line_def paragraph_text_def)
qed

text \<open>
  C21. \<^verbatim>\<open>fill_document\<close> is idempotent: filling again with the same dates
  overwrites the output file with the same document and returns the same path, and a
  missing template fails the same way both times.
\<close>

theorem fill_document_idempotent:
  "fill_document d a (snd (fill_document d a s)) = fill_document d a s"
  by (cases "files s template_path") (simp_all add: fill_document_def)

end
