(* ===== verification/Http.thy ===== *)
theory Http
  imports Docx
begin

text \<open>
  The outbound HTTP calls of \<^verbatim>\<open>src/main.py\<close> (\<^verbatim>\<open>requests.post\<close>, lines 57,
  130 and 135) against an environment that answers them.  The servers are not
  modelled; what they answer is an input: the state holds the queue \<open>net\<close> of the
  answers the next calls will get, in order, and the log \<open>http_log\<close> of every
  request posted.  A call appends its request to the log and takes the next answer;
  \<open>ConnError\<close>, or an empty queue, is a call that gets no response, which
  \<^verbatim>\<open>requests\<close> raises as an exception.  The log makes ordering and counting
  of calls (one retry at most, the token sent with each call) statements about the
  final state.
\<close>

subsection \<open>Requests and responses\<close>

text \<open>
  The JSON body of the \<^verbatim>\<open>sendMail\<close> call (lines 111--128).  The subject, the
  body text and the attachment's name are fixed Cyrillic literals and are not
  represented; \<open>content_bytes\<close> is the Base64 text of the attached file, as
  line 103 computes it.
\<close>

record email_data =
  to_recipients :: "string list"
  content_bytes :: string
  save_to_sent_items :: string

datatype http_body =
    Form "(string \<times> string) list"  \<comment> \<open>\<^verbatim>\<open>data=payload\<close>: a form-encoded body\<close>
  | Json email_data                 \<comment> \<open>\<^verbatim>\<open>json=email_data\<close>\<close>

datatype http_req = Post (req_url: string) (req_headers: "(string \<times> string) list") (req_body: http_body)

text \<open>
  A response: status code, body text, and the body parsed as a JSON object
  (\<open>None\<close> when \<^verbatim>\<open>response.json()\<close> would raise).  A JSON object with a
  repeated key keeps the last value, as Python's \<^verbatim>\<open>json\<close> does.
\<close>

datatype response = Response (status_code: int) (resp_text: string)
  (resp_json: "(string \<times> string) list option")

datatype net_result = Reply response | ConnError

definition json_get :: "(string \<times> string) list \<Rightarrow> string \<rightharpoonup> string" where
  "json_get kvs = map_of (rev kvs)"

record net_st = fs_st +
  net :: "net_result list"
  http_log :: "http_req list"

subsection \<open>\<^verbatim>\<open>requests.post\<close>\<close>

definition post :: "http_req \<Rightarrow> ('a net_st_scheme, response) exc_st" where
  "post r s =
     (let s' = s\<lparr>http_log := http_log s @ [r]\<rparr> in
      case net s of
        Reply resp # rs \<Rightarrow> (Inr resp, s'\<lparr>net := rs\<rparr>)
      | ConnError # rs \<Rightarrow> (Inl ConnectionError, s'\<lparr>net := rs\<rparr>)
      | [] \<Rightarrow> (Inl ConnectionError, s'))"

text \<open>
  \<^verbatim>\<open>requests\<close> encodes a \<^verbatim>\<open>data=\<close> dictionary as a form and leaves out the
  keys whose value is \<^verbatim>\<open>None\<close>.
\<close>

definition form_encode :: "(string \<times> pyval) list \<Rightarrow> (string \<times> string) list" where
  "form_encode payload = concat (map (\<lambda>(k, v). case v of PyNone \<Rightarrow> [] | PyStr t \<Rightarrow> [(k, t)]) payload)"

text \<open>\<^verbatim>\<open>response.json()\<close>.\<close>

definition response_json :: "response \<Rightarrow> exc + (string \<times> string) list" where
  "response_json resp = (case resp_json resp of None \<Rightarrow> Inl JSONDecodeError | Some kvs \<Rightarrow> Inr kvs)"

lemma post_Reply [exc_simps]:
  "net s = Reply resp # rs \<Longrightarrow>
   post r s = (Inr resp, s\<lparr>http_log := http_log s @ [r], net := rs\<rparr>)"
  and post_ConnError [exc_simps]:
  "net s = ConnError # rs \<Longrightarrow>
   post r s = (Inl ConnectionError, s\<lparr>http_log := http_log s @ [r], net := rs\<rparr>)"
  and post_empty [exc_simps]:
  "net s = [] \<Longrightarrow> post r s = (Inl ConnectionError, s\<lparr>http_log := http_log s @ [r]\<rparr>)"
  by (simp_all add: post_def)

lemma post_log:
  "post r s = (x, s') \<Longrightarrow> http_log s' = http_log s @ [r]"
  by (auto simp: post_def Let_def split: list.splits net_result.splits)

lemma post_frame:
  "post r s = (x, s') \<Longrightarrow> files s' = files s \<and> net_st.more s' = net_st.more s"
  by (auto simp: post_def Let_def split: list.splits net_result.splits)

lemma post_effect:
  "post r s = (x, s') \<Longrightarrow> s' = s\<lparr>http_log := http_log s @ [r], net := drop 1 (net s)\<rparr>"
  by (auto simp: post_def Let_def split: list.splits net_result.splits)

end
