(* ===== verification/Token.thy ===== *)
theory Token
  imports Http
begin

text \<open>
  The Token Manager: the globals \<^verbatim>\<open>ACCESS_TOKEN\<close> and \<^verbatim>\<open>REFRESH_TOKEN\<close>
  (\<^verbatim>\<open>src/main.py\<close>, lines 17 and 23) as two fields of the state, each
  \<^verbatim>\<open>str | None\<close> as \<^verbatim>\<open>os.getenv\<close> left it (a \<^verbatim>\<open>None\<close> refresh token is
  left out of the form, as \<^verbatim>\<open>requests\<close> does with \<^verbatim>\<open>None\<close> values), and
  \<^verbatim>\<open>refresh_access_token\<close> (lines 48--65) as an operation on any state that has
  them.  The operation posts the refresh request with the refresh token held at the
  time of the call, and on status 200 stores the refresh token of the answer, if
  there is one, before it reads the access token of the answer: an answer without
  \<^verbatim>\<open>access_token\<close> raises \<^verbatim>\<open>KeyError\<close> after the rotation is stored.  It
  returns the new access token and leaves \<^verbatim>\<open>ACCESS_TOKEN\<close> alone; the caller
  assigns it (line 133).
\<close>

record cred_st = net_st +
  access_token :: pyval
  refresh_token :: pyval

definition token_url :: "config \<Rightarrow> string" where
  "token_url cfg = ''https://login.microsoftonline.com/'' @ py_format (tenant_id cfg) @ ''/oauth2/v2.0/token''"

definition refresh_payload :: "config \<Rightarrow> pyval \<Rightarrow> (string \<times> pyval) list" where
  "refresh_payload cfg rt =
     [(''client_id'', client_id cfg), (''client_secret'', client_secret cfg),
      (''grant_type'', PyStr ''refresh_token''), (''refresh_token'', rt),
      (''redirect_uri'', redirect_uri cfg)]"

definition refresh_request :: "config \<Rightarrow> pyval \<Rightarrow> http_req" where
  "refresh_request cfg rt = Post (token_url cfg) [] (Form (form_encode (refresh_payload cfg rt)))"

definition refresh_access_token :: "config \<Rightarrow> ('a cred_st_scheme, string) exc_st" where
  "refresh_access_token cfg =
     bindE (getsE refresh_token) (\<lambda>rt.
     bindE (post (refresh_request cfg rt)) (\<lambda>response.
     if status_code response = 200 then
       bindE (liftE (response_json response)) (\<lambda>tokens.
       thenE (modifyE (\<lambda>s. s\<lparr>refresh_token :=
                 (case json_get tokens ''refresh_token'' of None \<Rightarrow> refresh_token s | Some r \<Rightarrow> PyStr r)\<rparr>))
             (liftE (lookupE (json_get tokens) ''access_token'')))
     else raiseE TokenRefreshError))"

subsection \<open>Execution lemmas\<close>

lemma post_cred:
  "post r s = (x, s') \<Longrightarrow> access_token s' = access_token s \<and> refresh_token s' = refresh_token s"
  by (auto simp: post_def Let_def split: list.splits net_result.splits)

text \<open>What the token endpoint answers decides the outcome; these equations cover every answer.\<close>

definition rotated :: "(string \<times> string) list \<Rightarrow> pyval \<Rightarrow> pyval" where
  "rotated kvs old = (case json_get kvs ''refresh_token'' of None \<Rightarrow> old | Some r \<Rightarrow> PyStr r)"

lemma refresh_access_token_reply:
  "net s = Reply resp # rs \<Longrightarrow>
   refresh_access_token cfg s =
     (let s1 = s\<lparr>http_log := http_log s @ [refresh_request cfg (refresh_token s)], net := rs\<rparr> in
      if status_code resp = 200 then
        (case resp_json resp of
           None \<Rightarrow> (Inl JSONDecodeError, s1)
         | Some kvs \<Rightarrow>
             (lookupE (json_get kvs) ''access_token'',
              s1\<lparr>refresh_token := rotated kvs (refresh_token s)\<rparr>))
      else (Inl TokenRefreshError, s1))"
  by (simp add: refresh_access_token_def exc_simps response_json_def rotated_def Let_def
      split: option.splits)

lemma refresh_access_token_noreply:
  "net s = [] \<or> net s = ConnError # rs \<Longrightarrow>
   refresh_access_token cfg s =
     (Inl ConnectionError,
      s\<lparr>http_log := http_log s @ [refresh_request cfg (refresh_token s)], net := drop 1 (net s)\<rparr>)"
  by (auto simp: refresh_access_token_def exc_simps)

lemma refresh_access_token_cases:
  obtains (reply) resp rs where "net s = Reply resp # rs"
  | (noreply) rs where "net s = [] \<or> net s = ConnError # rs"
proof (cases "net s")
  case Nil
  then show ?thesis using that(2) by blast
next
  case (Cons h t)
  then show ?thesis using that by (cases h) auto
qed

text \<open>One request, posted with the refresh token held at the call; nothing else changes
  but the refresh token.\<close>

lemma refresh_access_token_effect:
  assumes "refresh_access_token cfg s = (r, s')"
  shows "s' = s\<lparr>http_log := http_log s @ [refresh_request cfg (refresh_token s)],
                 net := drop 1 (net s), refresh_token := refresh_token s'\<rparr>"
proof (cases s rule: refresh_access_token_cases)
  case (reply resp rs)
  show ?thesis
  proof (cases "status_code resp = 200")
    case True
    with reply assms show ?thesis
      by (cases "resp_json resp") (auto simp: refresh_access_token_reply Let_def)
  next
    case False
    with reply assms show ?thesis
      by (simp add: refresh_access_token_reply Let_def)
  qed
next
  case (noreply rs)
  with assms show ?thesis
    by (auto simp: refresh_access_token_noreply)
qed

lemma refresh_access_token_frame:
  assumes "refresh_access_token cfg s = (r, s')"
  shows "access_token s' = access_token s \<and> files s' = files s \<and> cred_st.more s' = cred_st.more s"
proof -
  note eq = refresh_access_token_effect [OF assms]
  show ?thesis
    using arg_cong [OF eq, of access_token] arg_cong [OF eq, of files]
      arg_cong [OF eq, of cred_st.more]
    by simp
qed

subsection \<open>Properties of the Token Manager\<close>

definition demo_config :: config where
  "demo_config =
     \<lparr>client_id = PyStr ''cid'', client_secret = PyStr ''secret'', tenant_id = PyStr ''tenant'',
      redirect_uri = PyStr ''https://localhost/cb'', allowed_user_id = 42,
      test_recipients = [''qa@example.org''], prod_recipients = [''office@example.org''],
      bot_username = ''JcBot''\<rparr>"

definition token_reply :: "string \<Rightarrow> string \<Rightarrow> net_result" where
  "token_reply a r = Reply (Response 200 '''' (Some [(''access_token'', a), (''refresh_token'', r)]))"

definition demo_cred :: "net_result list \<Rightarrow> cred_st" where
  "demo_cred rs = \<lparr>files = Map.empty, net = rs, http_log = [],
                    access_token = PyStr ''A1'', refresh_token = PyStr ''R1''\<rparr>"

text \<open>
  C2. A refresh whose answer rotates the refresh token stores the new one, and the
  next refresh sends it: the two token requests carry the old and then the rotated
  refresh token, whatever the second answer is and even when the first answer lacks
  an access token.
\<close>

theorem refresh_rotation_captured:
  assumes "net s = Reply (Response 200 txt (Some kvs)) # rs"
    and "json_get kvs ''refresh_token'' = Some r"
    and "refresh_access_token cfg s = (res1, s1)"
    and "refresh_access_token cfg s1 = (res2, s2)"
  shows "http_log s2 = http_log s @ [refresh_request cfg (refresh_token s), refresh_request cfg (PyStr r)]"
proof -
  from assms(1-3)
  have "refresh_token s1 = PyStr r \<and> http_log s1 = http_log s @ [refresh_request cfg (refresh_token s)]"
    by (auto simp: refresh_access_token_def exc_simps response_json_def)
  moreover have "http_log s2 = http_log s1 @ [refresh_request cfg (refresh_token s1)]"
    using arg_cong [OF refresh_access_token_effect [OF assms(4)], of http_log] by simp
  ultimately show ?thesis by simp
qed

theorem refresh_rotation_captured_witness:
  "http_log (snd (refresh_access_token demo_config (snd (refresh_access_token demo_config
      (demo_cred [token_reply ''A2'' ''R2'', token_reply ''A3'' ''R3'']))))) =
   [refresh_request demo_config (PyStr ''R1''), refresh_request demo_config (PyStr ''R2'')]"
proof -
  let ?s = "demo_cred [token_reply ''A2'' ''R2'', token_reply ''A3'' ''R3'']"
  let ?s1 = "snd (refresh_access_token demo_config ?s)"
  have "net ?s = Reply (Response 200 '''' (Some [(''access_token'', ''A2''), (''refresh_token'', ''R2'')]))
                 # [token_reply ''A3'' ''R3'']"
    by (simp add: demo_cred_def token_reply_def)
  from refresh_rotation_captured [OF this, of "''R2''" demo_config
      "fst (refresh_access_token demo_config ?s)" ?s1
      "fst (refresh_access_token demo_config ?s1)" "snd (refresh_access_token demo_config ?s1)"]
  show ?thesis by (simp add: json_get_def demo_cred_def)
qed

text \<open>
  C19. A successful refresh (status 200, a JSON body with \<^verbatim>\<open>access_token\<close>)
  posts one request with the current refresh token, returns the new access token,
  keeps the stored access token, and stores the rotated refresh token if the answer
  has one and the old one otherwise.
\<close>

theorem refresh_success:
  assumes "net s = Reply resp # rs" and "status_code resp = 200"
    and "resp_json resp = Some kvs" and "json_get kvs ''access_token'' = Some a"
  shows "refresh_access_token cfg s =
           (Inr a, s\<lparr>http_log := http_log s @ [refresh_request cfg (refresh_token s)], net := rs,
                     refresh_token := rotated kvs (refresh_token s)\<rparr>)"
  using assms by (simp add: refresh_access_token_def exc_simps response_json_def rotated_def split: option.split)

theorem refresh_success_witness:
  "refresh_access_token demo_config (demo_cred [token_reply ''A2'' ''R2'']) =
     (Inr ''A2'', (demo_cred [])\<lparr>http_log := [refresh_request demo_config (PyStr ''R1'')],
                                 refresh_token := PyStr ''R2''\<rparr>)"
  using refresh_success [of "demo_cred [token_reply ''A2'' ''R2'']"
      "Response 200 '''' (Some [(''access_token'', ''A2''), (''refresh_token'', ''R2'')])" "[]"
      "[(''access_token'', ''A2''), (''refresh_token'', ''R2'')]" "''A2''" demo_config]
  by (simp add: demo_cred_def token_reply_def json_get_def rotated_def)

text \<open>
  C16. A refresh answered with any status other than 200 raises the refresh error
  after one request and changes neither token: the failure is fatal for the call and
  not retried inside \<^verbatim>\<open>refresh_access_token\<close>.
\<close>

theorem refresh_non_200:
  assumes "net s = Reply resp # rs" and "status_code resp \<noteq> 200"
  shows "refresh_access_token cfg s =
           (Inl TokenRefreshError,
            s\<lparr>http_log := http_log s @ [refresh_request cfg (refresh_token s)], net := rs\<rparr>)"
  using assms by (simp add: refresh_access_token_def exc_simps)

theorem refresh_non_200_witness:
  "refresh_access_token demo_config (demo_cred [Reply (Response 400 ''invalid_grant'' None)]) =
     (Inl TokenRefreshError, (demo_cred [])\<lparr>http_log := [refresh_request demo_config (PyStr ''R1'')]\<rparr>)"
  using refresh_non_200 [of "demo_cred [Reply (Response 400 ''invalid_grant'' None)]"
      "Response 400 ''invalid_grant'' None" "[]" demo_config]
  by (simp add: demo_cred_def)

end
