(* ===== verification/Base64.thy ===== *)
theory Base64
  imports Bot_Prelude "HOL-Library.Word"
begin

text \<open>
  Line 103 of \<^verbatim>\<open>src/main.py\<close>, \<^verbatim>\<open>base64.b64encode(file.read()).decode('utf-8')\<close>,
  which turns the bytes of the filled document into the \<^verbatim>\<open>contentBytes\<close> of the
  mail.  \<open>b64encode\<close> takes the bytes three at a time into a 24-bit group held in a
  32-bit word and cuts it into four 6-bit indices into the Base64 alphabet with
  shifts and masks; a last group of one or two bytes is padded with zero bits and
  \<^verbatim>\<open>=\<close>.  \<open>rfc_encode\<close> is the definition of RFC 4648, section 4, on the byte
  values as numbers, and \<open>rfc_decode\<close> its inverse.  Every character of the result
  is ASCII, so \<^verbatim>\<open>.decode('utf-8')\<close> maps its bytes to the same characters.
\<close>

unbundle bit_operations_syntax

type_synonym byte = "8 word"

definition b64_table :: string where
  "b64_table = ''ABCDEFGHIJKLMNOPQRSTUVWXYZabcdefghijklmnopqrstuvwxyz0123456789+/''"

subsection \<open>The encoder on words\<close>

definition group24 :: "byte \<Rightarrow> byte \<Rightarrow> byte \<Rightarrow> 32 word" where
  "group24 a b c = push_bit 16 (ucast a) OR push_bit 8 (ucast b) OR ucast c"

definition sextet :: "nat \<Rightarrow> 32 word \<Rightarrow> char" where
  "sextet k w = b64_table ! unat (drop_bit k w AND 0x3F)"

fun b64encode :: "byte list \<Rightarrow> string" where
  "b64encode (a # b # c # rest) =
     (let w = group24 a b c in [sextet 18 w, sextet 12 w, sextet 6 w, sextet 0 w]) @ b64encode rest"
| "b64encode [a, b] = (let w = group24 a b 0 in [sextet 18 w, sextet 12 w, sextet 6 w, CHR ''=''])"
| "b64encode [a] = (let w = group24 a 0 0 in [sextet 18 w, sextet 12 w, CHR ''='', CHR ''=''])"
| "b64encode [] = []"

subsection \<open>The reference: RFC 4648 on numbers\<close>

definition digit :: "nat \<Rightarrow> char" where
  "digit i = b64_table ! i"

fun rfc_encode :: "nat list \<Rightarrow> string" where
  "rfc_encode (a # b # c # rest) =
     (let n = a * 65536 + b * 256 + c in
      map digit [n div 262144, n div 4096 mod 64, n div 64 mod 64, n mod 64]) @ rfc_encode rest"
| "rfc_encode [a, b] =
     (let n = a * 65536 + b * 256 in map digit [n div 262144, n div 4096 mod 64, n div 64 mod 64] @ ''='')"
| "rfc_encode [a] = (let n = a * 65536 in map digit [n div 262144, n div 4096 mod 64] @ ''=='')"
| "rfc_encode [] = []"

definition b64_index :: "char \<Rightarrow> nat option" where
  "b64_index c = map_of (zip b64_table [0..<64]) c"

fun rfc_decode :: "string \<Rightarrow> nat list option" where
  "rfc_decode (c1 # c2 # c3 # c4 # rest) =
     (case (b64_index c1, b64_index c2) of
        (Some d1, Some d2) \<Rightarrow>
          if c3 = CHR ''='' \<and> c4 = CHR ''='' \<and> rest = [] then
            Some [(d1 * 262144 + d2 * 4096) div 65536]
          else (case b64_index c3 of
            None \<Rightarrow> None
          | Some d3 \<Rightarrow>
              if c4 = CHR ''='' \<and> rest = [] then
                (let n = d1 * 262144 + d2 * 4096 + d3 * 64 in Some [n div 65536, n div 256 mod 256])
              else (case (b64_index c4, rfc_decode rest) of
                (Some d4, Some bs) \<Rightarrow>
                  (let n = d1 * 262144 + d2 * 4096 + d3 * 64 + d4 in
                   Some ([n div 65536, n div 256 mod 256, n mod 256] @ bs))
              | _ \<Rightarrow> None))
      | _ \<Rightarrow> None)"
| "rfc_decode [] = Some []"
| "rfc_decode _ = None"

subsection \<open>Word and arithmetic lemmas\<close>

lemma unat_and_63: "unat (x AND 0x3F :: 32 word) = unat x mod 64"
proof -
  have "x AND 0x3F = take_bit 6 x" by (simp add: take_bit_eq_mask mask_eq_exp_minus_1)
  then show ?thesis by (simp only: unsigned_take_bit_eq) (simp add: take_bit_eq_mod)
qed

lemma unat_sextet_index: "unat (drop_bit k w AND 0x3F :: 32 word) = unat w div 2 ^ k mod 64"
  unfolding unat_and_63 unat_drop_bit_eq by (simp add: drop_bit_eq_div)

lemma unat_byte_less: "unat (a :: byte) < 256"
  using unsigned_less [of a] by simp

lemma unat_push_byte: "n \<le> 24 \<Longrightarrow> unat (push_bit n (ucast (a :: byte)) :: 32 word) = unat a * 2 ^ n"
proof -
  assume n: "n \<le> 24"
  have "unat a * 2 ^ n \<le> 255 * 2 ^ 24"
    using unat_byte_less [of a] power_increasing [OF n, of "2::nat"] by (intro mult_le_mono) simp_all
  then have "unat a * 2 ^ n < 2 ^ 32" by simp
  then show ?thesis
    by (simp only: unsigned_push_bit_eq unsigned_ucast_eq)
      (simp add: take_bit_eq_mod push_bit_eq_mult less_trans [OF unat_byte_less])
qed

lemma group24_plus:
  "group24 a b c = push_bit 16 (ucast a) + (push_bit 8 (ucast b) + ucast c)"
proof -
  have 1: "push_bit 8 (ucast b) + ucast c = (push_bit 8 (ucast b) OR ucast c :: 32 word)"
    by (rule disjunctive_add) (auto simp: bit_simps dest: bit_imp_le_length)
  have 2: "push_bit 16 (ucast a) + (push_bit 8 (ucast b) OR ucast c) = (push_bit 16 (ucast a) OR push_bit 8 (ucast b) OR ucast c :: 32 word)"
    by (rule disjunctive_add) (auto simp: bit_simps dest: bit_imp_le_length)
  show ?thesis unfolding group24_def 1 2 ..
qed

lemma unat_group24:
  "unat (group24 a b c) = unat a * 65536 + unat b * 256 + unat c"
proof -
  have "unat a * 65536 + unat b * 256 + unat c < 2 ^ 32"
    using unat_byte_less [of a] unat_byte_less [of b] unat_byte_less [of c] by simp
  then show ?thesis
    unfolding group24_plus
    by (simp add: unat_add_lem [THEN iffD1] unat_push_byte unsigned_ucast_eq take_bit_eq_mod unat_byte_less)
qed

lemma length_b64_table [simp]: "length b64_table = 64"
  by (simp add: b64_table_def)

lemma distinct_b64_table: "distinct b64_table"
  by (simp add: b64_table_def)

lemma pad_not_in_table [simp]: "CHR ''='' \<notin> set b64_table"
  by (simp add: b64_table_def)

lemma digit_ne_pad [simp]: "i < 64 \<Longrightarrow> digit i \<noteq> CHR ''=''"
  by (metis digit_def length_b64_table nth_mem pad_not_in_table)

lemma b64_index_digit [simp]: "i < 64 \<Longrightarrow> b64_index (digit i) = Some i"
  using map_of_zip_nth [of b64_table "[0..<64]" i] distinct_b64_table
  by (simp add: b64_index_def digit_def)

lemma sextet_digit: "sextet k w = digit (unat w div 2 ^ k mod 64)"
  by (simp add: sextet_def digit_def unat_sextet_index)

lemma sextet_in_table: "sextet k w \<in> set b64_table"
  by (simp add: sextet_digit digit_def)

lemma sextet_group24:
  "sextet k (group24 a b c) =
     digit (if k = 18 then (unat a * 65536 + unat b * 256 + unat c) div 262144
            else (unat a * 65536 + unat b * 256 + unat c) div 2 ^ k mod 64)"
proof -
  have "(unat a * 65536 + unat b * 256 + unat c) div 262144 < 64"
    using unat_byte_less [of a] unat_byte_less [of b] unat_byte_less [of c] by simp
  then show ?thesis by (simp add: sextet_digit unat_group24)
qed

lemma sextets_recombine:
  "n div 262144 * 262144 + n div 4096 mod 64 * 4096 + n div 64 mod 64 * 64 + n mod 64 = (n::nat)"
proof -
  have "n mod 262144 = 4096 * (n div 4096 mod 64) + n mod 4096"
    using mod_mult2_eq [of n 4096 64] by simp
  moreover have "n mod 4096 = 64 * (n div 64 mod 64) + n mod 64"
    using mod_mult2_eq [of n 64 64] by simp
  moreover have "n div 262144 * 262144 + n mod 262144 = n" by simp
  ultimately show ?thesis by linarith
qed

lemma div_mod_digit:
  assumes "(c::nat) < k"
  shows "(x * k + c) div k = x" and "(x * k + c) mod k = c"
  using assms by simp_all

lemma group_bytes:
  assumes "a < 256" "b < 256" "c < 256"
  shows "(a * 65536 + b * 256 + c) div 65536 = (a::nat)"
    and "(a * 65536 + b * 256 + c) div 256 mod 256 = b"
    and "(a * 65536 + b * 256 + c) mod 256 = c"
proof -
  have n: "a * 65536 + b * 256 + c = (a * 256 + b) * 256 + c" by simp
  have d: "(a * 65536 + b * 256 + c) div 256 = a * 256 + b"
    unfolding n using assms(3) by (rule div_mod_digit)
  show "(a * 65536 + b * 256 + c) div 256 mod 256 = b"
    unfolding d using assms(2) by (rule div_mod_digit)
  show "(a * 65536 + b * 256 + c) mod 256 = c"
    unfolding n using assms(3) by (rule div_mod_digit)
  have "(a * 65536 + b * 256 + c) div 65536 = (a * 65536 + b * 256 + c) div 256 div 256"
    by (simp add: div_mult2_eq)
  then show "(a * 65536 + b * 256 + c) div 65536 = a"
    unfolding d using assms(2) by (simp add: div_mod_digit)
qed

lemma rfc_decode_group3:
  assumes abc: "a < 256" "b < 256" "c < 256"
  shows "rfc_decode (rfc_encode [a, b, c] @ s) = map_option ((@) [a, b, c]) (rfc_decode s)"
proof -
  define n where "n = a * 65536 + b * 256 + c"
  have "n div 262144 < 64" using abc unfolding n_def by simp
  then show ?thesis
    using group_bytes [OF abc] sextets_recombine [of n]
    by (simp add: n_def [symmetric] Let_def split: option.split)
qed

lemma rfc_decode_group2:
  assumes ab: "a < 256" "b < 256"
  shows "rfc_decode (rfc_encode [a, b]) = Some [a, b]"
proof -
  define n where "n = a * 65536 + b * 256"
  have "n div 262144 < 64" "n mod 64 = 0" using ab unfolding n_def by simp_all
  then show ?thesis
    using group_bytes [OF ab, of 0] sextets_recombine [of n] by (simp add: n_def [symmetric] Let_def)
qed

lemma rfc_decode_group1:
  assumes "a < 256"
  shows "rfc_decode (rfc_encode [a]) = Some [a]"
proof -
  have "a * 65536 div 262144 < 64" using assms by simp
  moreover have "a * 65536 mod 64 = 0" "a * 65536 div 64 mod 64 = 0" by simp_all
  ultimately show ?thesis using sextets_recombine [of "a * 65536"] group_bytes [OF assms, of 0 0]
    by (simp add: Let_def)
qed

lemma b64encode_groups:
  "b64encode (a # b # c # rest) = rfc_encode [unat a, unat b, unat c] @ b64encode rest"
  "b64encode [a, b] = rfc_encode [unat a, unat b]"
  "b64encode [a] = rfc_encode [unat a]"
  by (simp_all add: sextet_group24 Let_def)

lemma b64_alphabet_ascii: "list_all (\<lambda>c. of_char c < (128::nat)) (b64_table @ ''='')"
  by (simp add: b64_table_def)

subsection \<open>Properties of the encoder\<close>

text \<open>The word-level encoder computes the RFC 4648 encoding: cutting the
  24-bit group held in a 32-bit word with \<open>drop_bit\<close> and \<open>AND 0x3F\<close> gives the
  same four indices as the arithmetic of the standard, and a short last group is
  padded with one or two \<^verbatim>\<open>=\<close>.\<close>

theorem b64encode_rfc: "b64encode bs = rfc_encode (map unat bs)"
  by (induction bs rule: b64encode.induct) (simp_all add: sextet_group24 Let_def)

text \<open>Decoding the text that line 103 puts into \<^verbatim>\<open>contentBytes\<close> gives back
  exactly the bytes of the file: no byte is lost, changed or added, also when
  the length of the file is not a multiple of three.\<close>

theorem b64encode_roundtrip: "rfc_decode (b64encode bs) = Some (map unat bs)"
proof (induction bs rule: b64encode.induct)
  case (1 a b c rest)
  have "rfc_decode (b64encode (a # b # c # rest)) =
      map_option ((@) [unat a, unat b, unat c]) (rfc_decode (b64encode rest))"
    unfolding b64encode_groups(1) by (rule rfc_decode_group3) (rule unat_byte_less)+
  with 1 show ?case by simp
qed (simp_all only: b64encode_groups rfc_decode_group2 rfc_decode_group1 unat_byte_less list.map,
     simp_all)

text \<open>The encoded attachment has exactly four characters for every started
  group of three bytes, \<open>4 * ceil(n / 3)\<close>.\<close>

theorem b64encode_length: "length (b64encode bs) = 4 * ((length bs + 2) div 3)"
proof (induction bs rule: b64encode.induct)
  case (1 a b c rest)
  have "(5 + length rest) div 3 = Suc ((2 + length rest) div 3)" by simp
  with 1 show ?case by (simp add: Let_def)
qed (simp_all add: Let_def)

text \<open>Every character of the encoding is a letter of the Base64 alphabet or
  the pad \<^verbatim>\<open>=\<close>, all below 128, so \<^verbatim>\<open>.decode('utf-8')\<close> on line 103 never raises
  and the string placed into the JSON body is the encoding itself.\<close>

theorem b64encode_ascii:
  "set (b64encode bs) \<subseteq> set b64_table \<union> {CHR ''=''} \<and>
   list_all (\<lambda>c. of_char c < (128::nat)) (b64encode bs)"
proof -
  have sub: "set (b64encode bs) \<subseteq> set b64_table \<union> {CHR ''=''}"
    by (induction bs rule: b64encode.induct) (auto simp: Let_def sextet_in_table)
  moreover have "\<forall>c \<in> set b64_table \<union> {CHR ''=''}. of_char c < (128::nat)"
    using b64_alphabet_ascii by (simp only: list_all_iff set_append set_simps Un_empty_right)
  ultimately show ?thesis unfolding list_all_iff by blast
qed

end
