(* ===== verification/Mail.thy ===== *)
theory Mail
  imports Token Base64
begin

text \<open>
  The Mail Dispatcher: \<^verbatim>\<open>send_email\<close> (\<^verbatim>\<open>src/main.py\<close>, lines 99--138).  It
  reads the bytes of the filled document back from the file system, encodes them in
  Base64 (line 103, theory \<open>Base64\<close>), posts them to Microsoft Graph with the
  access token held at the time, and, when the answer is 401 with
  \<^verbatim>\<open>InvalidAuthenticationToken\<close> in its body, refreshes the token through the
  Token Manager, stores it in \<^verbatim>\<open>ACCESS_TOKEN\<close> and posts once more.  Whatever
  the last answer is, its status and text are returned; an exception of the refresh
  or of a post leaves the function.
\<close>

definition send_mail_url :: string where
  "send_mail_url = ''https://graph.microsoft.com/v1.0/me/sendMail''"

definition mail_headers :: "pyval \<Rightarrow> (string \<times> string) list" where
  "mail_headers tok = [(''Authorization'', ''Bearer '' @ py_format tok), (''Content-Type'', ''application/json'')]"

definition build_email_data :: "string list \<Rightarrow> string \<Rightarrow> email_data" where
  "build_email_data recipients file =
     \<lparr>to_recipients = recipients, content_bytes = file, save_to_sent_items = ''true''\<rparr>"

definition mail_request :: "pyval \<Rightarrow> email_data \<Rightarrow> http_req" where
  "mail_request tok data = Post send_mail_url (mail_headers tok) (Json data)"

text \<open>
  The bytes of a saved document.  The file system holds the document python-docx
  saved; its bytes are those of the \<^verbatim>\<open>.docx\<close> package, which python-docx writes
  and which is not modelled.  \<open>docx_bytes\<close> stands in for that serialisation: the
  body of \<^verbatim>\<open>word/document.xml\<close>, one \<^verbatim>\<open><w:p>\<close> per paragraph and one
  \<^verbatim>\<open><w:r><w:t>\<close> per run, a character per byte.  What the mail carries is
  proved of every byte list, so nothing below depends on this choice.
\<close>

definition docx_xml :: "document \<Rightarrow> string" where
  "docx_xml doc =
     concat (map (\<lambda>p. ''<w:p>'' @ concat (map (\<lambda>r. ''<w:r><w:t>'' @ run_text r @ ''</w:t></w:r>'') p)
                       @ ''</w:p>'') (paragraphs doc))"

definition docx_bytes :: "document \<Rightarrow> byte list" where
  "docx_bytes doc = map (\<lambda>c. of_nat (of_char c)) (docx_xml doc)"

text \<open>\<^verbatim>\<open>open(file_path, "rb").read()\<close>: the bytes of the file, or
  \<^verbatim>\<open>FileNotFoundError\<close>.\<close>

definition read_file :: "string \<Rightarrow> ('a fs_st_scheme, byte list) exc_st" where
  "read_file path s =
     (case files s path of
        None \<Rightarrow> (Inl (FileNotFoundError path), s)
      | Some d \<Rightarrow> (Inr (docx_bytes d), s))"

text \<open>The mail body built from a document on disk: line 103 encodes the file's bytes,
  lines 111--128 put the text into \<^verbatim>\<open>contentBytes\<close>.\<close>

abbreviation mail_data :: "string list \<Rightarrow> document \<Rightarrow> email_data" where
  "mail_data rcpts doc \<equiv> build_email_data rcpts (b64encode (docx_bytes doc))"

text \<open>The retry condition of line 131.\<close>

definition token_expired :: "response \<Rightarrow> bool" where
  "token_expired r \<longleftrightarrow> status_code r = 401 \<and> py_in ''InvalidAuthenticationToken'' (resp_text r)"

definition send_email :: "config \<Rightarrow> string \<Rightarrow> string list \<Rightarrow> ('a cred_st_scheme, int \<times> string) exc_st" where
  "send_email cfg file_path recipients =
     bindE (read_file file_path) (\<lambda>file.
     (let encoded_file = b64encode file in
     bindE (getsE access_token) (\<lambda>tok.
     (let data = build_email_data recipients encoded_file in
      bindE (post (mail_request tok data)) (\<lambda>response.
      bindE (if token_expired response then
               bindE (refresh_access_token cfg) (\<lambda>new_token.
               thenE (modifyE (\<lambda>s. s\<lparr>access_token := PyStr new_token\<rparr>))
                     (post (mail_request (PyStr new_token) data)))
             else returnE response) (\<lambda>response.
      returnE (status_code response, resp_text response)))))))"

subsection \<open>Execution lemmas\<close>

lemma read_file_Some [exc_simps]:
  "files s path = Some d \<Longrightarrow> read_file path s = (Inr (docx_bytes d), s)"
  and read_file_None [exc_simps]:
  "files s path = None \<Longrightarrow> read_file path s = (Inl (FileNotFoundError path), s)"
  by (simp_all add: read_file_def)

lemma send_email_no_file:
  "files s path = None \<Longrightarrow> send_email cfg path rcpts s = (Inl (FileNotFoundError path), s)"
  by (simp add: send_email_def bindE_def read_file_def)

text \<open>The first post, for a file that is there: its request and what follows from its answer.\<close>

lemma send_email_first_post:
  assumes "files s path = Some doc"
  shows "send_email cfg path rcpts s =
           (let data = mail_data rcpts doc in
            bindE (post (mail_request (access_token s) data)) (\<lambda>response.
            bindE (if token_expired response then
                     bindE (refresh_access_token cfg) (\<lambda>new_token.
                     thenE (modifyE (\<lambda>s. s\<lparr>access_token := PyStr new_token\<rparr>))
                           (post (mail_request (PyStr new_token) data)))
                   else returnE response) (\<lambda>response.
            returnE (status_code response, resp_text response))) s)"
  using assms by (simp add: send_email_def bindE_def read_file_def getsE_def Let_def)

lemma post_cases:
  obtains (reply) resp rs where "net s = Reply resp # rs"
      and "post r s = (Inr resp, s\<lparr>http_log := http_log s @ [r], net := rs\<rparr>)"
  | (fail) "fst (post r s) = Inl ConnectionError"
      and "snd (post r s) = s\<lparr>http_log := http_log s @ [r], net := drop 1 (net s)\<rparr>"
proof (cases "net s")
  case Nil
  then show ?thesis using that(2) by (simp add: post_empty)
next
  case (Cons h t)
  then show ?thesis using that by (cases h) (simp_all add: post_Reply post_ConnError)
qed

text \<open>
  Every run of \<^verbatim>\<open>send_email\<close> on a file that is there ends in one of three
  states: after the first post (no answer, or an answer that is not an expired
  token), after the first post and the refresh (the refresh raised), or after both
  posts and the refresh.  Nothing else of the state changes.
\<close>

lemma send_email_run:
  assumes run: "send_email cfg path rcpts s = (x, s')" and has_file: "files s path = Some doc"
  obtains (one) "s' = s\<lparr>http_log := http_log s @ [mail_request (access_token s) (mail_data rcpts doc)],
                     net := drop 1 (net s)\<rparr>"
  | (two) rt where "s' = s\<lparr>http_log := http_log s @ [mail_request (access_token s) (mail_data rcpts doc),
                                                   refresh_request cfg (refresh_token s)],
                        net := drop 2 (net s), refresh_token := rt\<rparr>"
  | (three) tok rt where
      "s' = s\<lparr>http_log := http_log s @ [mail_request (access_token s) (mail_data rcpts doc),
                                       refresh_request cfg (refresh_token s),
                                       mail_request tok (mail_data rcpts doc)],
            net := drop 3 (net s), access_token := tok, refresh_token := rt\<rparr>"
proof -
  define data where "data = mail_data rcpts doc"
  define m1 where "m1 = mail_request (access_token s) data"
  define s1 where "s1 = s\<lparr>http_log := http_log s @ [m1], net := drop 1 (net s)\<rparr>"
  have send: "send_email cfg path rcpts s =
      bindE (post m1) (\<lambda>response.
      bindE (if token_expired response then
               bindE (refresh_access_token cfg) (\<lambda>new_token.
               thenE (modifyE (\<lambda>s. s\<lparr>access_token := PyStr new_token\<rparr>))
                     (post (mail_request (PyStr new_token) data)))
             else returnE response) (\<lambda>response.
      returnE (status_code response, resp_text response))) s"
    using has_file unfolding data_def m1_def by (simp add: send_email_first_post Let_def)
  obtain y1 where p1: "post m1 s = (y1, s1)"
    using post_effect [of m1 s] unfolding s1_def by (metis prod.collapse)
  show ?thesis
  proof (cases "\<exists>resp. y1 = Inr resp \<and> token_expired resp")
    case False
    with run send p1 have "s' = s1"
      by (cases y1) (auto simp: bindE_def returnE_def)
    then show ?thesis using one by (simp add: s1_def m1_def data_def)
  next
    case True
    then obtain resp where y1: "y1 = Inr resp" and exp: "token_expired resp" by blast
    obtain y2 s2 where rf: "refresh_access_token cfg s1 = (y2, s2)" by fastforce
    obtain rt2 where s2: "s2 = s1\<lparr>http_log := http_log s1 @ [refresh_request cfg (refresh_token s1)],
                      net := drop 1 (net s1), refresh_token := rt2\<rparr>"
      using refresh_access_token_effect [OF rf] by blast
    show ?thesis
    proof (cases y2)
      case (Inl e)
      with run send p1 y1 exp rf have "s' = s2" by (simp add: bindE_def)
      with s2 show ?thesis
        by (intro two [of rt2]) (simp add: s1_def m1_def data_def numeral_2_eq_2)
    next
      case (Inr a)
      define m2 where "m2 = mail_request (PyStr a) data"
      obtain y3 s3 where p2: "post m2 (s2\<lparr>access_token := PyStr a\<rparr>) = (y3, s3)" by fastforce
      have s3: "s3 = s2\<lparr>access_token := PyStr a, http_log := http_log s2 @ [m2], net := drop 1 (net s2)\<rparr>"
        using post_effect [OF p2] by simp
      from run send p1 y1 exp rf Inr p2 have "s' = s3"
        by (cases y3) (simp_all add: bindE_def thenE_def modifyE_def returnE_def m2_def)
      with s3 s2 show ?thesis
        by (intro three [where tok = "PyStr a" and rt = rt2]) (simp add: s1_def m1_def m2_def data_def numeral_3_eq_3)
    qed
  qed
qed

lemma send_email_effect:
  "send_email cfg path rcpts s = (x, s') \<Longrightarrow>
   s' = s\<lparr>http_log := http_log s', net := net s', access_token := access_token s',
          refresh_token := refresh_token s'\<rparr>"
  by (cases "files s path") (auto simp: send_email_no_file elim: send_email_run)

text \<open>What the first answer decides: no retry, or the refresh-and-retry path.\<close>

lemma send_email_first_reply:
  assumes "files s path = Some doc" and "net s = Reply r1 # rs"
  shows "send_email cfg path rcpts s =
     (let data = mail_data rcpts doc;
          s1 = s\<lparr>http_log := http_log s @ [mail_request (access_token s) data], net := rs\<rparr> in
      if token_expired r1 then
        bindE (bindE (refresh_access_token cfg) (\<lambda>new_token.
               thenE (modifyE (\<lambda>s. s\<lparr>access_token := PyStr new_token\<rparr>))
                     (post (mail_request (PyStr new_token) data))))
              (\<lambda>response. returnE (status_code response, resp_text response)) s1
      else (Inr (status_code r1, resp_text r1), s1))"
  using assms by (simp add: send_email_first_post bindE_def post_Reply returnE_def Let_def)

subsection \<open>Properties of the Mail Dispatcher\<close>

definition demo_doc :: document where
  "demo_doc = \<lparr>paragraphs = [[\<lparr>run_text = ''x'', font_name = None, font_size = None\<rparr>]]\<rparr>"

definition mail_state :: "net_result list \<Rightarrow> cred_st" where
  "mail_state rs = (demo_cred rs)\<lparr>files := [output_file \<mapsto> demo_doc]\<rparr>"

definition expired_reply :: response where
  "expired_reply = Response 401 ''{\"error\":{\"code\":\"InvalidAuthenticationToken\"}}'' None"

text \<open>
  C1. When the first answer is 401 with \<^verbatim>\<open>InvalidAuthenticationToken\<close> and the
  refresh succeeds, \<^verbatim>\<open>send_email\<close> makes exactly three requests in this order:
  the mail with the old access token, one refresh with the current refresh token,
  and the mail again with the new access token, which it stores; the answer to the
  second mail is returned as it is, even a second 401, which is not retried.
\<close>

theorem send_email_retry_once:
  assumes "files s path = Some doc"
    and "net s = Reply r1 # Reply tr # Reply r2 # rs" and "token_expired r1"
    and "status_code tr = 200" and "resp_json tr = Some kvs"
    and "json_get kvs ''access_token'' = Some a"
  shows "send_email cfg path rcpts s =
           (Inr (status_code r2, resp_text r2),
            s\<lparr>http_log := http_log s @ [mail_request (access_token s) (mail_data rcpts doc),
                                      refresh_request cfg (refresh_token s),
                                      mail_request (PyStr a) (mail_data rcpts doc)],
              net := rs, access_token := PyStr a, refresh_token := rotated kvs (refresh_token s)\<rparr>)"
  using assms
  by (cases "json_get kvs ''refresh_token''")
    (simp_all add: send_email_def refresh_access_token_def exc_simps response_json_def rotated_def
      Let_def)

theorem send_email_retry_once_witness:
  "send_email demo_config output_file [''a@example.org'']
     (mail_state [Reply expired_reply, token_reply ''A2'' ''R2'', Reply expired_reply]) =
   (Inr (401, resp_text expired_reply),
    (mail_state [])\<lparr>http_log :=
        [mail_request (PyStr ''A1'') (mail_data [''a@example.org''] demo_doc),
         refresh_request demo_config (PyStr ''R1''),
         mail_request (PyStr ''A2'') (mail_data [''a@example.org''] demo_doc)],
      access_token := PyStr ''A2'', refresh_token := PyStr ''R2''\<rparr>)"
proof -
  have expired: "token_expired expired_reply"
    by (simp add: token_expired_def expired_reply_def starts_with_def)
  show ?thesis
    using send_email_retry_once [of "mail_state [Reply expired_reply, token_reply ''A2'' ''R2'', Reply expired_reply]"
        output_file demo_doc expired_reply
        "Response 200 '''' (Some [(''access_token'', ''A2''), (''refresh_token'', ''R2'')])"
        expired_reply "[]" "[(''access_token'', ''A2''), (''refresh_token'', ''R2'')]" "''A2''"
        demo_config "[''a@example.org'']"] expired
    by (simp add: mail_state_def demo_cred_def token_reply_def json_get_def rotated_def
        expired_reply_def)
qed

text \<open>
  C17. An answer that is not 401 with \<^verbatim>\<open>InvalidAuthenticationToken\<close> (a 202, a
  400, a 401 for another reason) is returned as it is after one request, and the
  tokens are left alone.
\<close>

theorem send_email_no_retry:
  assumes "files s path = Some doc" and "net s = Reply r1 # rs" and "\<not> token_expired r1"
  shows "send_email cfg path rcpts s =
           (Inr (status_code r1, resp_text r1),
            s\<lparr>http_log := http_log s @ [mail_request (access_token s) (mail_data rcpts doc)],
              net := rs\<rparr>)"
  using assms by (simp add: send_email_first_reply)

theorem send_email_no_retry_witness:
  "send_email demo_config output_file [''a@example.org''] (mail_state [Reply (Response 202 '''' None)]) =
   (Inr (202, ''''),
    (mail_state [])\<lparr>http_log := [mail_request (PyStr ''A1'') (mail_data [''a@example.org''] demo_doc)]\<rparr>)"
  using send_email_no_retry [of "mail_state [Reply (Response 202 '''' None)]" output_file demo_doc
      "Response 202 '''' None" "[]" demo_config "[''a@example.org'']"]
  by (simp add: mail_state_def demo_cred_def token_expired_def)

text \<open>
  C11. Whatever the servers answer, \<^verbatim>\<open>send_email\<close> posts at most three requests,
  in this order and no other: the mail with the access token held at the call, a
  refresh with the refresh token held at the call, the mail again (with the token the
  refresh returned).  So there is at most one refresh and at most one retry.
\<close>

theorem send_email_requests:
  "\<exists>es tok. http_log (snd (send_email cfg path rcpts s)) = http_log s @ es \<and>
     starts_with es
       [mail_request (access_token s) (mail_data rcpts (the (files s path))),
        refresh_request cfg (refresh_token s),
        mail_request tok (mail_data rcpts (the (files s path)))]"
proof -
  obtain x s' where run: "send_email cfg path rcpts s = (x, s')" by fastforce
  show ?thesis
  proof (cases "files s path")
    case None
    with run have "s' = s" by (simp add: send_email_no_file)
    with run show ?thesis by (auto simp: starts_with_def)
  next
    case (Some doc)
    from run Some show ?thesis
    proof (cases rule: send_email_run)
      case one
      with run Some show ?thesis by (auto simp: starts_with_def)
    next
      case (two rt)
      with run Some show ?thesis by (auto simp: starts_with_def)
    next
      case (three tok rt)
      with run Some show ?thesis by (auto simp: starts_with_def)
    qed
  qed
qed

text \<open>
  C12. Every mail that \<^verbatim>\<open>send_email\<close> posts, the first one and the retry alike,
  goes to the \<^verbatim>\<open>sendMail\<close> endpoint, is addressed to the given recipients, and
  carries in \<^verbatim>\<open>contentBytes\<close> an ASCII text (so \<^verbatim>\<open>.decode('utf-8')\<close> on
  line 103 cannot raise) whose Base64 decoding is exactly the bytes of the file at
  \<^verbatim>\<open>file_path\<close>: the attachment is the filled document, byte for byte.
\<close>

theorem send_email_attachment:
  assumes "files s path = Some doc" and "send_email cfg path rcpts s = (x, s')"
    and "Post url hs (Json d) \<in> set (drop (length (http_log s)) (http_log s'))"
  shows "url = send_mail_url \<and> to_recipients d = rcpts \<and>
         rfc_decode (content_bytes d) = Some (map unat (docx_bytes doc)) \<and>
         list_all (\<lambda>c. of_char c < (128::nat)) (content_bytes d)"
proof -
  have mail: "d = mail_data rcpts doc \<and> url = send_mail_url"
    using assms(2,1,3)
    by (cases rule: send_email_run) (auto simp: mail_request_def refresh_request_def)
  then show ?thesis
    using b64encode_ascii [of "docx_bytes doc"]
    by (simp add: build_email_data_def b64encode_roundtrip)
qed

theorem send_email_attachment_witness:
  "to_recipients (mail_data [''a@example.org''] demo_doc) = [''a@example.org''] \<and>
   rfc_decode (content_bytes (mail_data [''a@example.org''] demo_doc)) =
     Some (map unat (docx_bytes demo_doc))"
proof -
  have run: "send_email demo_config output_file [''a@example.org''] (mail_state [Reply (Response 202 '''' None)]) =
     (Inr (202, ''''),
      (mail_state [])\<lparr>http_log := [mail_request (PyStr ''A1'') (mail_data [''a@example.org''] demo_doc)]\<rparr>)"
    by (simp add: send_email_first_reply mail_state_def demo_cred_def token_expired_def)
  show ?thesis
    using send_email_attachment [OF _ run, of demo_doc send_mail_url "mail_headers (PyStr ''A1'')"
        "mail_data [''a@example.org''] demo_doc"]
    by (simp add: mail_state_def demo_cred_def mail_request_def)
qed

text \<open>A refresh that fails inside \<^verbatim>\<open>send_email\<close> leaves it with the exception,
  after two requests and with \<^verbatim>\<open>ACCESS_TOKEN\<close> unchanged.\<close>

lemma send_email_refresh_fails:
  assumes "files s path = Some doc" and "net s = Reply r1 # Reply tr # rs"
    and "token_expired r1" and "status_code tr \<noteq> 200"
  shows "send_email cfg path rcpts s =
           (Inl TokenRefreshError,
            s\<lparr>http_log := http_log s @ [mail_request (access_token s) (mail_data rcpts doc),
                                      refresh_request cfg (refresh_token s)],
              net := rs\<rparr>)"
  using assms
  by (simp add: send_email_first_post bindE_def post_Reply refresh_access_token_reply Let_def)

end
