(* ===== verification/Bot.thy ===== *)
theory Bot
  imports Mail
begin

text \<open>
  The Telegram side of \<^verbatim>\<open>src/main.py\<close>: the Access Guard
  (\<^verbatim>\<open>is_user_allowed\<close>, lines 141--145), the Conversation State Machine (the
  handlers \<^verbatim>\<open>start\<close>, \<^verbatim>\<open>departure_date\<close> and \<^verbatim>\<open>arrival_date\<close>, lines
  148--194, over aiogram's per-chat-and-user FSM storage), the Mode Switch
  (\<^verbatim>\<open>current_mode\<close> and \<^verbatim>\<open>change_mode\<close>, lines 45 and 197--206), and the
  dispatcher that picks the handler of an incoming message.

  The bot's state extends the Token Manager's (and through it the HTTP world's and the
  file system's) with the global mode, aiogram's \<^verbatim>\<open>MemoryStorage\<close> (a state and
  a data dictionary for each key \<open>(chat id, user id)\<close>, by aiogram's default
  strategy) and the log of what the bot sent to the chats.  A sent message is
  identified by its position in that log; \<^verbatim>\<open>update_status\<close> edits one, and
  swallows any failure of the edit (lines 69--74), so an edit is always recorded.
  The Cyrillic texts of the bot's messages are represented by the constructors of
  \<open>reply\<close>, with the values they interpolate.
\<close>

subsection \<open>Messages, replies and the bot's state\<close>

record message =
  chat_id :: int
  from_user_id :: int
  msg_text :: pyval
  caption :: pyval

datatype form_state = Departure_date | Arrival_date

datatype mode = Test | Prod

datatype reply =
    NoAccess                     \<comment> \<open>line 143\<close>
  | Greeting mode                \<comment> \<open>line 153, names the current mode\<close>
  | AskArrival                   \<comment> \<open>line 163\<close>
  | Filling                      \<comment> \<open>line 177\<close>
  | Filled                       \<comment> \<open>line 179\<close>
  | Sending                      \<comment> \<open>line 182\<close>
  | SentOk mode "string list"    \<comment> \<open>line 189: mode and \<^verbatim>\<open>', '.join(recipients)\<close>\<close>
  | SendFailed string            \<comment> \<open>line 192: the response text\<close>
  | ModeChanged mode             \<comment> \<open>line 204\<close>

datatype chat_action =
    Answer int reply             \<comment> \<open>\<^verbatim>\<open>message.answer\<close> in a chat\<close>
  | Edit int nat reply           \<comment> \<open>\<^verbatim>\<open>bot.edit_message_text\<close> of an earlier message\<close>

type_synonym fsm_key = "int \<times> int"

record bot = cred_st +
  current_mode :: mode
  fsm_state :: "fsm_key \<Rightarrow> form_state option"
  fsm_data :: "fsm_key \<Rightarrow> (string \<rightharpoonup> pyval)"
  chat_log :: "chat_action list"

subsection \<open>The chat and the FSM context\<close>

definition fsm_key :: "message \<Rightarrow> fsm_key" where
  "fsm_key m = (chat_id m, from_user_id m)"

definition answer :: "message \<Rightarrow> reply \<Rightarrow> (bot, nat) exc_st" where
  "answer m r s = (Inr (length (chat_log s)), s\<lparr>chat_log := chat_log s @ [Answer (chat_id m) r]\<rparr>)"

definition update_status :: "message \<Rightarrow> nat \<Rightarrow> reply \<Rightarrow> (bot, unit) exc_st" where
  "update_status m status_message new_text =
     modifyE (\<lambda>s. s\<lparr>chat_log := chat_log s @ [Edit (chat_id m) status_message new_text]\<rparr>)"

definition set_state :: "message \<Rightarrow> form_state option \<Rightarrow> (bot, unit) exc_st" where
  "set_state m st = modifyE (\<lambda>s. s\<lparr>fsm_state := (fsm_state s)(fsm_key m := st)\<rparr>)"

definition update_data :: "message \<Rightarrow> string \<Rightarrow> pyval \<Rightarrow> (bot, unit) exc_st" where
  "update_data m k v =
     modifyE (\<lambda>s. s\<lparr>fsm_data := (fsm_data s)(fsm_key m := (fsm_data s (fsm_key m))(k \<mapsto> v))\<rparr>)"

definition get_data :: "message \<Rightarrow> (bot, string \<rightharpoonup> pyval) exc_st" where
  "get_data m = getsE (\<lambda>s. fsm_data s (fsm_key m))"

definition clear_state :: "message \<Rightarrow> (bot, unit) exc_st" where
  "clear_state m =
     modifyE (\<lambda>s. s\<lparr>fsm_state := (fsm_state s)(fsm_key m := None),
                    fsm_data := (fsm_data s)(fsm_key m := Map.empty)\<rparr>)"

subsection \<open>Access Guard\<close>

definition is_user_allowed :: "config \<Rightarrow> message \<Rightarrow> (bot, bool) exc_st" where
  "is_user_allowed cfg m =
     (if from_user_id m \<noteq> allowed_user_id cfg
      then thenE (answer m NoAccess) (returnE False)
      else returnE True)"

text \<open>\<^verbatim>\<open>if not await is_user_allowed(message): return\<close>, the first lines of every handler.\<close>

definition guarded :: "config \<Rightarrow> message \<Rightarrow> (bot, unit) exc_st \<Rightarrow> (bot, unit) exc_st" where
  "guarded cfg m body = bindE (is_user_allowed cfg m) (\<lambda>allowed. if allowed then body else returnE ())"

subsection \<open>Mode Switch\<close>

definition toggle_mode :: "mode \<Rightarrow> mode" where
  "toggle_mode md = (if md = Test then Prod else Test)"

definition recipients_for :: "config \<Rightarrow> mode \<Rightarrow> string list" where
  "recipients_for cfg md = (if md = Test then test_recipients cfg else prod_recipients cfg)"

definition change_mode :: "config \<Rightarrow> message \<Rightarrow> (bot, unit) exc_st" where
  "change_mode cfg m =
     guarded cfg m
       (thenE (modifyE (\<lambda>s. s\<lparr>current_mode := toggle_mode (current_mode s)\<rparr>))
       (bindE (getsE current_mode) (\<lambda>md.
        thenE (answer m (ModeChanged md))
              (clear_state m))))"

subsection \<open>Conversation State Machine\<close>

definition start :: "config \<Rightarrow> message \<Rightarrow> (bot, unit) exc_st" where
  "start cfg m =
     guarded cfg m
       (bindE (getsE current_mode) (\<lambda>md.
        thenE (answer m (Greeting md))
              (set_state m (Some Departure_date))))"

definition departure_date :: "config \<Rightarrow> message \<Rightarrow> (bot, unit) exc_st" where
  "departure_date cfg m =
     guarded cfg m
       (thenE (update_data m ''departure_date'' (msg_text m))
       (thenE (answer m AskArrival)
              (set_state m (Some Arrival_date))))"

text \<open>
  \<^verbatim>\<open>arrival_date\<close>: everything after storing the date is the work
  \<open>arrival_work\<close> (lines 173--192), and \<^verbatim>\<open>state.clear()\<close> (line 194) runs
  only if the work returns.  The mode is read once to choose the recipients
  (line 181) and again for the success message (line 189).
\<close>

definition arrival_work :: "config \<Rightarrow> message \<Rightarrow> (bot, unit) exc_st" where
  "arrival_work cfg m =
     bindE (get_data m) (\<lambda>data.
     bindE (liftE (lookupE data ''departure_date'')) (\<lambda>departure.
     bindE (liftE (lookupE data ''arrival_date'')) (\<lambda>arrival.
     bindE (answer m Filling) (\<lambda>status_message.
     bindE (fill_document departure arrival) (\<lambda>file_path.
     thenE (update_status m status_message Filled)
     (bindE (getsE current_mode) (\<lambda>md.
      (let recipients = recipients_for cfg md in
       bindE (answer m Sending) (\<lambda>status_message.
       bindE (send_email cfg file_path recipients) (\<lambda>(code, response_text).
       bindE (getsE current_mode) (\<lambda>md'.
       if code = 202 then update_status m status_message (SentOk md' recipients)
       else update_status m status_message (SendFailed response_text))))))))))))"

definition arrival_date :: "config \<Rightarrow> message \<Rightarrow> (bot, unit) exc_st" where
  "arrival_date cfg m =
     guarded cfg m
       (thenE (update_data m ''arrival_date'' (msg_text m))
       (thenE (arrival_work cfg m)
              (clear_state m)))"

subsection \<open>Dispatch\<close>

text \<open>
  aiogram's \<^verbatim>\<open>Command\<close> filter: the text (or, when it is empty, the caption)
  is split at whitespace; its first word must be the prefix \<^verbatim>\<open>/\<close>, the command,
  and optionally \<^verbatim>\<open>@\<close> and a mention that equals the bot's user name up to case.
  Whitespace is that of \<^verbatim>\<open>str.split()\<close> on the code points 0--255, and the case
  folding is ASCII, which is exact for Telegram user names.
\<close>

definition first_word :: "string \<Rightarrow> string option" where
  "first_word t =
     (let t' = dropWhile is_py_space t in
      if t' = [] then None else Some (takeWhile (\<lambda>c. \<not> is_py_space c) t'))"

definition truthy :: "pyval \<Rightarrow> string option" where
  "truthy v = (case v of PyStr t \<Rightarrow> if t = [] then None else Some t | PyNone \<Rightarrow> None)"

definition command_text :: "message \<Rightarrow> string option" where
  "command_text m = (case truthy (msg_text m) of Some t \<Rightarrow> Some t | None \<Rightarrow> truthy (caption m))"

definition ascii_lower :: "char \<Rightarrow> char" where
  "ascii_lower c =
     (case map_of (zip ''ABCDEFGHIJKLMNOPQRSTUVWXYZ'' ''abcdefghijklmnopqrstuvwxyz'') c of
        Some l \<Rightarrow> l
      | None \<Rightarrow> c)"

definition command_filter :: "config \<Rightarrow> string \<Rightarrow> message \<Rightarrow> bool" where
  "command_filter cfg cmd m =
     (case command_text m of
        None \<Rightarrow> False
      | Some t \<Rightarrow>
          (case first_word t of
             None \<Rightarrow> False
           | Some full_command \<Rightarrow>
               (let prefix = hd full_command;
                    rest = tl full_command;
                    command = takeWhile (\<lambda>c. c \<noteq> CHR ''@'') rest;
                    mention = drop (Suc (length command)) rest
                in prefix = CHR ''/''
                   \<and> (mention = [] \<or> map ascii_lower mention = map ascii_lower (bot_username cfg))
                   \<and> command = cmd)))"

text \<open>\<^verbatim>\<open>StateFilter(*states)\<close>; \<^verbatim>\<open>~StateFilter()\<close> (line 197) negates the filter
  with no states, which holds of no state.\<close>

definition state_filter :: "form_state option list \<Rightarrow> form_state option \<Rightarrow> bool" where
  "state_filter states st \<longleftrightarrow> st \<in> set states"

text \<open>
  aiogram 3's constructor \<^verbatim>\<open>StateFilter(*states)\<close> refuses an empty list of
  states with \<^verbatim>\<open>ValueError("At least one state is required")\<close>.  The filters of
  lines 147, 156, 166 and 197 are built when the decorators are evaluated, at import
  time, so \<^verbatim>\<open>~StateFilter()\<close> on line 197 raises there and no handler is ever
  registered (\<open>register_handlers\<close>).  The rest of this theory reads line 197 as
  it is evidently meant, the negation of a filter that no state passes; since the
  stage handlers registered before it take every message of a chat in a stage,
  reading it as "no state is set" gives the same dispatch (\<open>dispatch_mode_idle\<close>).
\<close>

definition make_state_filter :: "form_state option list \<Rightarrow> exc + form_state option list" where
  "make_state_filter states =
     (if states = [] then Inl (ValueError ''At least one state is required'') else Inr states)"

datatype handler = H_start | H_departure_date | H_arrival_date | H_change_mode

text \<open>The handlers in the order they are registered; the first whose filters pass
  handles the message.  A message no handler takes is dropped.\<close>

definition dispatch :: "config \<Rightarrow> message \<Rightarrow> form_state option \<Rightarrow> handler option" where
  "dispatch cfg m st =
     (if command_filter cfg ''start'' m then Some H_start
      else if state_filter [Some Departure_date] st then Some H_departure_date
      else if state_filter [Some Arrival_date] st then Some H_arrival_date
      else if command_filter cfg ''mode'' m \<and> \<not> state_filter [] st then Some H_change_mode
      else None)"

text \<open>The decorators of lines 147, 156, 166 and 197, evaluated in the order of the
  source: \<^verbatim>\<open>Command("start")\<close> and the two states cannot fail, the filter of
  line 197 is \<^verbatim>\<open>~StateFilter()\<close>.\<close>

definition register_handlers :: "exc + handler list" where
  "register_handlers =
     (case make_state_filter [] of
        Inl e \<Rightarrow> Inl e
      | Inr states \<Rightarrow> Inr [H_start, H_departure_date, H_arrival_date, H_change_mode])"

fun run_handler :: "config \<Rightarrow> handler \<Rightarrow> message \<Rightarrow> (bot, unit) exc_st" where
  "run_handler cfg H_start m = start cfg m"
| "run_handler cfg H_departure_date m = departure_date cfg m"
| "run_handler cfg H_arrival_date m = arrival_date cfg m"
| "run_handler cfg H_change_mode m = change_mode cfg m"

definition feed_update :: "config \<Rightarrow> message \<Rightarrow> (bot, unit) exc_st" where
  "feed_update cfg m s =
     (case dispatch cfg m (fsm_state s (fsm_key m)) of
        None \<Rightarrow> (Inr (), s)
      | Some h \<Rightarrow> run_handler cfg h m s)"

text \<open>The polling loop logs a handler's exception and goes on with the next message.\<close>

definition bot_step :: "config \<Rightarrow> message \<Rightarrow> bot \<Rightarrow> bot" where
  "bot_step cfg m s = snd (feed_update cfg m s)"

subsection \<open>Execution lemmas\<close>

lemma guarded_denied:
  "from_user_id m \<noteq> allowed_user_id cfg \<Longrightarrow>
   guarded cfg m body s = (Inr (), s\<lparr>chat_log := chat_log s @ [Answer (chat_id m) NoAccess]\<rparr>)"
  by (simp add: guarded_def is_user_allowed_def bindE_def thenE_def answer_def returnE_def)

lemma guarded_allowed:
  "from_user_id m = allowed_user_id cfg \<Longrightarrow> guarded cfg m body = body"
  by (simp add: guarded_def is_user_allowed_def fun_eq_iff bindE_def returnE_def)

lemma run_handler_guarded: "\<exists>body. run_handler cfg h m = guarded cfg m body"
  by (cases h) (auto simp: start_def departure_date_def arrival_date_def change_mode_def)

lemma command_filter_unique:
  "command_filter cfg c1 m \<Longrightarrow> command_filter cfg c2 m \<Longrightarrow> c1 = c2"
  by (auto simp: command_filter_def Let_def split: option.splits)

lemma dispatch_start:
  "command_filter cfg ''start'' m \<Longrightarrow> dispatch cfg m st = Some H_start"
  by (simp add: dispatch_def)

lemma dispatch_stage:
  "\<not> command_filter cfg ''start'' m \<Longrightarrow> dispatch cfg m (Some Departure_date) = Some H_departure_date"
  "\<not> command_filter cfg ''start'' m \<Longrightarrow> dispatch cfg m (Some Arrival_date) = Some H_arrival_date"
  by (simp_all add: dispatch_def state_filter_def)

lemma dispatch_idle:
  "dispatch cfg m None =
     (if command_filter cfg ''start'' m then Some H_start
      else if command_filter cfg ''mode'' m then Some H_change_mode else None)"
  by (simp add: dispatch_def state_filter_def)

lemma dispatch_mode_idle:
  "dispatch cfg m st =
     (if command_filter cfg ''start'' m then Some H_start
      else if st = Some Departure_date then Some H_departure_date
      else if st = Some Arrival_date then Some H_arrival_date
      else if command_filter cfg ''mode'' m \<and> st = None then Some H_change_mode
      else None)"
proof (cases st)
  case (Some f)
  then show ?thesis by (cases f) (simp_all add: dispatch_def state_filter_def)
qed (simp add: dispatch_def state_filter_def)

lemma dispatch_change_mode:
  "dispatch cfg m st = Some H_change_mode \<Longrightarrow> st = None"
  by (cases st rule: option.exhaust, simp, rename_tac f, case_tac f)
     (auto simp: dispatch_def state_filter_def split: if_splits)

lemma dispatch_departure:
  "dispatch cfg m st = Some H_departure_date \<Longrightarrow> st = Some Departure_date"
  and dispatch_arrival:
  "dispatch cfg m st = Some H_arrival_date \<Longrightarrow> st = Some Arrival_date"
  by (auto simp: dispatch_def state_filter_def split: if_splits)

subsubsection \<open>What the Telegram-independent operations leave alone\<close>

text \<open>The part of the state the conversation is about: the mode and the FSM storage.\<close>

definition conv_view :: "bot \<Rightarrow> mode \<times> (fsm_key \<Rightarrow> form_state option) \<times> (fsm_key \<Rightarrow> (string \<rightharpoonup> pyval))" where
  "conv_view s = (current_mode s, fsm_state s, fsm_data s)"

lemma preserves_fill_document [preserves_intros]: "preserves conv_view (fill_document d a)"
proof -
  have "conv_view s' = conv_view s" if run: "fill_document d a s = (x, s')" for s x s'
    using arg_cong [OF fill_document_effect [OF run], of conv_view] by (simp add: conv_view_def)
  then show ?thesis by (simp add: preserves_def)
qed

lemma preserves_send_email [preserves_intros]: "preserves conv_view (send_email cfg p r)"
proof -
  have "conv_view s' = conv_view s" if run: "send_email cfg p r s = (x, s')" for s x s'
    using arg_cong [OF send_email_effect [OF run], of conv_view] by (simp add: conv_view_def)
  then show ?thesis by (simp add: preserves_def)
qed

lemma preserves_answer [preserves_intros]: "preserves conv_view (answer m r)"
  and preserves_update_status [preserves_intros]: "preserves conv_view (update_status m i r)"
  and preserves_get_data [preserves_intros]: "preserves conv_view (get_data m)"
  by (simp_all add: preserves_def answer_def update_status_def get_data_def modifyE_def getsE_def
      conv_view_def)

lemma preserves_arrival_work: "preserves conv_view (arrival_work cfg m)"
  unfolding arrival_work_def by (intro preserves_intros)

subsubsection \<open>The handlers, for the allowed user\<close>

lemma start_allowed:
  "from_user_id m = allowed_user_id cfg \<Longrightarrow>
   start cfg m s =
     (Inr (), s\<lparr>chat_log := chat_log s @ [Answer (chat_id m) (Greeting (current_mode s))],
                fsm_state := (fsm_state s)(fsm_key m := Some Departure_date)\<rparr>)"
  by (simp add: start_def guarded_allowed bindE_def getsE_def thenE_def answer_def set_state_def
      modifyE_def)

lemma departure_date_allowed:
  "from_user_id m = allowed_user_id cfg \<Longrightarrow>
   departure_date cfg m s =
     (Inr (), s\<lparr>fsm_data := (fsm_data s)(fsm_key m :=
                   (fsm_data s (fsm_key m))(''departure_date'' \<mapsto> msg_text m)),
                chat_log := chat_log s @ [Answer (chat_id m) AskArrival],
                fsm_state := (fsm_state s)(fsm_key m := Some Arrival_date)\<rparr>)"
  by (simp add: departure_date_def guarded_allowed bindE_def thenE_def answer_def set_state_def
      update_data_def modifyE_def)

lemma change_mode_allowed:
  "from_user_id m = allowed_user_id cfg \<Longrightarrow>
   change_mode cfg m s =
     (Inr (), s\<lparr>current_mode := toggle_mode (current_mode s),
                chat_log := chat_log s @ [Answer (chat_id m) (ModeChanged (toggle_mode (current_mode s)))],
                fsm_state := (fsm_state s)(fsm_key m := None),
                fsm_data := (fsm_data s)(fsm_key m := Map.empty)\<rparr>)"
  by (simp add: change_mode_def guarded_allowed bindE_def getsE_def thenE_def answer_def
      clear_state_def modifyE_def)

text \<open>
  \<^verbatim>\<open>arrival_date\<close> ends in one of two ways: an exception after the date is stored,
  with the stage unchanged, or a return with the session cleared.  The mode is never
  changed.
\<close>

lemma arrival_date_outcome:
  assumes allowed: "from_user_id m = allowed_user_id cfg" and run: "arrival_date cfg m s = (x, s')"
  defines "d \<equiv> (fsm_data s (fsm_key m))(''arrival_date'' \<mapsto> msg_text m)"
  shows "(\<exists>e. x = Inl e) \<and> current_mode s' = current_mode s \<and> fsm_state s' = fsm_state s
            \<and> fsm_data s' = (fsm_data s)(fsm_key m := d)
         \<or> x = Inr () \<and> current_mode s' = current_mode s
            \<and> fsm_state s' = (fsm_state s)(fsm_key m := None)
            \<and> fsm_data s' = (fsm_data s)(fsm_key m := Map.empty)"
proof -
  let ?s1 = "s\<lparr>fsm_data := (fsm_data s)(fsm_key m := d)\<rparr>"
  from allowed run have "thenE (arrival_work cfg m) (clear_state m) ?s1 = (x, s')"
    by (simp add: arrival_date_def guarded_allowed thenE_def bindE_def update_data_def modifyE_def
        d_def)
  then show ?thesis
  proof (cases rule: thenE_cases)
    case (raised e)
    from raised(1) have "conv_view s' = conv_view ?s1"
      by (rule preservesD [OF preserves_arrival_work])
    with raised show ?thesis by (simp add: conv_view_def)
  next
    case (ran a s2)
    from ran(1) have "conv_view s2 = conv_view ?s1"
      by (rule preservesD [OF preserves_arrival_work])
    moreover from ran(2) have "s' = s2\<lparr>fsm_state := (fsm_state s2)(fsm_key m := None),
                                      fsm_data := (fsm_data s2)(fsm_key m := Map.empty)\<rparr>"
      and "x = Inr ()"
      by (simp_all add: clear_state_def modifyE_def)
    ultimately show ?thesis by (simp add: conv_view_def)
  qed
qed

subsection \<open>Reachable states and the session invariant\<close>

text \<open>
  At start-up (line 45 and \<^verbatim>\<open>MemoryStorage()\<close>) the mode is test and every key is
  idle with no data; the tokens and the file system are whatever the environment
  provides.  Afterwards the bot handles messages one at a time, each to its end, and
  between two messages the environment may change what the servers will answer and
  the files.  This is the atomic schedule only: the runtime of theory \<open>Tasks\<close>
  interleaves handlers, and its configurations \<open>conc_reach\<close> include states that
  \<open>reachable\<close> does not (\<open>Tasks.concurrent_lost_departure\<close>).
\<close>

definition init_bot :: "pyval \<Rightarrow> pyval \<Rightarrow> (string \<rightharpoonup> document) \<Rightarrow> net_result list \<Rightarrow> bot" where
  "init_bot at rt fs rs =
     \<lparr>files = fs, net = rs, http_log = [], access_token = at, refresh_token = rt,
      current_mode = Test, fsm_state = (\<lambda>_. None), fsm_data = (\<lambda>_. Map.empty), chat_log = []\<rparr>"

inductive reachable :: "config \<Rightarrow> bot \<Rightarrow> bool" for cfg :: config where
  init: "reachable cfg (init_bot at rt fs rs)"
| step: "reachable cfg s \<Longrightarrow> reachable cfg (bot_step cfg m s)"
| env_net: "reachable cfg s \<Longrightarrow> reachable cfg (s\<lparr>net := rs\<rparr>)"
| env_files: "reachable cfg s \<Longrightarrow> reachable cfg (s\<lparr>files := fs\<rparr>)"

text \<open>
  The invariant of one FSM key: an idle key has no data; a key waiting for the
  arrival date has the departure date; the data has no other keys; and only the
  allowed user ever leaves the idle stage.
\<close>

definition key_inv :: "config \<Rightarrow> fsm_key \<Rightarrow> form_state option \<Rightarrow> (string \<rightharpoonup> pyval) \<Rightarrow> bool" where
  "key_inv cfg k st d \<longleftrightarrow>
     (st = None \<longrightarrow> d = Map.empty) \<and>
     (st = Some Arrival_date \<longrightarrow> d ''departure_date'' \<noteq> None) \<and>
     dom d \<subseteq> {''departure_date'', ''arrival_date''} \<and>
     (snd k \<noteq> allowed_user_id cfg \<longrightarrow> st = None)"

definition session_inv :: "config \<Rightarrow> bot \<Rightarrow> bool" where
  "session_inv cfg s \<longleftrightarrow> (\<forall>k. key_inv cfg k (fsm_state s k) (fsm_data s k))"

lemma session_inv_same:
  "session_inv cfg s \<Longrightarrow> fsm_state s' = fsm_state s \<Longrightarrow> fsm_data s' = fsm_data s \<Longrightarrow> session_inv cfg s'"
  by (simp add: session_inv_def)

lemma session_inv_upd:
  "session_inv cfg s \<Longrightarrow> key_inv cfg k st d \<Longrightarrow>
   fsm_state s' = (fsm_state s)(k := st) \<Longrightarrow> fsm_data s' = (fsm_data s)(k := d) \<Longrightarrow>
   session_inv cfg s'"
  by (simp add: session_inv_def)

lemma session_invD:
  "session_inv cfg s \<Longrightarrow> key_inv cfg k (fsm_state s k) (fsm_data s k)"
  unfolding session_inv_def by blast

lemma key_inv_start:
  "key_inv cfg k st d \<Longrightarrow> snd k = allowed_user_id cfg \<Longrightarrow> key_inv cfg k (Some Departure_date) d"
  and key_inv_departure:
  "key_inv cfg k st d \<Longrightarrow> snd k = allowed_user_id cfg \<Longrightarrow>
   key_inv cfg k (Some Arrival_date) (d(''departure_date'' \<mapsto> v))"
  and key_inv_arrival:
  "key_inv cfg k (Some Arrival_date) d \<Longrightarrow> key_inv cfg k (Some Arrival_date) (d(''arrival_date'' \<mapsto> v))"
  and key_inv_idle: "key_inv cfg k None Map.empty"
  by (auto simp: key_inv_def)

lemma snd_fsm_key [simp]: "snd (fsm_key m) = from_user_id m"
  by (simp add: fsm_key_def)

lemma handler_denied:
  "from_user_id m \<noteq> allowed_user_id cfg \<Longrightarrow>
   run_handler cfg h m s = (Inr (), s\<lparr>chat_log := chat_log s @ [Answer (chat_id m) NoAccess]\<rparr>)"
  using run_handler_guarded [of cfg h m] by (auto simp: guarded_denied)

text \<open>Each handler keeps the invariant, when the dispatcher runs it.\<close>

lemma handler_inv:
  assumes inv: "session_inv cfg s" and disp: "dispatch cfg m (fsm_state s (fsm_key m)) = Some h"
    and run: "run_handler cfg h m s = (x, s')"
  shows "session_inv cfg s'"
proof (cases "from_user_id m = allowed_user_id cfg")
  case False
  with run have "s' = s\<lparr>chat_log := chat_log s @ [Answer (chat_id m) NoAccess]\<rparr>"
    by (simp add: handler_denied)
  with inv show ?thesis by (simp add: session_inv_same)
next
  case allowed: True
  let ?k = "fsm_key m"
  have k: "key_inv cfg ?k (fsm_state s ?k) (fsm_data s ?k)" using inv by (rule session_invD)
  have uk: "snd ?k = allowed_user_id cfg" using allowed by simp
  show ?thesis
  proof (cases h)
    case H_start
    with run allowed have eq: "s' = s\<lparr>chat_log := chat_log s @ [Answer (chat_id m) (Greeting (current_mode s))],
        fsm_state := (fsm_state s)(?k := Some Departure_date)\<rparr>"
      by (simp add: start_allowed)
    show ?thesis
      by (rule session_inv_upd [OF inv key_inv_start [OF k uk]]) (simp_all add: eq)
  next
    case H_departure_date
    with run allowed have eq: "s' = s\<lparr>fsm_data := (fsm_data s)(?k := (fsm_data s ?k)(''departure_date'' \<mapsto> msg_text m)),
        chat_log := chat_log s @ [Answer (chat_id m) AskArrival],
        fsm_state := (fsm_state s)(?k := Some Arrival_date)\<rparr>"
      by (simp add: departure_date_allowed)
    show ?thesis
      by (rule session_inv_upd [OF inv key_inv_departure [OF k uk]]) (simp_all add: eq)
  next
    case H_arrival_date
    with disp have st: "fsm_state s ?k = Some Arrival_date" by (simp add: dispatch_arrival)
    from H_arrival_date run have "arrival_date cfg m s = (x, s')" by simp
    from arrival_date_outcome [OF allowed this] show ?thesis
    proof (elim disjE conjE)
      assume "fsm_state s' = fsm_state s"
        and "fsm_data s' = (fsm_data s)(?k := (fsm_data s ?k)(''arrival_date'' \<mapsto> msg_text m))"
      note eqs = this
      have "key_inv cfg ?k (Some Arrival_date) ((fsm_data s ?k)(''arrival_date'' \<mapsto> msg_text m))"
        using k st by (simp add: key_inv_arrival)
      from session_inv_upd [OF inv this] show ?thesis
        using eqs st by (simp add: fun_upd_idem)
    next
      assume "fsm_state s' = (fsm_state s)(?k := None)" and "fsm_data s' = (fsm_data s)(?k := Map.empty)"
      from session_inv_upd [OF inv key_inv_idle this] show ?thesis .
    qed
  next
    case H_change_mode
    with run allowed have "fsm_state s' = (fsm_state s)(?k := None)"
      and "fsm_data s' = (fsm_data s)(?k := Map.empty)"
      by (auto simp: change_mode_allowed)
    from session_inv_upd [OF inv key_inv_idle this] show ?thesis .
  qed
qed

lemma bot_step_inv:
  assumes inv: "session_inv cfg s"
  shows "session_inv cfg (bot_step cfg m s)"
proof (cases "dispatch cfg m (fsm_state s (fsm_key m))")
  case None
  with inv show ?thesis by (simp add: bot_step_def feed_update_def)
next
  case (Some h)
  obtain x s' where run: "run_handler cfg h m s = (x, s')" by fastforce
  from inv Some run have "session_inv cfg s'" by (rule handler_inv)
  with Some run show ?thesis by (simp add: bot_step_def feed_update_def)
qed

lemma reachable_session_inv: "reachable cfg s \<Longrightarrow> session_inv cfg s"
proof (induction rule: reachable.induct)
  case (init at rt fs rs)
  then show ?case by (simp add: session_inv_def key_inv_def init_bot_def)
next
  case (step s m)
  from step.IH show ?case by (rule bot_step_inv)
next
  case (env_net s rs)
  then show ?case by (simp add: session_inv_same)
next
  case (env_files s fs)
  then show ?case by (simp add: session_inv_same)
qed

subsection \<open>Properties of the bot\<close>

definition demo_msg :: "int \<Rightarrow> string \<Rightarrow> message" where
  "demo_msg uid t = \<lparr>chat_id = 7, from_user_id = uid, msg_text = PyStr t, caption = PyNone\<rparr>"

definition demo_bot :: "net_result list \<Rightarrow> bot" where
  "demo_bot rs = init_bot (PyStr ''A1'') (PyStr ''R1'') [template_path \<mapsto> \<lparr>paragraphs = [example_line]\<rparr>] rs"

lemmas command_filter_eval =
  command_filter_def command_text_def truthy_def first_word_def is_py_space_def ascii_lower_def

lemma toggle_mode_twice [simp]: "toggle_mode (toggle_mode md) = md"
  by (cases md) (simp_all add: toggle_mode_def)

lemma demo_msg_simps [simp]:
  "chat_id (demo_msg u t) = 7" "from_user_id (demo_msg u t) = u"
  "msg_text (demo_msg u t) = PyStr t" "caption (demo_msg u t) = PyNone"
  "fsm_key (demo_msg u t) = (7, u)"
  by (simp_all add: demo_msg_def fsm_key_def)

lemma allowed_demo_config [simp]: "allowed_user_id demo_config = 42"
  by (simp add: demo_config_def)

lemma reachable_demo_bot: "reachable cfg (demo_bot rs)"
  unfolding demo_bot_def by (rule reachable.init)

text \<open>
  C3. Access Guard: a message from any user other than the allowed one, in any
  state, is answered with the fixed denial or not at all, and changes nothing else:
  no stage, no stored date, no mode, no token, no file, no HTTP request.
\<close>

theorem access_guard:
  assumes "from_user_id m \<noteq> allowed_user_id cfg"
  shows "feed_update cfg m s = (Inr (), s) \<or>
         feed_update cfg m s = (Inr (), s\<lparr>chat_log := chat_log s @ [Answer (chat_id m) NoAccess]\<rparr>)"
proof (cases "dispatch cfg m (fsm_state s (fsm_key m))")
  case (Some h)
  with assms show ?thesis
    by (cases h) (simp_all add: feed_update_def start_def departure_date_def arrival_date_def
        change_mode_def guarded_def is_user_allowed_def answer_def exc_simps bindE_def)
qed (simp add: feed_update_def)

theorem access_guard_witness:
  "feed_update demo_config (demo_msg 13 ''/start'') (demo_bot []) = (Inr (), demo_bot []) \<or>
   feed_update demo_config (demo_msg 13 ''/start'') (demo_bot []) =
     (Inr (), (demo_bot [])\<lparr>chat_log := [Answer 7 NoAccess]\<rparr>)"
proof -
  have "from_user_id (demo_msg 13 ''/start'') \<noteq> allowed_user_id demo_config"
    by (simp add: demo_msg_def demo_config_def)
  from access_guard [OF this, of "demo_bot []"] show ?thesis
    by (simp add: demo_msg_def demo_bot_def init_bot_def)
qed

text \<open>
  C18. Mode Switch: \<^verbatim>\<open>/mode\<close> of the allowed user in an idle chat switches the
  mode to the other one (test to production and back, line 203), answers with the
  new mode and leaves the chat idle; a second \<^verbatim>\<open>/mode\<close> gives back the original
  mode and every stage as it was.
\<close>

theorem mode_switch_flips:
  assumes "from_user_id m = allowed_user_id cfg" and "command_filter cfg ''mode'' m"
    and "fsm_state s (fsm_key m) = None"
  shows "current_mode (bot_step cfg m s) = (if current_mode s = Test then Prod else Test) \<and>
         last (chat_log (bot_step cfg m s)) =
           Answer (chat_id m) (ModeChanged (if current_mode s = Test then Prod else Test)) \<and>
         fsm_state (bot_step cfg m s) (fsm_key m) = None \<and>
         current_mode (bot_step cfg m (bot_step cfg m s)) = current_mode s \<and>
         fsm_state (bot_step cfg m (bot_step cfg m s)) = fsm_state s"
proof -
  have "\<not> command_filter cfg ''start'' m"
    using assms(2) command_filter_unique by fastforce
  with assms(2) have disp: "dispatch cfg m None = Some H_change_mode" by (simp add: dispatch_idle)
  from assms(1,3) disp show ?thesis
    by (cases "current_mode s")
       (simp_all add: bot_step_def feed_update_def change_mode_allowed fun_upd_idem toggle_mode_def)
qed

theorem mode_switch_flips_witness:
  "current_mode (bot_step demo_config (demo_msg 42 ''/mode'') (demo_bot [])) = Prod"
proof -
  have "from_user_id (demo_msg 42 ''/mode'') = allowed_user_id demo_config"
    and "command_filter demo_config ''mode'' (demo_msg 42 ''/mode'')"
    and "fsm_state (demo_bot []) (fsm_key (demo_msg 42 ''/mode'')) = None"
    by (simp_all add: demo_msg_def demo_config_def demo_bot_def init_bot_def command_filter_eval)
  from mode_switch_flips [OF this] show ?thesis by (simp add: demo_bot_def init_bot_def)
qed

text \<open>
  C14. In a chat waiting for the departure date, \<^verbatim>\<open>/mode\<close> from the allowed user
  does not change the mode and does not reset the conversation: it is stored as the
  departure date and the conversation moves on to the arrival date (the stage
  handlers are registered before \<^verbatim>\<open>change_mode\<close>).
\<close>

theorem mode_command_consumed_as_date:
  assumes "from_user_id m = allowed_user_id cfg" and "command_filter cfg ''mode'' m"
    and "fsm_state s (fsm_key m) = Some Departure_date"
  shows "current_mode (bot_step cfg m s) = current_mode s \<and>
         fsm_state (bot_step cfg m s) (fsm_key m) = Some Arrival_date \<and>
         fsm_data (bot_step cfg m s) (fsm_key m) ''departure_date'' = Some (msg_text m)"
proof -
  have "\<not> command_filter cfg ''start'' m"
    using assms(2) command_filter_unique by fastforce
  with assms show ?thesis
    by (simp add: bot_step_def feed_update_def dispatch_stage departure_date_allowed)
qed

theorem mode_command_consumed_as_date_witness:
  "current_mode (bot_step demo_config (demo_msg 42 ''/mode'')
     (bot_step demo_config (demo_msg 42 ''/start'') (demo_bot []))) = Test"
proof -
  let ?s = "bot_step demo_config (demo_msg 42 ''/start'') (demo_bot [])"
  have start: "command_filter demo_config ''start'' (demo_msg 42 ''/start'')"
    by (simp add: demo_msg_def command_filter_eval)
  have s: "?s = (demo_bot [])\<lparr>chat_log := [Answer 7 (Greeting Test)],
      fsm_state := (fsm_state (demo_bot []))((7, 42) := Some Departure_date)\<rparr>"
    using start by (simp add: bot_step_def feed_update_def dispatch_start start_allowed
        demo_msg_def fsm_key_def demo_bot_def init_bot_def)
  have "from_user_id (demo_msg 42 ''/mode'') = allowed_user_id demo_config"
    and "command_filter demo_config ''mode'' (demo_msg 42 ''/mode'')"
    and "fsm_state ?s (fsm_key (demo_msg 42 ''/mode'')) = Some Departure_date"
    by (simp_all add: s command_filter_eval)
  moreover have "current_mode ?s = Test"
    unfolding s by (simp add: demo_bot_def init_bot_def)
  ultimately show ?thesis
    using mode_command_consumed_as_date by simp
qed

text \<open>
  C15. A message from a user other than the allowed one that is neither
  \<^verbatim>\<open>/start\<close> nor \<^verbatim>\<open>/mode\<close> gets no answer at all, not the denial: no handler
  takes it, because such a user's chat is always idle, and the Access Guard runs
  inside the handlers.
\<close>

theorem unauthorised_text_ignored:
  assumes "reachable cfg s" and "from_user_id m \<noteq> allowed_user_id cfg"
    and "\<not> command_filter cfg ''start'' m" and "\<not> command_filter cfg ''mode'' m"
  shows "feed_update cfg m s = (Inr (), s)"
proof -
  have "fsm_state s (fsm_key m) = None"
    using session_invD [OF reachable_session_inv [OF assms(1)], of "fsm_key m"] assms(2)
    by (simp add: key_inv_def)
  with assms(3,4) show ?thesis by (simp add: feed_update_def dispatch_idle)
qed

theorem unauthorised_text_ignored_witness:
  "feed_update demo_config (demo_msg 13 ''hello'') (demo_bot []) = (Inr (), demo_bot [])"
proof -
  have "from_user_id (demo_msg 13 ''hello'') \<noteq> allowed_user_id demo_config"
    and "\<not> command_filter demo_config ''start'' (demo_msg 13 ''hello'')"
    and "\<not> command_filter demo_config ''mode'' (demo_msg 13 ''hello'')"
    by (simp_all add: demo_msg_def demo_config_def command_filter_eval)
  with reachable_demo_bot show ?thesis by (rule unauthorised_text_ignored)
qed

lemmas arrival_exec =
  feed_update_def arrival_date_def thenE_def bindE_def update_data_def modifyE_def
  arrival_work_def get_data_def getsE_def liftE_def lookupE_def answer_def update_status_def
  returnE_def clear_state_def Let_def

text \<open>
  C4. The allowed user's arrival date, with the template in place and a mail answer
  that is not an expired token: the document is filled from the two stored dates and
  saved, exactly one mail request goes out with the recipients of the mode held at
  that moment and the saved document attached, the two status messages are edited
  (success with the mode and the recipients if the answer is 202, the answer's text
  otherwise), and the session is cleared, whatever the status code.
\<close>

theorem arrival_completes:
  assumes allowed: "from_user_id m = allowed_user_id cfg"
    and nostart: "\<not> command_filter cfg ''start'' m"
    and st: "fsm_state s (fsm_key m) = Some Arrival_date"
    and dep: "fsm_data s (fsm_key m) ''departure_date'' = Some dep"
    and tmpl: "files s template_path = Some tmpl"
    and reply: "net s = Reply r # rs" and fresh: "\<not> token_expired r"
  shows "feed_update cfg m s =
    (Inr (),
     s\<lparr>files := (files s)(output_file \<mapsto> format_runs (fill_paragraphs dep (msg_text m) tmpl)),
       http_log := http_log s @
         [mail_request (access_token s)
            (mail_data (recipients_for cfg (current_mode s))
               (format_runs (fill_paragraphs dep (msg_text m) tmpl)))],
       net := rs,
       fsm_state := (fsm_state s)(fsm_key m := None),
       fsm_data := (fsm_data s)(fsm_key m := Map.empty),
       chat_log := chat_log s @
         [Answer (chat_id m) Filling, Edit (chat_id m) (length (chat_log s)) Filled,
          Answer (chat_id m) Sending,
          Edit (chat_id m) (Suc (Suc (length (chat_log s))))
            (if status_code r = 202 then SentOk (current_mode s) (recipients_for cfg (current_mode s))
             else SendFailed (resp_text r))]\<rparr>)"
  using allowed st dep tmpl reply fresh
  by (simp add: arrival_exec dispatch_stage [OF nostart] guarded_allowed fill_document_Some
      send_email_first_reply)

definition demo_arrival :: "net_result list \<Rightarrow> bot" where
  "demo_arrival rs =
     (demo_bot rs)\<lparr>fsm_state := (\<lambda>_. None)((7, 42) := Some Arrival_date),
                   fsm_data := (\<lambda>_. Map.empty)((7, 42) := [''departure_date'' \<mapsto> PyStr ''15 Oct''])\<rparr>"

lemma demo_arrival_simps [simp]:
  "fsm_state (demo_arrival rs) (7, 42) = Some Arrival_date"
  "fsm_data (demo_arrival rs) (7, 42) ''departure_date'' = Some (PyStr ''15 Oct'')"
  "files (demo_arrival rs) template_path = Some \<lparr>paragraphs = [example_line]\<rparr>"
  "net (demo_arrival rs) = rs"
  by (simp_all add: demo_arrival_def demo_bot_def init_bot_def)

theorem arrival_completes_witness:
  "fsm_state (snd (feed_update demo_config (demo_msg 42 ''20 Oct'')
      (demo_arrival [Reply (Response 202 '''' None)]))) (7, 42) = None"
proof -
  have "from_user_id (demo_msg 42 ''20 Oct'') = allowed_user_id demo_config"
    and "\<not> command_filter demo_config ''start'' (demo_msg 42 ''20 Oct'')"
    and "fsm_state (demo_arrival [Reply (Response 202 '''' None)]) (fsm_key (demo_msg 42 ''20 Oct'')) =
           Some Arrival_date"
    and "fsm_data (demo_arrival [Reply (Response 202 '''' None)]) (fsm_key (demo_msg 42 ''20 Oct''))
           ''departure_date'' = Some (PyStr ''15 Oct'')"
    and "files (demo_arrival [Reply (Response 202 '''' None)]) template_path =
           Some \<lparr>paragraphs = [example_line]\<rparr>"
    and "net (demo_arrival [Reply (Response 202 '''' None)]) = Reply (Response 202 '''' None) # []"
    and "\<not> token_expired (Response 202 '''' None)"
    by (simp_all add: command_filter_eval token_expired_def)
  from arrival_completes [OF this] show ?thesis by simp
qed

text \<open>
  C8. If the mail answer is an expired token and the refresh then fails, the
  exception leaves \<^verbatim>\<open>arrival_date\<close> before \<^verbatim>\<open>state.clear()\<close>: the user gets
  no failure message (the last thing sent is the "sending" status), the
  conversation stays in the arrival stage with the new arrival date stored, and the
  next message of the user is taken as an arrival date again and sends the mail again.
\<close>

theorem arrival_refresh_failure_keeps_stage:
  assumes allowed: "from_user_id m = allowed_user_id cfg"
    and nostart: "\<not> command_filter cfg ''start'' m"
    and st: "fsm_state s (fsm_key m) = Some Arrival_date"
    and dep: "fsm_data s (fsm_key m) ''departure_date'' = Some dep"
    and tmpl: "files s template_path = Some tmpl"
    and replies: "net s = Reply r1 # Reply tr # rs" and expired: "token_expired r1"
    and refused: "status_code tr \<noteq> 200"
  shows "fst (feed_update cfg m s) = Inl TokenRefreshError \<and>
         fsm_state (bot_step cfg m s) (fsm_key m) = Some Arrival_date \<and>
         fsm_data (bot_step cfg m s) (fsm_key m) ''arrival_date'' = Some (msg_text m) \<and>
         chat_log (bot_step cfg m s) = chat_log s @
           [Answer (chat_id m) Filling, Edit (chat_id m) (length (chat_log s)) Filled,
            Answer (chat_id m) Sending]"
  using allowed st dep tmpl replies expired refused
  by (simp add: arrival_exec bot_step_def dispatch_stage [OF nostart] guarded_allowed
      fill_document_Some send_email_refresh_fails)

theorem arrival_refresh_failure_keeps_stage_witness:
  "fsm_state (bot_step demo_config (demo_msg 42 ''20 Oct'')
      (demo_arrival [Reply expired_reply, Reply (Response 400 ''invalid_grant'' None)])) (7, 42) =
   Some Arrival_date"
proof -
  let ?s = "demo_arrival [Reply expired_reply, Reply (Response 400 ''invalid_grant'' None)]"
  have "from_user_id (demo_msg 42 ''20 Oct'') = allowed_user_id demo_config"
    and "\<not> command_filter demo_config ''start'' (demo_msg 42 ''20 Oct'')"
    and "fsm_state ?s (fsm_key (demo_msg 42 ''20 Oct'')) = Some Arrival_date"
    and "fsm_data ?s (fsm_key (demo_msg 42 ''20 Oct'')) ''departure_date'' = Some (PyStr ''15 Oct'')"
    and "files ?s template_path = Some \<lparr>paragraphs = [example_line]\<rparr>"
    and "net ?s = Reply expired_reply # Reply (Response 400 ''invalid_grant'' None) # []"
    and "token_expired expired_reply"
    and "status_code (Response 400 ''invalid_grant'' None) \<noteq> 200"
    by (simp_all add: command_filter_eval token_expired_def expired_reply_def starts_with_def)
  from arrival_refresh_failure_keeps_stage [OF this] show ?thesis by simp
qed

text \<open>
  C20. The departure handler takes any message, not only text: a message without
  text (a photo, a sticker, a document) stores Python's \<^verbatim>\<open>None\<close> as the
  departure date and moves on; the filled document then reads
  \<^verbatim>\<open>\<guillemotleft>None\<guillemotright>\<close> in its place.
\<close>

theorem non_text_departure_accepted:
  assumes "from_user_id m = allowed_user_id cfg" and "msg_text m = PyNone"
    and "\<not> command_filter cfg ''start'' m"
    and "fsm_state s (fsm_key m) = Some Departure_date"
  shows "fsm_state (bot_step cfg m s) (fsm_key m) = Some Arrival_date \<and>
         fsm_data (bot_step cfg m s) (fsm_key m) ''departure_date'' = Some PyNone \<and>
         bracketed PyNone = [CHR 0xAB] @ ''None'' @ [CHR 0xBB]"
  using assms
  by (simp add: bot_step_def feed_update_def dispatch_stage departure_date_allowed bracketed_def)

theorem non_text_departure_accepted_witness:
  "fsm_data (bot_step demo_config
      \<lparr>chat_id = 7, from_user_id = 42, msg_text = PyNone, caption = PyStr ''photo''\<rparr>
      ((demo_bot [])\<lparr>fsm_state := (\<lambda>_. None)((7, 42) := Some Departure_date)\<rparr>))
     (7, 42) ''departure_date'' = Some PyNone"
proof -
  let ?m = "\<lparr>chat_id = 7, from_user_id = 42, msg_text = PyNone, caption = PyStr ''photo''\<rparr>"
  let ?s = "(demo_bot [])\<lparr>fsm_state := (\<lambda>_. None)((7, 42) := Some Departure_date)\<rparr>"
  have "from_user_id ?m = allowed_user_id demo_config" and "msg_text ?m = PyNone"
    and "\<not> command_filter demo_config ''start'' ?m"
    and "fsm_state ?s (fsm_key ?m) = Some Departure_date"
    by (simp_all add: command_filter_eval fsm_key_def)
  from non_text_departure_accepted [OF this] show ?thesis by (simp add: fsm_key_def)
qed

end
