(* ===== verification/Dialog_Spec.thy ===== *)
theory Dialog_Spec
  imports Bot
begin

text \<open>
  The conversation as the design describes it (spec, section 4.4), abstracted from
  Telegram, documents and mail: a stage and the mode, and three kinds of input, the
  \<^verbatim>\<open>start\<close> command, the \<^verbatim>\<open>mode\<close> command, and any other message.  Commands
  take precedence over the stage handlers (spec, section 9); \<^verbatim>\<open>mode\<close> resets the
  conversation from any stage.  The refinement theorem relates one step of the bot,
  seen through the abstraction of its FSM storage, to one step of this machine.
\<close>

datatype stage = Idle | AwaitingDeparture | AwaitingArrival

datatype event = EvStart | EvMode | EvText

fun spec_step :: "stage \<times> mode \<Rightarrow> event \<Rightarrow> stage \<times> mode" where
  "spec_step (st, md) EvStart = (AwaitingDeparture, md)"
| "spec_step (st, md) EvMode = (Idle, toggle_mode md)"
| "spec_step (Idle, md) EvText = (Idle, md)"
| "spec_step (AwaitingDeparture, md) EvText = (AwaitingArrival, md)"
| "spec_step (AwaitingArrival, md) EvText = (Idle, md)"

fun abs_stage :: "form_state option \<Rightarrow> stage" where
  "abs_stage None = Idle"
| "abs_stage (Some Departure_date) = AwaitingDeparture"
| "abs_stage (Some Arrival_date) = AwaitingArrival"

definition classify :: "config \<Rightarrow> message \<Rightarrow> event" where
  "classify cfg m =
     (if command_filter cfg ''start'' m then EvStart
      else if command_filter cfg ''mode'' m then EvMode else EvText)"

definition abs_dialog :: "bot \<Rightarrow> fsm_key \<Rightarrow> stage \<times> mode" where
  "abs_dialog s k = (abs_stage (fsm_state s k), current_mode s)"

lemma classify_cases:
  obtains (start) "command_filter cfg ''start'' m" and "classify cfg m = EvStart"
  | (mode) "\<not> command_filter cfg ''start'' m" and "command_filter cfg ''mode'' m"
      and "classify cfg m = EvMode"
  | (other) "\<not> command_filter cfg ''start'' m" and "\<not> command_filter cfg ''mode'' m"
      and "classify cfg m = EvText"
  by (auto simp: classify_def split: if_splits)

text \<open>
  C7. Refinement: for the allowed user, every message the bot handles to the end
  moves the abstract dialog of its chat exactly as the design's state machine does,
  except \<^verbatim>\<open>/mode\<close> sent in the middle of a conversation, which the code takes as a
  date (C14); a handler that raises is covered by C8.
\<close>

theorem bot_refines_dialog:
  assumes allowed: "from_user_id m = allowed_user_id cfg"
    and ret: "fst (feed_update cfg m s) = Inr ()"
    and no_mode_in_stage: "classify cfg m = EvMode \<longrightarrow> fsm_state s (fsm_key m) = None"
  shows "abs_dialog (bot_step cfg m s) (fsm_key m) =
         spec_step (abs_dialog s (fsm_key m)) (classify cfg m)"
proof -
  let ?k = "fsm_key m"
  obtain s' where run: "feed_update cfg m s = (Inr (), s')"
    using ret by (metis prod.collapse)
  then have step: "bot_step cfg m s = s'" by (simp add: bot_step_def)
  show ?thesis
  proof (cases cfg m rule: classify_cases)
    case start
    with run allowed show ?thesis
      by (auto simp: step feed_update_def dispatch_start start_allowed abs_dialog_def)
  next
    case mode
    with no_mode_in_stage have "fsm_state s ?k = None" by simp
    with mode run allowed show ?thesis
      by (auto simp: step feed_update_def dispatch_idle change_mode_allowed abs_dialog_def)
  next
    case other
    show ?thesis
    proof (cases "fsm_state s ?k")
      case None
      with other run have "s' = s" by (simp add: feed_update_def dispatch_idle)
      with step None other show ?thesis by (simp add: abs_dialog_def)
    next
      case (Some f)
      show ?thesis
      proof (cases f)
        case Departure_date
        with Some other run allowed show ?thesis
          by (auto simp: step feed_update_def dispatch_stage departure_date_allowed abs_dialog_def)
      next
        case Arrival_date
        with Some other run have "arrival_date cfg m s = (Inr (), s')"
          by (simp add: feed_update_def dispatch_stage)
        from arrival_date_outcome [OF allowed this] Some Arrival_date other show ?thesis
          by (auto simp: step abs_dialog_def)
      qed
    qed
  qed
qed

theorem bot_refines_dialog_witness:
  "abs_dialog (bot_step demo_config (demo_msg 42 ''/start'') (demo_bot [])) (7, 42) =
   spec_step (abs_dialog (demo_bot []) (7, 42)) EvStart"
proof -
  have start: "command_filter demo_config ''start'' (demo_msg 42 ''/start'')"
    by (simp add: command_filter_eval)
  have "from_user_id (demo_msg 42 ''/start'') = allowed_user_id demo_config"
    and "fst (feed_update demo_config (demo_msg 42 ''/start'') (demo_bot [])) = Inr ()"
    and "classify demo_config (demo_msg 42 ''/start'') = EvMode \<longrightarrow>
           fsm_state (demo_bot []) (fsm_key (demo_msg 42 ''/start'')) = None"
    using start by (simp_all add: feed_update_def dispatch_start start_allowed classify_def)
  from bot_refines_dialog [OF this] start show ?thesis by (simp add: classify_def)
qed

end
