(* ===== verification/Config.thy ===== *)
theory Config
  imports Py_Str
begin

text \<open>
  Start-up (\<^verbatim>\<open>src/main.py\<close>, lines 15--36): \<^verbatim>\<open>load_dotenv()\<close> merges the
  \<^verbatim>\<open>.env\<close> file into the process environment without overriding a variable
  that is already set; the module then reads its constants with
  \<^verbatim>\<open>os.getenv\<close>, which gives \<^verbatim>\<open>None\<close> for an unset variable, converts
  \<^verbatim>\<open>ALLOWED_USER_ID\<close> with \<^verbatim>\<open>int()\<close> (line 27), splits the two recipient
  lists at commas (lines 30--31), and constructs aiogram's \<^verbatim>\<open>Bot\<close>, which
  validates the Telegram token (line 36).  Each of these can raise, and the first
  that does ends the import of the module: \<open>startup\<close> evaluates them in the order of
  the source and returns the first exception.  The variables that are only read
  (\<^verbatim>\<open>CLIENT_ID\<close>, \<^verbatim>\<open>ACCESS_TOKEN\<close>, ...) stay \<^verbatim>\<open>str | None\<close>.

  The contents of the \<^verbatim>\<open>.env\<close> file are taken as already parsed into a map;
  \<open>bot_username\<close> is the user name Telegram reports for the token, which aiogram
  fetches when a \<^verbatim>\<open>Command\<close> filter first needs it.
\<close>

type_synonym env = "string \<rightharpoonup> string"

definition load_dotenv :: "env \<Rightarrow> env \<Rightarrow> env" where
  "load_dotenv dotenv environ = dotenv ++ environ"

definition getenv :: "env \<Rightarrow> string \<Rightarrow> pyval" where
  "getenv e k = (case e k of None \<Rightarrow> PyNone | Some v \<Rightarrow> PyStr v)"

subsection \<open>\<^verbatim>\<open>int()\<close> on a string\<close>

text \<open>
  \<^verbatim>\<open>int(s)\<close> in base 10: surrounding whitespace is stripped, one sign is allowed,
  and the digits may be grouped by single underscores (PEP 515), with no underscore
  at either end.  The only decimal digits among the code points 0--255 are the
  ASCII ones.  Since CPython 3.11 (and the security releases 3.7.14, 3.8.14,
  3.9.14, 3.10.7) a literal of more than 4300 digits, not counting the underscores,
  raises \<^verbatim>\<open>ValueError\<close> (\<^verbatim>\<open>sys.int_info.default_max_str_digits\<close>); the
  repository pins no Python version, and the model follows the current ones.
\<close>

definition is_decimal :: "char \<Rightarrow> bool" where
  "is_decimal c \<longleftrightarrow> 48 \<le> (of_char c :: nat) \<and> of_char c \<le> (57 :: nat)"

definition digits_value :: "string \<Rightarrow> int" where
  "digits_value ds = foldl (\<lambda>n c. 10 * n + int (of_char c - 48)) 0 ds"

definition decimal_body :: "string \<Rightarrow> bool" where
  "decimal_body b \<longleftrightarrow> list_all (\<lambda>g. g \<noteq> [] \<and> list_all is_decimal g) (split_on ''_'' b)"

definition sign_split :: "string \<Rightarrow> int \<times> string" where
  "sign_split t =
     (case t of
        c # r \<Rightarrow> if c = CHR ''-'' then (-1, r) else if c = CHR ''+'' then (1, r) else (1, t)
      | [] \<Rightarrow> (1, []))"

definition py_int_str :: "string \<Rightarrow> exc + int" where
  "py_int_str s =
     (let (sign, body) = sign_split (py_strip s) in
      if decimal_body body then
        (let digits = filter (\<lambda>c. c \<noteq> CHR ''_'') body in
         if 4300 < length digits then Inl (ValueError s) else Inr (sign * digits_value digits))
      else Inl (ValueError s))"

fun py_int :: "pyval \<Rightarrow> exc + int" where
  "py_int PyNone = Inl (TypeError ''NoneType'')"
| "py_int (PyStr s) = py_int_str s"

text \<open>\<^verbatim>\<open>v.split(sep)\<close> on \<^verbatim>\<open>str | None\<close>.\<close>

fun py_split :: "pyval \<Rightarrow> string \<Rightarrow> exc + string list" where
  "py_split PyNone sep = Inl (AttributeError ''split'')"
| "py_split (PyStr s) sep = Inr (split_on sep s)"

subsection \<open>aiogram's token check\<close>

text \<open>
  \<^verbatim>\<open>Bot(token=...)\<close> calls aiogram's \<^verbatim>\<open>validate_token\<close>: the token must be a
  string without whitespace, and \<^verbatim>\<open>token.partition(":")\<close> must find the colon,
  with \<^verbatim>\<open>str.isdigit()\<close> true of the part before it (non-empty; on the code points
  0--255 the digits are the ASCII ones and the superscripts one, two and three) and a
  non-empty part after it.
\<close>

definition is_py_digit :: "char \<Rightarrow> bool" where
  "is_py_digit c \<longleftrightarrow> is_decimal c \<or> c \<in> set [CHR 0xB2, CHR 0xB3, CHR 0xB9]"

definition validate_token :: "pyval \<Rightarrow> exc + unit" where
  "validate_token tok =
     (case tok of
        PyNone \<Rightarrow> Inl TokenValidationError
      | PyStr t \<Rightarrow>
          (let left = takeWhile (\<lambda>c. c \<noteq> CHR '':'') t;
               rest = dropWhile (\<lambda>c. c \<noteq> CHR '':'') t
           in if list_ex is_py_space t then Inl TokenValidationError
              else if rest = [] \<or> left = [] \<or> \<not> list_all is_py_digit left \<or> tl rest = []
              then Inl TokenValidationError
              else Inr ()))"

subsection \<open>Start-up\<close>

definition bindS :: "exc + 'a \<Rightarrow> ('a \<Rightarrow> exc + 'b) \<Rightarrow> exc + 'b" where
  "bindS r f = (case r of Inl x \<Rightarrow> Inl x | Inr a \<Rightarrow> f a)"

text \<open>
  The configuration and the initial values of \<^verbatim>\<open>ACCESS_TOKEN\<close> and
  \<^verbatim>\<open>REFRESH_TOKEN\<close>, or the exception of the first line that raises.
\<close>

definition startup :: "env \<Rightarrow> env \<Rightarrow> string \<Rightarrow> exc + config \<times> pyval \<times> pyval" where
  "startup dotenv environ username =
     (let e = load_dotenv dotenv environ in
      bindS (py_int (getenv e ''ALLOWED_USER_ID'')) (\<lambda>uid.
      bindS (py_split (getenv e ''TEST_RECIPIENTS'') '','') (\<lambda>test.
      bindS (py_split (getenv e ''PROD_RECIPIENTS'') '','') (\<lambda>prod.
      bindS (validate_token (getenv e ''TELEGRAM_TOKEN'')) (\<lambda>_.
      Inr (\<lparr>client_id = getenv e ''CLIENT_ID'', client_secret = getenv e ''CLIENT_SECRET'',
            tenant_id = getenv e ''TENANT_ID'', redirect_uri = getenv e ''REDIRECT_URI'',
            allowed_user_id = uid, test_recipients = test, prod_recipients = prod,
            bot_username = username\<rparr>,
           getenv e ''ACCESS_TOKEN'', getenv e ''REFRESH_TOKEN''))))))"

subsection \<open>Lemmas on the parsers\<close>

lemma getenv_load_dotenv:
  "getenv (load_dotenv d e) k = (case e k of Some v \<Rightarrow> PyStr v | None \<Rightarrow> getenv d k)"
  by (simp add: getenv_def load_dotenv_def map_add_def split: option.splits)

lemma split_on_single_absent:
  "c \<notin> set s \<Longrightarrow> split_on [c] s = [s]"
  by (induction s) (auto simp: starts_with_def cons_first_def)

lemma split_on_single_append:
  "c \<notin> set a \<Longrightarrow> split_on [c] (a @ c # r) = a # split_on [c] r"
  by (induction a) (auto simp: starts_with_def cons_first_def)

lemma split_on_single_join:
  "addrs \<noteq> [] \<Longrightarrow> list_all (\<lambda>a. c \<notin> set a) addrs \<Longrightarrow> split_on [c] (py_join [c] addrs) = addrs"
proof (induction addrs)
  case (Cons a rest)
  then show ?case
    by (cases rest) (simp_all add: split_on_single_absent split_on_single_append py_join_Cons)
qed simp

lemma py_split_Inr_iff: "(\<exists>r. py_split v sep = Inr r) \<longleftrightarrow> v \<noteq> PyNone"
  by (cases v) simp_all

lemma bindS_Inr [simp]: "bindS r f = Inr x \<longleftrightarrow> (\<exists>a. r = Inr a \<and> f a = Inr x)"
  by (cases r) (simp_all add: bindS_def)

lemma py_split_eq_Inr [simp]: "py_split v sep = Inr r \<longleftrightarrow> (\<exists>t. v = PyStr t \<and> r = split_on sep t)"
  by (cases v) auto

lemma getenv_PyStr [simp]: "getenv e k = PyStr t \<longleftrightarrow> e k = Some t"
  by (simp add: getenv_def split: option.splits)

lemma startup_Inr:
  assumes "startup d e u = Inr (cfg, at, rt)"
  obtains t p where "load_dotenv d e ''TEST_RECIPIENTS'' = Some t"
    and "load_dotenv d e ''PROD_RECIPIENTS'' = Some p"
    and "test_recipients cfg = split_on '','' t" and "prod_recipients cfg = split_on '','' p"
proof -
  from assms show ?thesis
    unfolding startup_def Let_def by (auto intro: that)
qed

subsection \<open>Properties of start-up\<close>

definition demo_env :: env where
  "demo_env =
     [''ALLOWED_USER_ID'' \<mapsto> '' 42'' @ [CHR 0x0A], ''TEST_RECIPIENTS'' \<mapsto> ''qa@example.org'',
      ''PROD_RECIPIENTS'' \<mapsto> ''office@example.org, boss@example.org'',
      ''TELEGRAM_TOKEN'' \<mapsto> ''123456:secret'', ''CLIENT_ID'' \<mapsto> ''cid'']"

lemma demo_startup:
  "startup Map.empty demo_env ''JcBot'' =
     Inr (\<lparr>client_id = PyStr ''cid'', client_secret = PyNone, tenant_id = PyNone, redirect_uri = PyNone,
           allowed_user_id = 42, test_recipients = [''qa@example.org''],
           prod_recipients = [''office@example.org'', '' boss@example.org''], bot_username = ''JcBot''\<rparr>,
          PyNone, PyNone)"
  by code_simp

text \<open>
  C22. Start-up stops at line 27 when \<^verbatim>\<open>ALLOWED_USER_ID\<close> is set neither in the
  environment nor in \<^verbatim>\<open>.env\<close>: \<^verbatim>\<open>int(None)\<close> raises \<^verbatim>\<open>TypeError\<close>,
  whatever the other variables hold (the lines after it are not reached).
\<close>

theorem startup_user_id_unset:
  assumes "environ ''ALLOWED_USER_ID'' = None" and "dotenv ''ALLOWED_USER_ID'' = None"
  shows "startup dotenv environ u = Inl (TypeError ''NoneType'')"
proof -
  have "getenv (load_dotenv dotenv environ) ''ALLOWED_USER_ID'' = PyNone"
    using assms by (simp add: getenv_def load_dotenv_def map_add_def)
  then show ?thesis by (simp add: startup_def Let_def bindS_def)
qed

theorem startup_user_id_unset_witness:
  "startup Map.empty (demo_env(''ALLOWED_USER_ID'' := None)) ''JcBot'' = Inl (TypeError ''NoneType'')"
  by (rule startup_user_id_unset) simp_all

text \<open>
  C23. Start-up succeeds exactly when \<^verbatim>\<open>ALLOWED_USER_ID\<close> is an integer literal,
  both recipient variables are set, and the Telegram token is well formed; the
  variables read as strings may be missing.
\<close>

theorem startup_succeeds_iff:
  "(\<exists>r. startup d e u = Inr r) \<longleftrightarrow>
     (\<exists>uid. py_int (getenv (load_dotenv d e) ''ALLOWED_USER_ID'') = Inr uid) \<and>
     load_dotenv d e ''TEST_RECIPIENTS'' \<noteq> None \<and> load_dotenv d e ''PROD_RECIPIENTS'' \<noteq> None \<and>
     validate_token (getenv (load_dotenv d e) ''TELEGRAM_TOKEN'') = Inr ()"
  by (auto simp: startup_def Let_def)

text \<open>
  C24. The recipient lists lose nothing: joined with commas they give back the
  variables, and a variable that is the comma-joined list of addresses without commas
  gives back exactly those addresses.
\<close>

theorem startup_recipients_roundtrip:
  assumes "startup d e u = Inr (cfg, at, rt)"
  shows "load_dotenv d e ''TEST_RECIPIENTS'' = Some (py_join '','' (test_recipients cfg)) \<and>
         load_dotenv d e ''PROD_RECIPIENTS'' = Some (py_join '','' (prod_recipients cfg)) \<and>
         (load_dotenv d e ''TEST_RECIPIENTS'' = Some (py_join '','' addrs) \<and> addrs \<noteq> [] \<and>
          list_all (\<lambda>a. CHR '','' \<notin> set a) addrs \<longrightarrow> test_recipients cfg = addrs)"
proof -
  obtain t p where t: "load_dotenv d e ''TEST_RECIPIENTS'' = Some t"
    and p: "load_dotenv d e ''PROD_RECIPIENTS'' = Some p"
    and tc: "test_recipients cfg = split_on '','' t" and pc: "prod_recipients cfg = split_on '','' p"
    using startup_Inr [OF assms] .
  show ?thesis
    using t p tc pc py_join_split_on [of "'',''" t] py_join_split_on [of "'',''" p]
      split_on_single_join [of addrs "CHR '',''"] by auto
qed

theorem startup_recipients_roundtrip_witness:
  "test_recipients (fst (projr (startup Map.empty demo_env ''JcBot''))) = [''qa@example.org'']"
proof -
  have "startup Map.empty demo_env ''JcBot'' =
          Inr (fst (projr (startup Map.empty demo_env ''JcBot'')), PyNone, PyNone)"
    by (simp add: demo_startup)
  from startup_recipients_roundtrip [OF this, of "[''qa@example.org'']"] show ?thesis
    by (simp add: demo_env_def load_dotenv_def)
qed

text \<open>
  C25. The recipient variables are split at commas and nothing else: the space after
  a comma stays in the next address, and an empty variable gives one empty address.
\<close>

theorem startup_recipients_untrimmed:
  assumes "startup d e u = Inr (cfg, at, rt)"
  shows "(load_dotenv d e ''PROD_RECIPIENTS'' = Some (a @ '', '' @ b) \<and>
          CHR '','' \<notin> set a \<and> CHR '','' \<notin> set b \<longrightarrow> prod_recipients cfg = [a, CHR '' '' # b]) \<and>
         (load_dotenv d e ''TEST_RECIPIENTS'' = Some [] \<longrightarrow> test_recipients cfg = [[]])"
proof -
  obtain t p where t: "load_dotenv d e ''TEST_RECIPIENTS'' = Some t"
    and p: "load_dotenv d e ''PROD_RECIPIENTS'' = Some p"
    and tc: "test_recipients cfg = split_on '','' t" and pc: "prod_recipients cfg = split_on '','' p"
    using startup_Inr [OF assms] .
  show ?thesis
    using t p tc pc split_on_single_append [of "CHR '',''" a "CHR '' '' # b"]
      split_on_single_absent [of "CHR '',''" "CHR '' '' # b"] by auto
qed

theorem startup_recipients_untrimmed_witness:
  "prod_recipients (fst (projr (startup Map.empty demo_env ''JcBot''))) =
     [''office@example.org'', '' boss@example.org'']"
proof -
  have "startup Map.empty demo_env ''JcBot'' =
          Inr (fst (projr (startup Map.empty demo_env ''JcBot'')), PyNone, PyNone)"
    by (simp add: demo_startup)
  from startup_recipients_untrimmed [OF this, of "''office@example.org''" "''boss@example.org''"]
  show ?thesis by (simp add: demo_env_def load_dotenv_def)
qed

end
