(* ===== verification/Tasks.thy ===== *)
theory Tasks
  imports Bot
begin

text \<open>
  The runtime of \<^verbatim>\<open>main()\<close> (\<^verbatim>\<open>src/main.py\<close>, lines 209--215):
  \<^verbatim>\<open>dp.start_polling(bot)\<close> with aiogram 3's defaults handles every update in a
  task of its own (\<^verbatim>\<open>handle_as_tasks=True\<close>), and the dispatcher isolates no
  events, so the handlers of several updates run interleaved.  A coroutine gives the
  event loop to another task only where it waits for the network: at
  \<^verbatim>\<open>message.answer\<close> and \<^verbatim>\<open>bot.edit_message_text\<close>.  The FSM storage calls
  of \<^verbatim>\<open>MemoryStorage\<close> never wait, and \<^verbatim>\<open>requests.post\<close>, being synchronous,
  blocks the whole loop.  A handler is therefore a sequence of atomic segments that
  end at its awaited Telegram calls; a \<open>task\<close> is a handler stopped between two
  segments, with the local variables it still needs.  \<open>task_step\<close> runs the next
  segment; the first segment of an update also picks the handler, as aiogram does
  when the task starts.  An exception ends the task, as aiogram logs it.

  The scheduler may run any task next: which network answer comes back first is up to
  the network.  \<open>conc_step\<close> delivers an update (a new task) or runs a segment of
  the task at a position of the pool.
\<close>

subsection \<open>Tasks and their segments\<close>

datatype task =
    Received message                              \<comment> \<open>the update, not yet dispatched\<close>
  | StartGreeted message                          \<comment> \<open>\<^verbatim>\<open>start\<close> after line 153\<close>
  | DepartureAsked message                        \<comment> \<open>\<^verbatim>\<open>departure_date\<close> after line 163\<close>
  | ArrivalFilling message pyval pyval nat        \<comment> \<open>\<^verbatim>\<open>arrival_date\<close> after line 177\<close>
  | ArrivalFilled message string                  \<comment> \<open>after line 179\<close>
  | ArrivalSending message string "string list" nat \<comment> \<open>after line 182\<close>
  | ArrivalReported message                       \<comment> \<open>after line 186 or 192\<close>
  | ModeAnswered message                          \<comment> \<open>\<^verbatim>\<open>change_mode\<close> after line 204\<close>

text \<open>The segment of each handler up to its first awaited Telegram call, after the
  access check; a denied user's handler ends after the denial (\<open>first_segment\<close>).\<close>

fun handler_segment :: "config \<Rightarrow> handler \<Rightarrow> message \<Rightarrow> (bot, task option) exc_st" where
  "handler_segment cfg H_start m =
     bindE (getsE current_mode) (\<lambda>md.
     thenE (answer m (Greeting md)) (returnE (Some (StartGreeted m))))"
| "handler_segment cfg H_departure_date m =
     thenE (update_data m ''departure_date'' (msg_text m))
     (thenE (answer m AskArrival) (returnE (Some (DepartureAsked m))))"
| "handler_segment cfg H_arrival_date m =
     thenE (update_data m ''arrival_date'' (msg_text m))
     (bindE (get_data m) (\<lambda>data.
      bindE (liftE (lookupE data ''departure_date'')) (\<lambda>departure.
      bindE (liftE (lookupE data ''arrival_date'')) (\<lambda>arrival.
      bindE (answer m Filling) (\<lambda>status_message.
      returnE (Some (ArrivalFilling m departure arrival status_message)))))))"
| "handler_segment cfg H_change_mode m =
     thenE (modifyE (\<lambda>s. s\<lparr>current_mode := toggle_mode (current_mode s)\<rparr>))
     (bindE (getsE current_mode) (\<lambda>md.
      thenE (answer m (ModeChanged md)) (returnE (Some (ModeAnswered m)))))"

definition first_segment :: "config \<Rightarrow> handler \<Rightarrow> message \<Rightarrow> (bot, task option) exc_st" where
  "first_segment cfg h m =
     bindE (is_user_allowed cfg m) (\<lambda>allowed.
     if allowed then handler_segment cfg h m else returnE None)"

fun task_step :: "config \<Rightarrow> task \<Rightarrow> (bot, task option) exc_st" where
  "task_step cfg (Received m) =
     (\<lambda>s. case dispatch cfg m (fsm_state s (fsm_key m)) of
            None \<Rightarrow> (Inr None, s)
          | Some h \<Rightarrow> first_segment cfg h m s)"
| "task_step cfg (StartGreeted m) = thenE (set_state m (Some Departure_date)) (returnE None)"
| "task_step cfg (DepartureAsked m) = thenE (set_state m (Some Arrival_date)) (returnE None)"
| "task_step cfg (ArrivalFilling m departure arrival status_message) =
     bindE (fill_document departure arrival) (\<lambda>file_path.
     thenE (update_status m status_message Filled) (returnE (Some (ArrivalFilled m file_path))))"
| "task_step cfg (ArrivalFilled m file_path) =
     bindE (getsE current_mode) (\<lambda>md.
     (let recipients = recipients_for cfg md in
      bindE (answer m Sending) (\<lambda>status_message.
      returnE (Some (ArrivalSending m file_path recipients status_message)))))"
| "task_step cfg (ArrivalSending m file_path recipients status_message) =
     bindE (send_email cfg file_path recipients) (\<lambda>(code, response_text).
     bindE (getsE current_mode) (\<lambda>md'.
     thenE (if code = 202 then update_status m status_message (SentOk md' recipients)
            else update_status m status_message (SendFailed response_text))
           (returnE (Some (ArrivalReported m)))))"
| "task_step cfg (ArrivalReported m) = thenE (clear_state m) (returnE None)"
| "task_step cfg (ModeAnswered m) = thenE (clear_state m) (returnE None)"

subsection \<open>The task pool\<close>

definition remove_nth :: "nat \<Rightarrow> 'a list \<Rightarrow> 'a list" where
  "remove_nth i xs = take i xs @ drop (Suc i) xs"

text \<open>Run one segment of the task at position \<open>i\<close>; a task that returns or raises
  leaves the pool.\<close>

definition run_task :: "config \<Rightarrow> nat \<Rightarrow> bot \<times> task list \<Rightarrow> bot \<times> task list" where
  "run_task cfg i c =
     (case c of (s, ts) \<Rightarrow>
        if i < length ts then
          (case task_step cfg (ts ! i) s of
             (Inr (Some t'), s') \<Rightarrow> (s', ts[i := t'])
           | (_, s') \<Rightarrow> (s', remove_nth i ts))
        else c)"

datatype sched = Deliver message | Run nat

fun conc_step :: "config \<Rightarrow> sched \<Rightarrow> bot \<times> task list \<Rightarrow> bot \<times> task list" where
  "conc_step cfg (Deliver m) (s, ts) = (s, ts @ [Received m])"
| "conc_step cfg (Run i) c = run_task cfg i c"

definition conc_run :: "config \<Rightarrow> sched list \<Rightarrow> bot \<times> task list \<Rightarrow> bot \<times> task list" where
  "conc_run cfg evs c = fold (conc_step cfg) evs c"


subsection \<open>What is left of a task, in the atomic model\<close>

text \<open>
  The rest of a stopped handler, as one computation of theory \<open>Bot\<close>: the tails of
  \<^verbatim>\<open>arrival_date\<close> after each of its awaits, and for a fresh update the whole of
  \<open>feed_update\<close>.
\<close>

definition arrival_rest_sending ::
  "config \<Rightarrow> message \<Rightarrow> string \<Rightarrow> string list \<Rightarrow> nat \<Rightarrow> (bot, unit) exc_st" where
  "arrival_rest_sending cfg m file_path recipients status_message =
     bindE (send_email cfg file_path recipients) (\<lambda>(code, response_text).
     bindE (getsE current_mode) (\<lambda>md'.
     thenE (if code = 202 then update_status m status_message (SentOk md' recipients)
            else update_status m status_message (SendFailed response_text))
           (clear_state m)))"

definition arrival_rest_filled :: "config \<Rightarrow> message \<Rightarrow> string \<Rightarrow> (bot, unit) exc_st" where
  "arrival_rest_filled cfg m file_path =
     bindE (getsE current_mode) (\<lambda>md.
     (let recipients = recipients_for cfg md in
      bindE (answer m Sending) (\<lambda>status_message.
      arrival_rest_sending cfg m file_path recipients status_message)))"

definition arrival_rest_filling ::
  "config \<Rightarrow> message \<Rightarrow> pyval \<Rightarrow> pyval \<Rightarrow> nat \<Rightarrow> (bot, unit) exc_st" where
  "arrival_rest_filling cfg m departure arrival status_message =
     bindE (fill_document departure arrival) (\<lambda>file_path.
     thenE (update_status m status_message Filled) (arrival_rest_filled cfg m file_path))"

fun task_rest :: "config \<Rightarrow> task \<Rightarrow> (bot, unit) exc_st" where
  "task_rest cfg (Received m) = feed_update cfg m"
| "task_rest cfg (StartGreeted m) = set_state m (Some Departure_date)"
| "task_rest cfg (DepartureAsked m) = set_state m (Some Arrival_date)"
| "task_rest cfg (ArrivalFilling m d a sm) = arrival_rest_filling cfg m d a sm"
| "task_rest cfg (ArrivalFilled m fp) = arrival_rest_filled cfg m fp"
| "task_rest cfg (ArrivalSending m fp rs sm) = arrival_rest_sending cfg m fp rs sm"
| "task_rest cfg (ArrivalReported m) = clear_state m"
| "task_rest cfg (ModeAnswered m) = clear_state m"

text \<open>A segment followed by what is left of its continuation.\<close>

definition contE :: "('s, task option) exc_st \<Rightarrow> (task \<Rightarrow> ('s, unit) exc_st) \<Rightarrow> ('s, unit) exc_st" where
  "contE m k s =
     (case m s of
        (Inr (Some t'), s') \<Rightarrow> k t' s'
      | (Inr None, s') \<Rightarrow> (Inr (), s')
      | (Inl e, s') \<Rightarrow> (Inl e, s'))"

named_theorems cont_simps "pushing contE through the monad"

lemma contE_bindE [cont_simps]: "contE (bindE m f) k = bindE m (\<lambda>x. contE (f x) k)"
  by (rule ext) (simp add: contE_def bindE_def split: prod.splits sum.splits)

lemma contE_thenE [cont_simps]: "contE (thenE m n) k = thenE m (contE n k)"
  by (simp add: thenE_def contE_bindE)

lemma contE_returnE [cont_simps]:
  "contE (returnE (Some t)) k = k t" "contE (returnE None) k = returnE ()"
  by (simp_all add: contE_def returnE_def fun_eq_iff)

lemma contE_if [cont_simps]: "contE (if b then x else y) k = (if b then contE x k else contE y k)"
  by simp

lemma contE_Let [cont_simps]: "contE (let v = a in f v) k = (let v = a in contE (f v) k)"
  by simp

lemma contE_case_prod [cont_simps]: "contE (case p of (a, b) \<Rightarrow> f a b) k = (case p of (a, b) \<Rightarrow> contE (f a b) k)"
  by (cases p) simp

lemma thenE_case_prod: "thenE (case p of (a, b) \<Rightarrow> f a b) k = (case p of (a, b) \<Rightarrow> thenE (f a b) k)"
  by (cases p) simp

lemma bindE_case_prod: "bindE (case p of (a, b) \<Rightarrow> f a b) k = (case p of (a, b) \<Rightarrow> bindE (f a b) k)"
  by (cases p) simp

lemma thenE_bindE_assoc: "thenE (bindE m f) k = bindE m (\<lambda>x. thenE (f x) k)"
  by (simp add: thenE_def bindE_assoc)

lemma thenE_Let: "thenE (let v = a in f v) k = (let v = a in thenE (f v) k)"
  by simp

lemma thenE_returnE_unit [cont_simps]: "thenE m (returnE ()) = m"
  by (simp add: thenE_def bindE_right_id)

lemma arrival_tail:
  "thenE (arrival_work cfg m) (clear_state m) =
     bindE (get_data m) (\<lambda>data.
     bindE (liftE (lookupE data ''departure_date'')) (\<lambda>departure.
     bindE (liftE (lookupE data ''arrival_date'')) (\<lambda>arrival.
     bindE (answer m Filling) (\<lambda>status_message.
     arrival_rest_filling cfg m departure arrival status_message))))"
  unfolding arrival_work_def arrival_rest_filling_def arrival_rest_filled_def arrival_rest_sending_def
  by (simp add: thenE_def bindE_assoc bindE_case_prod Let_def)

lemma first_segment_rest:
  "contE (first_segment cfg h m) (task_rest cfg) = run_handler cfg h m"
  by (cases h) (simp_all add: first_segment_def cont_simps start_def departure_date_def
      arrival_date_def change_mode_def guarded_def arrival_tail cong: if_cong)

lemma task_step_rest: "task_rest cfg t = contE (task_step cfg t) (task_rest cfg)"
proof (cases t)
  case (Received m)
  then show ?thesis
    by (auto simp: fun_eq_iff feed_update_def contE_def returnE_def
        first_segment_rest [symmetric] split: option.splits)
qed (simp_all add: cont_simps arrival_rest_filling_def arrival_rest_filled_def
      arrival_rest_sending_def Let_def)


subsection \<open>Every task ends: ranks\<close>

text \<open>The number of segments a task can still run.\<close>

fun task_rank :: "task \<Rightarrow> nat" where
  "task_rank (Received m) = 5"
| "task_rank (ArrivalFilling m d a sm) = 4"
| "task_rank (ArrivalFilled m fp) = 3"
| "task_rank (ArrivalSending m fp rs sm) = 2"
| "task_rank (StartGreeted m) = 1"
| "task_rank (DepartureAsked m) = 1"
| "task_rank (ArrivalReported m) = 1"
| "task_rank (ModeAnswered m) = 1"

lemma task_rank_pos: "0 < task_rank t"
  by (cases t) simp_all

text \<open>\<open>returns P m\<close>: every normal result of \<open>m\<close> satisfies \<open>P\<close>.\<close>

definition returns :: "('a \<Rightarrow> bool) \<Rightarrow> ('s, 'a) exc_st \<Rightarrow> bool" where
  "returns P m \<longleftrightarrow> (\<forall>s x s'. m s = (Inr x, s') \<longrightarrow> P x)"

named_theorems returns_intros "decomposing returns along the monad"

lemma returns_bindE [returns_intros]: "(\<And>x. returns P (f x)) \<Longrightarrow> returns P (bindE m f)"
  by (auto simp: returns_def bindE_def split: prod.splits sum.splits)

lemma returns_thenE [returns_intros]: "returns P n \<Longrightarrow> returns P (thenE m n)"
  by (simp add: thenE_def returns_bindE)

lemma returns_returnE [returns_intros]: "P x \<Longrightarrow> returns P (returnE x)"
  by (simp add: returns_def returnE_def)

lemma returns_if [returns_intros]: "returns P x \<Longrightarrow> returns P y \<Longrightarrow> returns P (if b then x else y)"
  by simp

lemma returns_Let [returns_intros]: "(\<And>v. returns P (f v)) \<Longrightarrow> returns P (let v = a in f v)"
  by simp

lemma returns_case_prod [returns_intros]:
  "(\<And>a b. returns P (f a b)) \<Longrightarrow> returns P (case p of (a, b) \<Rightarrow> f a b)"
  by (cases p) simp

lemma returns_D: "returns P m \<Longrightarrow> m s = (Inr x, s') \<Longrightarrow> P x"
  unfolding returns_def by blast

lemma handler_segment_rank: "returns (\<lambda>r. \<forall>t'. r = Some t' \<longrightarrow> task_rank t' < 5) (handler_segment cfg h m)"
  by (cases h) (simp_all, (intro returns_intros; simp)+)

lemma first_segment_rank: "returns (\<lambda>r. \<forall>t'. r = Some t' \<longrightarrow> task_rank t' < 5) (first_segment cfg h m)"
  unfolding first_segment_def by (intro returns_intros handler_segment_rank) simp

lemma task_step_rank_returns:
  "returns (\<lambda>r. \<forall>t'. r = Some t' \<longrightarrow> task_rank t' < task_rank t) (task_step cfg t)"
proof (cases t)
  case (Received m)
  then show ?thesis
    using first_segment_rank [of cfg _ m]
    by (auto simp: returns_def split: option.splits)
qed (simp_all, (intro returns_intros; simp)+)

lemma task_step_rank:
  "task_step cfg t s = (Inr (Some t'), s') \<Longrightarrow> task_rank t' < task_rank t"
  using returns_D [OF task_step_rank_returns] by blast


subsection \<open>Runs of the pool\<close>

lemma conc_run_Nil [simp]: "conc_run cfg [] c = c"
  and conc_run_Cons [simp]: "conc_run cfg (e # es) c = conc_run cfg es (conc_step cfg e c)"
  by (simp_all add: conc_run_def)

lemma conc_run_append: "conc_run cfg (es1 @ es2) c = conc_run cfg es2 (conc_run cfg es1 c)"
  by (simp add: conc_run_def)

lemma run_task_Nil [simp]: "run_task cfg i (s, []) = (s, [])"
  by (simp add: run_task_def)

lemma conc_run_idle: "conc_run cfg (replicate n (Run 0)) (s, []) = (s, [])"
  by (induction n) simp_all

lemma run_task_single:
  "run_task cfg 0 (s, [t]) =
     (case task_step cfg t s of (Inr (Some t'), s') \<Rightarrow> (s', [t']) | (_, s') \<Rightarrow> (s', []))"
  by (simp add: run_task_def remove_nth_def split: prod.splits sum.splits option.splits)

text \<open>A task run alone, segment after segment, does what is left of it in the atomic model.\<close>

lemma run_single:
  "task_rank t \<le> n \<Longrightarrow> conc_run cfg (replicate n (Run 0)) (s, [t]) = (snd (task_rest cfg t s), [])"
proof (induction n arbitrary: t s)
  case 0
  then show ?case using task_rank_pos [of t] by simp
next
  case (Suc n)
  have rest: "task_rest cfg t s = contE (task_step cfg t) (task_rest cfg) s"
    using task_step_rest [of cfg t] by simp
  obtain r s' where ts: "task_step cfg t s = (r, s')" by fastforce
  show ?case
  proof (cases r)
    case (Inl e)
    with ts rest show ?thesis by (simp add: run_task_single conc_run_idle contE_def)
  next
    case (Inr x)
    show ?thesis
    proof (cases x)
      case None
      with Inr ts rest show ?thesis by (simp add: run_task_single conc_run_idle contE_def)
    next
      case (Some t')
      with Inr ts have "task_rank t' < task_rank t" by (simp add: task_step_rank)
      with Suc.prems have "task_rank t' \<le> n" by simp
      with Some Inr ts rest Suc.IH show ?thesis by (simp add: run_task_single contE_def)
    qed
  qed
qed

definition pool_rank :: "task list \<Rightarrow> nat" where
  "pool_rank ts = sum_list (map task_rank ts)"

lemma pool_rank_Nil_iff: "pool_rank ts = 0 \<longleftrightarrow> ts = []"
  using task_rank_pos by (cases ts) (auto simp: pool_rank_def)

lemma pool_rank_bound: "pool_rank ts \<le> 5 * length ts"
proof -
  have "task_rank t \<le> 5" for t by (cases t) simp_all
  then have "sum_list (map task_rank ts) \<le> sum_list (map (\<lambda>_. 5) ts)"
    by (intro sum_list_mono) simp
  then show ?thesis by (simp add: pool_rank_def sum_list_triv)
qed

lemma run_task_0_rank:
  assumes "ts \<noteq> []"
  shows "pool_rank (snd (run_task cfg 0 (s, ts))) < pool_rank ts"
proof -
  obtain t rest where ts: "ts = t # rest" using assms by (cases ts) auto
  obtain r s' where st: "task_step cfg t s = (r, s')" by fastforce
  show ?thesis
  proof (cases "\<exists>t'. r = Inr (Some t')")
    case True
    then obtain t' where "r = Inr (Some t')" by blast
    with st ts task_step_rank [of cfg t s t' s'] show ?thesis
      by (simp add: run_task_def pool_rank_def)
  next
    case False
    then have "run_task cfg 0 (s, ts) = (s', rest)"
      using st ts by (auto simp: run_task_def remove_nth_def split: sum.splits option.splits)
    then show ?thesis using ts task_rank_pos [of t] by (simp add: pool_rank_def)
  qed
qed

lemma pool_drains_after:
  "pool_rank ts \<le> n \<Longrightarrow> snd (conc_run cfg (replicate n (Run 0)) (s, ts)) = []"
proof (induction n arbitrary: s ts)
  case 0
  then show ?case by (simp add: pool_rank_Nil_iff)
next
  case (Suc n)
  show ?case
  proof (cases "ts = []")
    case True
    then show ?thesis by (simp add: conc_run_idle)
  next
    case False
    obtain s' ts' where rt: "run_task cfg 0 (s, ts) = (s', ts')" by fastforce
    with run_task_0_rank [OF False, of cfg s] Suc.prems have "pool_rank ts' \<le> n" by simp
    with rt Suc.IH show ?thesis by simp
  qed
qed


subsection \<open>Properties of the runtime\<close>

lemma deliver_run: "conc_run cfg (Deliver m # replicate 5 (Run 0)) (s, []) = (bot_step cfg m s, [])"
  using run_single [of "Received m" 5 cfg s] by (simp add: bot_step_def)

lemma drain_pool: "\<exists>s'. conc_run cfg (replicate (5 * length ts) (Run 0)) (s, ts) = (s', [])"
  using pool_drains_after [OF pool_rank_bound [of ts], of cfg s] by (metis prod.collapse)

text \<open>
  The segments and \<open>bot_step\<close> agree: handling each update to its end before the next is
  delivered ends in the state that \<open>bot_step\<close> folded over the updates gives, with no
  task left.  So the atomic model of theory \<open>Bot\<close> is the runtime under that one schedule.
\<close>

theorem sequential_schedule:
  "conc_run cfg (concat (map (\<lambda>m. Deliver m # replicate 5 (Run 0)) ms)) (s, []) =
     (fold (bot_step cfg) ms s, [])"
proof (induction ms arbitrary: s)
  case (Cons m ms)
  with deliver_run [of cfg m s] show ?case by (simp add: conc_run_append)
qed simp

text \<open>
  C26. Every task ends after at most five of its segments, whatever the interleaving:
  running the task at the front of a pool of \<open>n\<close> tasks \<open>5 n\<close> times empties the
  pool.
\<close>

theorem pool_drains:
  "snd (conc_run cfg (replicate (5 * length ts) (Run 0)) (s, ts)) = []"
  by (rule pool_drains_after) (rule pool_rank_bound)

lemma demo_config_recipients [simp]:
  "test_recipients demo_config = [''qa@example.org'']"
  "prod_recipients demo_config = [''office@example.org'']"
  by (simp_all add: demo_config_def)

lemmas task_exec =
  run_task_def remove_nth_def first_segment_def dispatch_def state_filter_def
  is_user_allowed_def bindE_def thenE_def getsE_def modifyE_def returnE_def liftE_def
  answer_def update_data_def get_data_def set_state_def
  clear_state_def update_status_def lookupE_def fsm_key_def recipients_for_def toggle_mode_def

text \<open>
  C27. Two arrival dates sent before the first is handled to its end are both handled
  as arrival dates: the second update is dispatched while the first task waits for
  Telegram, before \<^verbatim>\<open>state.clear()\<close>, so two documents are filled and two mails
  sent, where the design (spec 5, 8) sends one.
\<close>

theorem concurrent_double_mail:
  "let c = conc_run demo_config
             ([Deliver (demo_msg 42 ''20 Oct''), Deliver (demo_msg 42 ''21 Oct''), Run 0, Run 1] @
              replicate 8 (Run 0))
             (demo_arrival [Reply (Response 202 '''' None), Reply (Response 202 '''' None)], [])
   in map req_url (http_log (fst c)) = [send_mail_url, send_mail_url] \<and> snd c = [] \<and>
      fsm_state (fst c) (7, 42) = None"
proof -
  have "\<not> command_filter demo_config ''start'' (demo_msg 42 ''20 Oct'')"
    and "\<not> command_filter demo_config ''start'' (demo_msg 42 ''21 Oct'')"
    by (simp_all add: command_filter_eval)
  then show ?thesis
    by (simp add: task_exec demo_arrival_def demo_bot_def init_bot_def fill_document_Some
        send_email_first_reply token_expired_def mail_request_def numeral_eq_Suc)
qed

text \<open>
  C28. Two departure dates sent in quick succession, then an arrival date, leave the
  conversation waiting for an arrival date with no departure date stored: the second
  departure task sets the arrival stage after the arrival task has cleared the
  session.  The atomic model keeps the departure date whenever it waits for the arrival
  date; under interleaving only the weaker shape of \<open>concurrent_sessions\<close> survives, and
  the next arrival date gets no answer (\<open>arrival_without_departure_stuck\<close>).
\<close>

theorem concurrent_lost_departure:
  "let s0 = (demo_bot [Reply (Response 202 '''' None)])\<lparr>fsm_state := (\<lambda>_. None)((7, 42) := Some Departure_date)\<rparr>;
       c = conc_run demo_config
             [Deliver (demo_msg 42 ''15 Oct''), Run 0, Deliver (demo_msg 42 ''16 Oct''), Run 1, Run 0,
              Deliver (demo_msg 42 ''20 Oct''), Run 1, Run 1, Run 1, Run 1, Run 1, Run 0,
              Deliver (demo_msg 42 ''21 Oct''), Run 0] (s0, [])
   in fsm_state (fst c) (7, 42) = Some Arrival_date \<and>
      fsm_data (fst c) (7, 42) ''departure_date'' = None \<and>
      length (http_log (fst c)) = 1 \<and> last (chat_log (fst c)) = Edit 7 4 (SentOk Test [''qa@example.org''])"
proof -
  have "\<not> command_filter demo_config ''start'' (demo_msg 42 ''15 Oct'')"
    and "\<not> command_filter demo_config ''start'' (demo_msg 42 ''16 Oct'')"
    and "\<not> command_filter demo_config ''start'' (demo_msg 42 ''20 Oct'')"
    and "\<not> command_filter demo_config ''start'' (demo_msg 42 ''21 Oct'')"
    by (simp_all add: command_filter_eval)
  then show ?thesis
    by (simp add: task_exec demo_bot_def init_bot_def fill_document_Some
        send_email_first_reply token_expired_def mail_request_def)
qed

text \<open>
  C29. A conversation waiting for the arrival date without a departure date is
  stuck: every message of the allowed user other than \<^verbatim>\<open>/start\<close> stores its text
  as the arrival date and then raises \<^verbatim>\<open>KeyError\<close> at line 174, before any
  answer, and the stage stays the same.
\<close>

theorem arrival_without_departure_stuck:
  assumes "from_user_id m = allowed_user_id cfg" and "\<not> command_filter cfg ''start'' m"
    and "fsm_state s (fsm_key m) = Some Arrival_date"
    and "fsm_data s (fsm_key m) ''departure_date'' = None"
  shows "task_step cfg (Received m) s =
           (Inl (KeyError ''departure_date''),
            s\<lparr>fsm_data := (fsm_data s)(fsm_key m := (fsm_data s (fsm_key m))(''arrival_date'' \<mapsto> msg_text m))\<rparr>)"
  using assms by (simp add: task_exec)

theorem arrival_without_departure_stuck_witness:
  "task_step demo_config (Received (demo_msg 42 ''21 Oct''))
     ((demo_bot [])\<lparr>fsm_state := (\<lambda>_. None)((7, 42) := Some Arrival_date)\<rparr>) =
   (Inl (KeyError ''departure_date''),
    (demo_bot [])\<lparr>fsm_state := (\<lambda>_. None)((7, 42) := Some Arrival_date),
                  fsm_data := (\<lambda>_. Map.empty)((7, 42) := [''arrival_date'' \<mapsto> PyStr ''21 Oct''])\<rparr>)"
proof -
  let ?s = "(demo_bot [])\<lparr>fsm_state := (\<lambda>_. None)((7, 42) := Some Arrival_date)\<rparr>"
  have "from_user_id (demo_msg 42 ''21 Oct'') = allowed_user_id demo_config"
    and "\<not> command_filter demo_config ''start'' (demo_msg 42 ''21 Oct'')"
    and "fsm_state ?s (fsm_key (demo_msg 42 ''21 Oct'')) = Some Arrival_date"
    and "fsm_data ?s (fsm_key (demo_msg 42 ''21 Oct'')) ''departure_date'' = None"
    by (simp_all add: command_filter_eval demo_bot_def init_bot_def)
  from arrival_without_departure_stuck [OF this] show ?thesis
    by (simp add: demo_bot_def init_bot_def)
qed

text \<open>
  C30. The success message can name another mode than the one whose recipients got
  the mail: the recipients are chosen before the "sending" message is awaited (line
  181), the mode of the success message is read after the mail (line 189), and a
  \<^verbatim>\<open>/mode\<close> from another chat can run in between.
\<close>

definition demo_msg_chat :: "int \<Rightarrow> string \<Rightarrow> message" where
  "demo_msg_chat c t = \<lparr>chat_id = c, from_user_id = 42, msg_text = PyStr t, caption = PyNone\<rparr>"

theorem concurrent_mode_mismatch:
  "let c = conc_run demo_config
             [Deliver (demo_msg 42 ''20 Oct''), Run 0, Run 0, Run 0, Deliver (demo_msg_chat 8 ''/mode''),
              Run 1, Run 1, Run 0, Run 0]
             (demo_arrival [Reply (Response 202 '''' None)], [])
   in map (\<lambda>r. case req_body r of Json d \<Rightarrow> to_recipients d | Form _ \<Rightarrow> []) (http_log (fst c)) =
        [[''qa@example.org'']] \<and>
      last (chat_log (fst c)) = Edit 7 2 (SentOk Prod [''qa@example.org''])"
proof -
  have "\<not> command_filter demo_config ''start'' (demo_msg 42 ''20 Oct'')"
    and "\<not> command_filter demo_config ''start'' (demo_msg_chat 8 ''/mode'')"
    and "command_filter demo_config ''mode'' (demo_msg_chat 8 ''/mode'')"
    by (simp_all add: command_filter_eval demo_msg_chat_def)
  then show ?thesis
    by (simp add: task_exec demo_arrival_def demo_bot_def init_bot_def fill_document_Some
        send_email_first_reply token_expired_def mail_request_def build_email_data_def
        demo_msg_chat_def)
qed


subsection \<open>Other users' sessions under any interleaving\<close>

fun task_msg :: "task \<Rightarrow> message" where
  "task_msg (Received m) = m"
| "task_msg (StartGreeted m) = m"
| "task_msg (DepartureAsked m) = m"
| "task_msg (ArrivalFilling m d a sm) = m"
| "task_msg (ArrivalFilled m fp) = m"
| "task_msg (ArrivalSending m fp rs sm) = m"
| "task_msg (ArrivalReported m) = m"
| "task_msg (ModeAnswered m) = m"

fun started :: "task \<Rightarrow> bool" where
  "started (Received m) = False"
| "started t = True"

text \<open>The configurations of the runtime from start-up, under deliveries, segments and
  changes of the environment.\<close>

inductive conc_reach :: "config \<Rightarrow> bot \<times> task list \<Rightarrow> bool" for cfg :: config where
  init: "conc_reach cfg (init_bot at rt fs rs, [])"
| step: "conc_reach cfg c \<Longrightarrow> conc_reach cfg (conc_step cfg e c)"
| env_net: "conc_reach cfg (s, ts) \<Longrightarrow> conc_reach cfg (s\<lparr>net := rs\<rparr>, ts)"
| env_files: "conc_reach cfg (s, ts) \<Longrightarrow> conc_reach cfg (s\<lparr>files := fs\<rparr>, ts)"

definition key_view :: "fsm_key \<Rightarrow> bot \<Rightarrow> form_state option \<times> (string \<rightharpoonup> pyval)" where
  "key_view k s = (fsm_state s k, fsm_data s k)"

lemma preserves_view:
  "preserves f m \<Longrightarrow> (\<And>s. g s = h (f s)) \<Longrightarrow> preserves g m"
  by (simp add: preserves_def)

lemma preserves_key_view_conv: "preserves conv_view m \<Longrightarrow> preserves (key_view k) m"
  by (erule preserves_view [where h = "\<lambda>(md, st, d). (st k, d k)"]) (simp add: key_view_def conv_view_def)

named_theorems key_frame "operations that leave the session of another key alone"

lemma key_frame_ops [key_frame]:
  "preserves (key_view k) (answer m r)"
  "preserves (key_view k) (update_status m i r)"
  "preserves (key_view k) (get_data m)"
  "preserves (key_view k) (fill_document d a)"
  "preserves (key_view k) (send_email cfg p rs)"
  by (intro preserves_key_view_conv preserves_intros)+

lemma key_frame_mode [key_frame]: "preserves (key_view k) (modifyE (\<lambda>s. s\<lparr>current_mode := md s\<rparr>))"
  by (intro preserves_modifyE) (simp add: key_view_def)

lemma key_frame_other [key_frame]:
  "k \<noteq> fsm_key m \<Longrightarrow> preserves (key_view k) (set_state m st)"
  "k \<noteq> fsm_key m \<Longrightarrow> preserves (key_view k) (update_data m f v)"
  "k \<noteq> fsm_key m \<Longrightarrow> preserves (key_view k) (clear_state m)"
  by (simp_all add: preserves_def key_view_def set_state_def update_data_def clear_state_def
      modifyE_def)

lemma is_user_allowed_frame [key_frame]: "preserves (key_view k) (is_user_allowed cfg m)"
  unfolding is_user_allowed_def by (intro preserves_intros key_frame)

lemma task_step_frame:
  assumes "k \<noteq> fsm_key (task_msg t)"
  shows "preserves (key_view k) (task_step cfg t)"
proof (cases t)
  case (Received m)
  have "preserves (key_view k) (first_segment cfg h m)" for h
    using assms Received unfolding first_segment_def
    by (cases h) (simp_all, (intro preserves_intros key_frame; simp)+)
  then show ?thesis
    using Received by (auto simp: preserves_def split: option.splits)
qed (use assms in \<open>simp_all, (intro preserves_intros key_frame; simp)+\<close>)

lemma first_segment_denied:
  "from_user_id m \<noteq> allowed_user_id cfg \<Longrightarrow> first_segment cfg h m = thenE (answer m NoAccess) (returnE None)"
  by (simp add: first_segment_def is_user_allowed_def bindE_returnE thenE_def bindE_assoc)

lemma first_segment_allowed:
  "from_user_id m = allowed_user_id cfg \<Longrightarrow> first_segment cfg h m = handler_segment cfg h m"
  by (simp add: first_segment_def is_user_allowed_def bindE_returnE)


lemma handler_segment_msg:
  "returns (\<lambda>r. \<forall>t'. r = Some t' \<longrightarrow> task_msg t' = m \<and> started t') (handler_segment cfg h m)"
  by (cases h) (simp_all, (intro returns_intros; simp)+)

text \<open>A task that goes on keeps its message, and an update goes on only for the allowed user.\<close>

lemma task_step_msg:
  "returns (\<lambda>r. \<forall>t'. r = Some t' \<longrightarrow> task_msg t' = task_msg t \<and> started t' \<and>
                   (started t \<or> from_user_id (task_msg t) = allowed_user_id cfg))
           (task_step cfg t)"
proof (cases t)
  case (Received m)
  show ?thesis
  proof (cases "from_user_id m = allowed_user_id cfg")
    case True
    then have "returns (\<lambda>r. \<forall>t'. r = Some t' \<longrightarrow> task_msg t' = m \<and> started t') (first_segment cfg h m)" for h
      by (simp add: first_segment_allowed handler_segment_msg)
    with Received True show ?thesis
      by (auto simp: returns_def split: option.splits)
  next
    case False
    then have "returns (\<lambda>r. r = None) (first_segment cfg h m)" for h
      by (simp add: first_segment_denied) (intro returns_intros; simp)
    with Received show ?thesis
      by (fastforce simp: returns_def split: option.splits)
  qed
qed (simp_all, (intro returns_intros; simp)+)

lemma foreign_update_frame:
  "from_user_id m \<noteq> allowed_user_id cfg \<Longrightarrow> preserves (key_view k) (task_step cfg (Received m))"
proof -
  assume "from_user_id m \<noteq> allowed_user_id cfg"
  then have "preserves (key_view k) (first_segment cfg h m)" for h
    by (simp add: first_segment_denied) (intro preserves_intros key_frame)
  then show ?thesis by (auto simp: preserves_def split: option.splits)
qed

definition foreign_idle :: "config \<Rightarrow> bot \<times> task list \<Rightarrow> bool" where
  "foreign_idle cfg c \<longleftrightarrow>
     (\<forall>k. snd k \<noteq> allowed_user_id cfg \<longrightarrow> key_view k (fst c) = (None, Map.empty)) \<and>
     (\<forall>t \<in> set (snd c). started t \<longrightarrow> from_user_id (task_msg t) = allowed_user_id cfg)"

lemma set_remove_nth: "set (remove_nth i xs) \<subseteq> set xs"
  by (auto simp: remove_nth_def dest: in_set_takeD in_set_dropD)

lemma run_task_foreign_idle:
  assumes inv: "foreign_idle cfg (s, ts)"
  shows "foreign_idle cfg (run_task cfg i (s, ts))"
proof (cases "i < length ts")
  case True
  let ?t = "ts ! i"
  obtain r s' where st: "task_step cfg ?t s = (r, s')" by fastforce
  have t_in: "?t \<in> set ts" using True by simp
  have keys: "key_view k s' = key_view k s" if "snd k \<noteq> allowed_user_id cfg" for k
  proof (cases "from_user_id (task_msg ?t) = allowed_user_id cfg")
    case True
    with that have "k \<noteq> fsm_key (task_msg ?t)" by (auto simp: fsm_key_def)
    then show ?thesis using preservesD [OF task_step_frame st] by simp
  next
    case False
    with inv t_in have "\<not> started ?t" by (auto simp: foreign_idle_def)
    then obtain m where "?t = Received m" by (cases ?t) simp_all
    with False st show ?thesis using preservesD [OF foreign_update_frame] by fastforce
  qed
  have tasks: "from_user_id (task_msg t') = allowed_user_id cfg" if "r = Inr (Some t')" for t'
  proof -
    from returns_D [OF task_step_msg] st that
    have "task_msg t' = task_msg ?t \<and> (started ?t \<or> from_user_id (task_msg ?t) = allowed_user_id cfg)"
      by blast
    with inv t_in show ?thesis by (auto simp: foreign_idle_def)
  qed
  show ?thesis
  proof (cases "\<exists>t'. r = Inr (Some t')")
    case True
    then obtain t' where r: "r = Inr (Some t')" by blast
    have "set (ts[i := t']) \<subseteq> insert t' (set ts)" by (rule set_update_subset_insert)
    with inv keys tasks [OF r] True r st show ?thesis
      by (auto simp: run_task_def foreign_idle_def)
  next
    case False
    then have "run_task cfg i (s, ts) = (s', remove_nth i ts)"
      using st True by (auto simp: run_task_def split: sum.splits option.splits)
    with inv keys set_remove_nth [of i ts] show ?thesis
      by (auto simp: foreign_idle_def)
  qed
qed (simp add: run_task_def inv)

lemma conc_reach_foreign_idle: "conc_reach cfg c \<Longrightarrow> foreign_idle cfg c"
proof (induction rule: conc_reach.induct)
  case (init at rt fs rs)
  then show ?case by (simp add: foreign_idle_def key_view_def init_bot_def)
next
  case (step c e)
  then show ?case
  proof (cases e)
    case (Deliver m)
    with step.IH show ?thesis by (cases c) (simp add: foreign_idle_def)
  next
    case (Run i)
    with step.IH run_task_foreign_idle show ?thesis by (cases c) simp
  qed
next
  case (env_net s ts rs)
  then show ?case by (simp add: foreign_idle_def key_view_def)
next
  case (env_files s ts fs)
  then show ?case by (simp add: foreign_idle_def key_view_def)
qed

text \<open>
  C31. The Access Guard holds under any interleaving: in every configuration of the
  runtime, the session of every key of another user than the allowed one is idle and
  empty, and every task past its first segment belongs to the allowed user.
\<close>

theorem concurrent_foreign_idle:
  assumes "conc_reach cfg (s, ts)" and "snd k \<noteq> allowed_user_id cfg"
  shows "fsm_state s k = None \<and> fsm_data s k = Map.empty \<and>
         (\<forall>t \<in> set ts. started t \<longrightarrow> from_user_id (task_msg t) = allowed_user_id cfg)"
proof -
  have "foreign_idle cfg (s, ts)" by (rule conc_reach_foreign_idle [OF assms(1)])
  then have "key_view k s = (None, Map.empty)"
    and "\<forall>t \<in> set ts. started t \<longrightarrow> from_user_id (task_msg t) = allowed_user_id cfg"
    using assms(2) unfolding foreign_idle_def by (cases k, auto)+
  then show ?thesis by (simp add: key_view_def)
qed

theorem concurrent_foreign_idle_witness:
  "fsm_state (demo_bot []) (7, 13) = None \<and> fsm_data (demo_bot []) (7, 13) = Map.empty"
proof -
  have "conc_reach demo_config (demo_bot [], [])"
    unfolding demo_bot_def by (rule conc_reach.init)
  moreover have "snd (7::int, 13::int) \<noteq> allowed_user_id demo_config" by simp
  ultimately show ?thesis using concurrent_foreign_idle by blast
qed

text \<open>
  C32. Liveness of the conversation under the concurrent runtime: from every
  configuration, whatever tasks are pending and whatever state the chats are in (also
  the arrival stage without a departure date that \<open>concurrent_lost_departure\<close> reaches),
  the allowed user gets back to a sound arrival stage.  Once the pending tasks have run,
  \<^verbatim>\<open>/start\<close> and a date, each handled to its end, leave the chat awaiting the arrival
  date with that date stored as the departure date: the precondition of
  \<open>Bot.arrival_completes\<close>, under which the next
  date fills and mails the document.
\<close>

theorem conversation_recovers:
  assumes a1: "from_user_id m1 = allowed_user_id cfg" and a2: "from_user_id m2 = allowed_user_id cfg"
    and key: "fsm_key m2 = fsm_key m1"
    and cmd: "command_filter cfg ''start'' m1" and nostart: "\<not> command_filter cfg ''start'' m2"
  shows "\<exists>s'. conc_run cfg (replicate (5 * length ts) (Run 0) @
                         (Deliver m1 # replicate 5 (Run 0)) @ (Deliver m2 # replicate 5 (Run 0))) (s, ts) = (s', []) \<and>
              fsm_state s' (fsm_key m1) = Some Arrival_date \<and>
              fsm_data s' (fsm_key m1) ''departure_date'' = Some (msg_text m2)"
proof -
  obtain s1 where drain: "conc_run cfg (replicate (5 * length ts) (Run 0)) (s, ts) = (s1, [])"
    using drain_pool by blast
  define s2 where "s2 = bot_step cfg m1 s1"
  have st2: "fsm_state s2 (fsm_key m1) = Some Departure_date"
    using a1 by (simp add: s2_def bot_step_def feed_update_def dispatch_start [OF cmd] start_allowed)
  define s3 where "s3 = bot_step cfg m2 s2"
  have "fsm_state s3 (fsm_key m1) = Some Arrival_date \<and>
        fsm_data s3 (fsm_key m1) ''departure_date'' = Some (msg_text m2)"
    using a2 st2 key
    by (simp add: s3_def bot_step_def feed_update_def dispatch_stage [OF nostart] departure_date_allowed)
  moreover have "conc_run cfg (replicate (5 * length ts) (Run 0) @
                   (Deliver m1 # replicate 5 (Run 0)) @ (Deliver m2 # replicate 5 (Run 0))) (s, ts) = (s3, [])"
    unfolding conc_run_append drain deliver_run s2_def s3_def ..
  ultimately show ?thesis by blast
qed

theorem conversation_recovers_witness:
  "\<exists>s'. conc_run demo_config (replicate 10 (Run 0) @
          (Deliver (demo_msg 42 ''/start'') # replicate 5 (Run 0)) @
          (Deliver (demo_msg 42 ''15 Oct'') # replicate 5 (Run 0)))
          (demo_bot [], [Received (demo_msg 42 ''15 Oct''), Received (demo_msg 42 ''20 Oct'')]) = (s', []) \<and>
        fsm_state s' (7, 42) = Some Arrival_date \<and>
        fsm_data s' (7, 42) ''departure_date'' = Some (PyStr ''15 Oct'')"
proof -
  have "command_filter demo_config ''start'' (demo_msg 42 ''/start'')"
    and "\<not> command_filter demo_config ''start'' (demo_msg 42 ''15 Oct'')"
    by (simp_all add: demo_msg_def command_filter_eval)
  then show ?thesis
    using conversation_recovers [of "demo_msg 42 ''/start''" demo_config "demo_msg 42 ''15 Oct''"
        "[Received (demo_msg 42 ''15 Oct''), Received (demo_msg 42 ''20 Oct'')]" "demo_bot []"]
    by simp
qed

subsection \<open>The shape of every session under any interleaving\<close>

text \<open>\<open>key_ok\<close> is the shape of one user's session (its form state and form data):
  idle means no data, and only the two date fields are stored.\<close>

definition key_ok :: "form_state option \<times> (string \<rightharpoonup> pyval) \<Rightarrow> bool" where
  "key_ok v \<longleftrightarrow> (fst v = None \<longrightarrow> snd v = Map.empty) \<and> dom (snd v) \<subseteq> {''departure_date'', ''arrival_date''}"

lemma key_ok_preserved:
  "preserves (key_view k) m \<Longrightarrow> m s = (r, s') \<Longrightarrow> key_ok (key_view k s) \<Longrightarrow> key_ok (key_view k s')"
  using preservesD [of "key_view k" m s r s'] by simp

lemma thenE_preserves_after:
  "m s = (Inr (), s1) \<Longrightarrow> preserves f k \<Longrightarrow> thenE m k s = (r, s') \<Longrightarrow> f s' = f s1"
  by (auto simp: thenE_def bindE_def preserves_def)

lemma update_data_key_ok:
  assumes "fsm_state s (fsm_key m) \<noteq> None" and "f \<in> {''departure_date'', ''arrival_date''}"
    and "key_ok (key_view (fsm_key m) s)"
  shows "key_ok (key_view (fsm_key m) (snd (update_data m f v s)))"
  using assms by (simp add: key_ok_def key_view_def update_data_def modifyE_def)

lemma update_data_run: "update_data m f v s = (Inr (), snd (update_data m f v s))"
  by (simp add: update_data_def modifyE_def)

lemma first_segment_own:
  assumes disp: "dispatch cfg m (fsm_state s (fsm_key m)) = Some h"
    and ok: "key_ok (key_view (fsm_key m) s)"
    and run: "first_segment cfg h m s = (r, s')"
  shows "key_ok (key_view (fsm_key m) s')"
proof (cases "from_user_id m = allowed_user_id cfg")
  case False
  then have "preserves (key_view (fsm_key m)) (first_segment cfg h m)"
    by (simp add: first_segment_denied) (intro preserves_intros key_frame)
  then show ?thesis using run ok by (rule key_ok_preserved)
next
  case True
  let ?k = "fsm_key m"
  show ?thesis
  proof (cases h)
    case H_departure_date
    let ?u = "update_data m ''departure_date'' (msg_text m)"
    have st: "fsm_state s ?k \<noteq> None" using disp H_departure_date by (auto dest: dispatch_departure)
    have seg: "first_segment cfg h m = thenE ?u (thenE (answer m AskArrival) (returnE (Some (DepartureAsked m))))"
      using True H_departure_date by (simp add: first_segment_allowed)
    have "preserves (key_view ?k) (thenE (answer m AskArrival) (returnE (Some (DepartureAsked m))))"
      by (intro preserves_intros key_frame)
    then have "key_view ?k s' = key_view ?k (snd (?u s))"
      using run unfolding seg by (rule thenE_preserves_after [OF update_data_run])
    with update_data_key_ok [OF st _ ok] show ?thesis by simp
  next
    case H_arrival_date
    let ?u = "update_data m ''arrival_date'' (msg_text m)"
    let ?k2 = "bindE (get_data m) (\<lambda>data.
       bindE (liftE (lookupE data ''departure_date'')) (\<lambda>departure.
       bindE (liftE (lookupE data ''arrival_date'')) (\<lambda>arrival.
       bindE (answer m Filling) (\<lambda>status_message.
       returnE (Some (ArrivalFilling m departure arrival status_message))))))"
    have st: "fsm_state s ?k \<noteq> None" using disp H_arrival_date by (auto dest: dispatch_arrival)
    have seg: "first_segment cfg h m = thenE ?u ?k2"
      using True H_arrival_date by (simp add: first_segment_allowed)
    have "preserves (key_view ?k) ?k2"
      by (intro preserves_intros key_frame)
    then have "key_view ?k s' = key_view ?k (snd (?u s))"
      using run unfolding seg by (rule thenE_preserves_after [OF update_data_run])
    with update_data_key_ok [OF st _ ok] show ?thesis by simp
  next
    case H_start
    have "preserves (key_view ?k) (first_segment cfg h m)"
      using True H_start by (simp add: first_segment_allowed) (intro preserves_intros key_frame)
    then show ?thesis using run ok by (rule key_ok_preserved)
  next
    case H_change_mode
    have "preserves (key_view ?k) (first_segment cfg h m)"
      using True H_change_mode by (simp add: first_segment_allowed) (intro preserves_intros key_frame)
    then show ?thesis using run ok by (rule key_ok_preserved)
  qed
qed


lemma task_step_key_ok:
  assumes ok: "\<forall>k. key_ok (key_view k s)" and run: "task_step cfg t s = (r, s')"
  shows "key_ok (key_view k s')"
proof (cases "k = fsm_key (task_msg t)")
  case False
  from task_step_frame [OF False] run ok show ?thesis by (blast intro: key_ok_preserved)
next
  case True
  have okk: "key_ok (key_view k s)" using ok by blast
  show ?thesis
  proof (cases t)
    case (Received m)
    show ?thesis
    proof (cases "dispatch cfg m (fsm_state s (fsm_key m))")
      case None
      with Received run have "s' = s" by simp
      with ok show ?thesis by blast
    next
      case (Some h)
      from ok have "key_ok (key_view (fsm_key m) s)" by blast
      from first_segment_own [OF Some this] Some Received True run show ?thesis by simp
    qed
  next
    case (ArrivalFilling m d a i)
    have "preserves (key_view k) (task_step cfg t)"
      using ArrivalFilling by simp (intro preserves_intros key_frame)
    with run ok show ?thesis by (blast intro: key_ok_preserved)
  next
    case (ArrivalFilled m fp)
    have "preserves (key_view k) (task_step cfg t)"
      using ArrivalFilled by simp (intro preserves_intros key_frame)
    with run ok show ?thesis by (blast intro: key_ok_preserved)
  next
    case (ArrivalSending m fp rs i)
    have "preserves (key_view k) (task_step cfg t)"
      using ArrivalSending by simp (intro preserves_intros key_frame)
    with run ok show ?thesis by (blast intro: key_ok_preserved)
  next
    case (StartGreeted m)
    with True run have "key_view k s' = (Some Departure_date, fsm_data s k)"
      by (auto simp: key_view_def thenE_def bindE_def set_state_def modifyE_def returnE_def)
    with okk show ?thesis by (simp add: key_ok_def key_view_def)
  next
    case (DepartureAsked m)
    with True run have "key_view k s' = (Some Arrival_date, fsm_data s k)"
      by (auto simp: key_view_def thenE_def bindE_def set_state_def modifyE_def returnE_def)
    with okk show ?thesis by (simp add: key_ok_def key_view_def)
  qed (use True run okk in \<open>auto simp: key_ok_def key_view_def thenE_def bindE_def set_state_def
         clear_state_def modifyE_def returnE_def\<close>)
qed

definition sessions_ok :: "bot \<Rightarrow> bool" where
  "sessions_ok s \<longleftrightarrow> (\<forall>k. key_ok (key_view k s))"

lemma task_step_sessions_ok: "sessions_ok s \<Longrightarrow> task_step cfg t s = (r, s') \<Longrightarrow> sessions_ok s'"
  unfolding sessions_ok_def using task_step_key_ok by blast

lemma run_task_sessions_ok: "sessions_ok s \<Longrightarrow> sessions_ok (fst (run_task cfg i (s, ts)))"
  unfolding run_task_def
  by (auto split: prod.splits sum.splits option.splits intro: task_step_sessions_ok)

lemma conc_reach_sessions_ok: "conc_reach cfg c \<Longrightarrow> sessions_ok (fst c)"
proof (induction rule: conc_reach.induct)
  case (init at rt fs rs)
  then show ?case by (simp add: sessions_ok_def key_ok_def key_view_def init_bot_def)
next
  case (step c e)
  then show ?case
    by (cases e; cases c) (simp_all add: run_task_sessions_ok)
qed (simp_all add: sessions_ok_def key_view_def)

text \<open>
  C6. Under any interleaving of handler segments, deliveries, network answers and file changes,
  every session of the form keeps its shape: a user with no form state has no form data (the
  \<^verbatim>\<open>state.clear()\<close> of lines 168 and 204 empties both), and the only keys ever stored
  are \<^verbatim>\<open>departure_date\<close> and \<^verbatim>\<open>arrival_date\<close> (lines 164 and 171).  That the
  departure date is stored whenever the form waits for the arrival date does not hold under
  interleaving (\<open>concurrent_lost_departure\<close>).
\<close>
theorem concurrent_sessions:
  assumes "conc_reach cfg (s, ts)"
  shows "(fsm_state s k = None \<longrightarrow> fsm_data s k = Map.empty) \<and>
         dom (fsm_data s k) \<subseteq> {''departure_date'', ''arrival_date''}"
proof -
  have "sessions_ok s" using conc_reach_sessions_ok [OF assms] by simp
  then have "key_ok (key_view k s)" unfolding sessions_ok_def by blast
  then show ?thesis by (simp add: key_ok_def key_view_def)
qed

theorem concurrent_sessions_witness:
  "fsm_state (demo_bot []) (7, 42) = None \<and> fsm_data (demo_bot []) (7, 42) = Map.empty \<and>
   dom (fsm_data (demo_bot []) (7, 42)) \<subseteq> {''departure_date'', ''arrival_date''}"
proof -
  have "conc_reach demo_config (demo_bot [], [])" unfolding demo_bot_def by (rule conc_reach.init)
  from concurrent_sessions [OF this, of "(7, 42)"] show ?thesis
    by (simp add: demo_bot_def init_bot_def)
qed

end
