(* ===== verification/Status_Edits.thy ===== *)
theory Status_Edits
  imports Tasks
begin

text \<open>
  The status messages of \<^verbatim>\<open>arrival_date\<close> (\<^verbatim>\<open>src/main.py\<close>, lines 177--192):
  the handler answers a placeholder (\<^emph>\<open>Filling\<close>, then \<^emph>\<open>Sending\<close>) and later
  replaces it by \<^verbatim>\<open>update_status\<close> (lines 68--74), which calls
  \<^verbatim>\<open>bot.edit_message_text\<close> with the chat of the message and the
  \<^verbatim>\<open>message_id\<close> of the placeholder.  Telegram refuses an edit of a message that
  does not exist, of another chat, or with an unchanged text; \<^verbatim>\<open>update_status\<close>
  would log that refusal and go on.  This theory shows that under every interleaving
  of the runtime (theory \<open>Tasks\<close>) every edit names an earlier placeholder of the
  same chat and replaces it by a different text: \<open>Filling\<close> by \<open>Filled\<close>,
  \<open>Sending\<close> by the result of the mail.

  The proof is a Hoare logic on the chat log: \<open>log_triple P m Q\<close> says that
  \<open>m\<close>, run on a log satisfying \<open>P\<close>, only appends to the log, keeps every edit
  well aimed, and on a normal return \<open>a\<close> leaves a log satisfying \<open>Q a\<close>.
\<close>

subsection \<open>Well-aimed edits\<close>

text \<open>The placeholder that a final status text replaces.\<close>

fun status_of :: "reply \<Rightarrow> reply option" where
  "status_of Filled = Some Filling"
| "status_of (SentOk md rs) = Some Sending"
| "status_of (SendFailed t) = Some Sending"
| "status_of r = None"

definition edit_ok :: "chat_action list \<Rightarrow> chat_action \<Rightarrow> bool" where
  "edit_ok log e =
     (case e of
        Answer c r \<Rightarrow> True
      | Edit c i r \<Rightarrow> i < length log \<and>
          (case status_of r of None \<Rightarrow> False | Some r0 \<Rightarrow> log ! i = Answer c r0))"

definition edits_wf :: "chat_action list \<Rightarrow> bool" where
  "edits_wf log \<longleftrightarrow> list_all (\<lambda>j. edit_ok (take j log) (log ! j)) [0..<length log]"

text \<open>A stopped \<^verbatim>\<open>arrival_date\<close> holds the \<^verbatim>\<open>message_id\<close> of its placeholder.\<close>

fun task_ok :: "chat_action list \<Rightarrow> task \<Rightarrow> bool" where
  "task_ok log (ArrivalFilling m d a i) \<longleftrightarrow> i < length log \<and> log ! i = Answer (chat_id m) Filling"
| "task_ok log (ArrivalSending m fp rs i) \<longleftrightarrow> i < length log \<and> log ! i = Answer (chat_id m) Sending"
| "task_ok log t \<longleftrightarrow> True"

definition log_triple ::
  "(chat_action list \<Rightarrow> bool) \<Rightarrow> (bot, 'a) exc_st \<Rightarrow> ('a \<Rightarrow> chat_action list \<Rightarrow> bool) \<Rightarrow> bool" where
  "log_triple P m Q \<longleftrightarrow>
     (\<forall>s r s'. m s = (r, s') \<longrightarrow> P (chat_log s) \<longrightarrow>
        (\<exists>es. chat_log s' = chat_log s @ es) \<and>
        (edits_wf (chat_log s) \<longrightarrow> edits_wf (chat_log s')) \<and>
        (\<forall>a. r = Inr a \<longrightarrow> Q a (chat_log s')))"

subsection \<open>The log and the tasks\<close>

lemma edits_wf_Nil [simp]: "edits_wf []"
  by (simp add: edits_wf_def)

lemma edits_wf_snoc: "edits_wf (log @ [e]) \<longleftrightarrow> edits_wf log \<and> edit_ok log e"
proof -
  have "list_all (\<lambda>j. edit_ok (take j (log @ [e])) ((log @ [e]) ! j)) [0..<length log] \<longleftrightarrow>
        list_all (\<lambda>j. edit_ok (take j log) (log ! j)) [0..<length log]"
    by (auto simp: list_all_iff nth_append)
  then show ?thesis by (simp add: edits_wf_def)
qed

lemma task_ok_append: "task_ok log t \<Longrightarrow> task_ok (log @ es) t"
  by (cases t) (simp_all add: nth_append)

subsection \<open>Rules of the logic\<close>

text \<open>Weakest-precondition rules: each computes the precondition from the
  postcondition, so that a chain of them runs without choices and leaves one
  verification condition (\<open>log_weaken\<close>).\<close>

named_theorems log_wp "weakest-precondition rules of log_triple"

lemma log_weaken: "log_triple P m Q \<Longrightarrow> (\<And>l. P' l \<Longrightarrow> P l) \<Longrightarrow> log_triple P' m Q"
  by (auto simp: log_triple_def)

lemma log_bindE [log_wp]:
  "(\<And>a. log_triple (R a) (g a) Q) \<Longrightarrow> log_triple P m R \<Longrightarrow> log_triple P (bindE m g) Q"
  unfolding log_triple_def bindE_def
  by (fastforce split: prod.splits sum.splits)

lemma log_thenE [log_wp]:
  "log_triple R k Q \<Longrightarrow> log_triple P m (\<lambda>_. R) \<Longrightarrow> log_triple P (thenE m k) Q"
  unfolding thenE_def by (rule log_bindE)

lemma log_returnE [log_wp]: "log_triple (Q a) (returnE a) Q"
  by (simp add: log_triple_def returnE_def)

lemma log_if [log_wp]:
  "log_triple P1 m1 Q \<Longrightarrow> log_triple P2 m2 Q \<Longrightarrow>
   log_triple (\<lambda>l. (b \<longrightarrow> P1 l) \<and> (\<not> b \<longrightarrow> P2 l)) (if b then m1 else m2) Q"
  by (auto simp: log_triple_def)

lemma log_Let [log_wp]: "log_triple P (f a) Q \<Longrightarrow> log_triple P (let v = a in f v) Q"
  by simp

lemma log_case_prod [log_wp]:
  "(\<And>a b. log_triple (P a b) (f a b) Q) \<Longrightarrow> log_triple (case p of (a, b) \<Rightarrow> P a b) (case p of (a, b) \<Rightarrow> f a b) Q"
  by (cases p) simp

lemma log_frame: "preserves chat_log m \<Longrightarrow> log_triple (\<lambda>l. \<forall>a. Q a l) m Q"
  by (auto simp: log_triple_def preserves_def)

lemma log_ops [log_wp]:
  "log_triple (\<lambda>l. \<forall>a. Q0 a l) (getsE f) Q0"
  "log_triple (\<lambda>l. \<forall>a. Q1 a l) (liftE x) Q1"
  "log_triple (\<lambda>l. \<forall>a. Q2 a l) (set_state m st) Q2"
  "log_triple (\<lambda>l. \<forall>a. Q3 a l) (update_data m k v) Q3"
  "log_triple (\<lambda>l. \<forall>a. Q4 a l) (get_data m) Q4"
  "log_triple (\<lambda>l. \<forall>a. Q5 a l) (clear_state m) Q5"
  "log_triple (\<lambda>l. \<forall>a. Q6 a l) (modifyE (\<lambda>s. s\<lparr>current_mode := g s\<rparr>)) Q6"
  by (rule log_frame;
      simp add: preserves_def set_state_def update_data_def get_data_def clear_state_def
        getsE_def liftE_def modifyE_def)+

lemma log_effects [log_wp]:
  "log_triple (\<lambda>l. \<forall>a. Q a l) (fill_document d a) Q"
  "log_triple (\<lambda>l. \<forall>a. Q' a l) (send_email cfg p rs) Q'"
proof -
  have "chat_log s' = chat_log s" if "fill_document d a s = (x, s')" for s x s'
    using arg_cong [OF fill_document_effect [OF that], of chat_log] by simp
  then show "log_triple (\<lambda>l. \<forall>a. Q a l) (fill_document d a) Q"
    by (intro log_frame) (auto simp: preserves_def)
  have "chat_log s' = chat_log s" if "send_email cfg p rs s = (x, s')" for s x s'
    using arg_cong [OF send_email_effect [OF that], of chat_log] by simp
  then show "log_triple (\<lambda>l. \<forall>a. Q' a l) (send_email cfg p rs) Q'"
    by (intro log_frame) (auto simp: preserves_def)
qed

lemma log_answer [log_wp]:
  "log_triple (\<lambda>l. Q (length l) (l @ [Answer (chat_id m) r])) (answer m r) Q"
  by (auto simp: log_triple_def answer_def edits_wf_snoc edit_ok_def)

lemma log_update_status [log_wp]:
  "log_triple (\<lambda>l. edit_ok l (Edit (chat_id m) i r) \<and> Q () (l @ [Edit (chat_id m) i r]))
     (update_status m i r) Q"
  by (auto simp: log_triple_def update_status_def modifyE_def edits_wf_snoc)

subsection \<open>Every segment keeps the edits well aimed\<close>

abbreviation next_ok :: "task option \<Rightarrow> chat_action list \<Rightarrow> bool" where
  "next_ok r l \<equiv> (\<forall>t'. r = Some t' \<longrightarrow> task_ok l t')"

lemma handler_segment_log: "log_triple P (handler_segment cfg h m) next_ok"
  by (cases h) (simp_all, (rule log_weaken, (rule log_wp)+, simp add: nth_append)+)

lemma first_segment_log: "log_triple P (first_segment cfg h m) next_ok"
  unfolding first_segment_def is_user_allowed_def
  by (rule log_weaken, (rule log_wp handler_segment_log [where P = "\<lambda>_. True"])+) simp

lemma task_step_log: "log_triple (\<lambda>l. task_ok l t) (task_step cfg t) next_ok"
proof (cases t)
  case (Received m)
  have "log_triple (\<lambda>l. True) (first_segment cfg h m) next_ok" for h
    by (rule first_segment_log)
  then show ?thesis
    using Received by (auto simp: log_triple_def split: option.splits)
qed (simp_all, (rule log_weaken, (rule log_wp)+, simp add: edit_ok_def nth_append)+)

subsection \<open>The invariant of the runtime\<close>

definition log_inv :: "bot \<times> task list \<Rightarrow> bool" where
  "log_inv c \<longleftrightarrow> edits_wf (chat_log (fst c)) \<and> list_all (task_ok (chat_log (fst c))) (snd c)"

lemma log_tripleD:
  "log_triple P m Q \<Longrightarrow> m s = (r, s') \<Longrightarrow> P (chat_log s) \<Longrightarrow>
   (\<exists>es. chat_log s' = chat_log s @ es) \<and> (edits_wf (chat_log s) \<longrightarrow> edits_wf (chat_log s')) \<and>
   (\<forall>a. r = Inr a \<longrightarrow> Q a (chat_log s'))"
  unfolding log_triple_def by blast

lemma run_task_log_inv:
  assumes inv: "log_inv (s, ts)"
  shows "log_inv (run_task cfg i (s, ts))"
proof (cases "i < length ts")
  case True
  obtain r s' where st: "task_step cfg (ts ! i) s = (r, s')" by fastforce
  have "task_ok (chat_log s) (ts ! i)" using inv True by (simp add: log_inv_def list_all_length)
  from log_tripleD [OF task_step_log st this] inv obtain es where
    log: "chat_log s' = chat_log s @ es" and wf: "edits_wf (chat_log s')"
    and nxt: "\<And>t'. r = Inr (Some t') \<Longrightarrow> task_ok (chat_log s') t'"
    by (auto simp: log_inv_def)
  have old: "list_all (task_ok (chat_log s')) ts"
    using inv by (auto simp: log_inv_def log list_all_iff intro: task_ok_append)
  then have "list_all (task_ok (chat_log s')) (remove_nth i ts)"
    using set_remove_nth [of i ts] by (auto simp: list_all_iff)
  moreover have "list_all (task_ok (chat_log s')) (ts[i := t'])" if "r = Inr (Some t')" for t'
    using old nxt [OF that] by (auto simp: list_all_iff dest: set_update_subset_insert [THEN subsetD])
  ultimately show ?thesis
    using True st wf by (auto simp: run_task_def log_inv_def split: sum.splits option.splits)
qed (simp add: run_task_def assms)

lemma conc_reach_log_inv: "conc_reach cfg c \<Longrightarrow> log_inv c"
proof (induction rule: conc_reach.induct)
  case (init at rt fs rs)
  then show ?case by (simp add: log_inv_def init_bot_def)
next
  case (step c e)
  obtain s ts where c: "c = (s, ts)" by fastforce
  show ?case
  proof (cases e)
    case (Deliver m)
    with step c show ?thesis by (simp add: log_inv_def)
  next
    case (Run i)
    with step c show ?thesis by (simp add: run_task_log_inv)
  qed
qed (simp_all add: log_inv_def)

lemma edits_wfD:
  assumes "edits_wf log" and "j < length log" and "log ! j = Edit c i r"
  shows "i < j \<and> (\<exists>r0. status_of r = Some r0 \<and> log ! i = Answer c r0)"
proof -
  have "edit_ok (take j log) (log ! j)"
    using assms(1,2) by (simp add: edits_wf_def list_all_length)
  with assms(2,3) show ?thesis
    by (auto simp: edit_ok_def split: option.splits)
qed

lemma status_of_changes: "status_of r = Some r0 \<Longrightarrow> r0 \<noteq> r"
  by (cases r) auto

lemma conc_reach_run: "conc_reach cfg c \<Longrightarrow> conc_reach cfg (conc_run cfg sch c)"
  by (induction sch arbitrary: c) (simp_all add: conc_reach.step)

subsection \<open>Every edit replaces its own placeholder\<close>

text \<open>
  C33. Under every interleaving of the runtime, every \<^verbatim>\<open>edit_message_text\<close> of
  \<^verbatim>\<open>update_status\<close> names a message the bot sent earlier in the same chat, and that
  message is the placeholder the new text replaces (\<^emph>\<open>Filling\<close> for the filled
  document, \<^emph>\<open>Sending\<close> for the result of the mail), so the text changes.  Two
  arrival tasks running side by side each edit their own placeholders.
\<close>

theorem status_edits_aimed:
  assumes "conc_reach cfg (s, ts)"
    and "j < length (chat_log s)" and "chat_log s ! j = Edit c i r"
  shows "i < j \<and> (\<exists>r0. status_of r = Some r0 \<and> chat_log s ! i = Answer c r0 \<and> r0 \<noteq> r)"
proof -
  have "edits_wf (chat_log s)"
    using conc_reach_log_inv [OF assms(1)] by (simp add: log_inv_def)
  from edits_wfD [OF this assms(2,3)] show ?thesis
    using status_of_changes by blast
qed

theorem status_edits_aimed_witness:
  "\<exists>s ts. conc_run demo_config
      ([Deliver (demo_msg 42 ''/start''), Run 0, Run 0, Deliver (demo_msg 42 ''15 Oct''), Run 0, Run 0,
        Deliver (demo_msg 42 ''20 Oct''), Deliver (demo_msg 42 ''21 Oct''), Run 0, Run 1] @
       replicate 8 (Run 0))
      (demo_bot [Reply (Response 202 '''' None), Reply (Response 202 '''' None)], []) = (s, ts) \<and>
    chat_log s ! 7 = Edit 7 3 Filled \<and> chat_log s ! 3 = Answer 7 Filling"
proof -
  let ?c = "conc_run demo_config
      ([Deliver (demo_msg 42 ''/start''), Run 0, Run 0, Deliver (demo_msg 42 ''15 Oct''), Run 0, Run 0,
        Deliver (demo_msg 42 ''20 Oct''), Deliver (demo_msg 42 ''21 Oct''), Run 0, Run 1] @
       replicate 8 (Run 0))
      (demo_bot [Reply (Response 202 '''' None), Reply (Response 202 '''' None)], [])"
  obtain s ts where c: "?c = (s, ts)" by fastforce
  have "conc_reach demo_config ?c"
    by (rule conc_reach_run) (unfold demo_bot_def, rule conc_reach.init)
  then have reach: "conc_reach demo_config (s, ts)" by (simp only: c)
  have "command_filter demo_config ''start'' (demo_msg 42 ''/start'')"
    and "\<not> command_filter demo_config ''start'' (demo_msg 42 ''15 Oct'')"
    and "\<not> command_filter demo_config ''start'' (demo_msg 42 ''20 Oct'')"
    and "\<not> command_filter demo_config ''start'' (demo_msg 42 ''21 Oct'')"
    by (simp_all add: command_filter_eval)
  then have L: "chat_log (fst ?c) =
      [Answer 7 (Greeting Test), Answer 7 AskArrival, Answer 7 Filling, Answer 7 Filling,
       Edit 7 2 Filled, Answer 7 Sending, Edit 7 5 (SentOk Test [''qa@example.org'']),
       Edit 7 3 Filled, Answer 7 Sending, Edit 7 8 (SentOk Test [''qa@example.org''])]"
    by (simp add: task_exec demo_bot_def init_bot_def fill_document_Some
        send_email_first_reply token_expired_def numeral_eq_Suc)
  have "chat_log s =
      [Answer 7 (Greeting Test), Answer 7 AskArrival, Answer 7 Filling, Answer 7 Filling,
       Edit 7 2 Filled, Answer 7 Sending, Edit 7 5 (SentOk Test [''qa@example.org'']),
       Edit 7 3 Filled, Answer 7 Sending, Edit 7 8 (SentOk Test [''qa@example.org''])]"
    using L by (simp only: c fst_conv)
  then have log: "chat_log s ! 7 = Edit 7 3 Filled" "7 < length (chat_log s)" by simp_all
  from status_edits_aimed [OF reach log(2) log(1)] c log(1) show ?thesis by auto
qed

end
