(* ===== verification/Spec2Isabelle.thy ===== *)
theory Spec2Isabelle
  imports Dialog_Spec Config Tasks Base64 Status_Edits
begin

text \<open>
  \<^bold>\<open>A verification development of jcbot (\<^verbatim>\<open>src/main.py\<close>).\<close>

  The program is a Telegram bot for one allowed user.  After \<^verbatim>\<open>/start\<close> it asks
  for a departure date and an arrival date, fills both into a Word template, and
  mails the document through Microsoft Graph, refreshing the OAuth access token once
  when Graph answers that it expired.  A \<^verbatim>\<open>/mode\<close> command switches between a
  test and a production list of recipients.  Everything runs in one process with
  module-level globals for the mode and the two tokens and aiogram's in-memory FSM
  storage for the conversations.

  \<^bold>\<open>Theories and what they model.\<close>
  \<^item> \<open>Bot_Prelude\<close>: Python's \<^verbatim>\<open>None\<close>-able strings (\<open>pyval\<close>), the exceptions
    the code can raise (\<open>exc\<close>), the configuration of lines 17--31 (\<open>config\<close>), and
    the exception-and-state monad \<open>('s, 'a) exc_st\<close> (\<open>bindE\<close>, \<open>thenE\<close>,
    \<open>getsE\<close>, \<open>modifyE\<close>, \<open>liftE\<close>) in which every function of the program is
    written; a raise keeps the state reached, as Python does.  The collection
    \<open>preserves_intros\<close> decomposes frame facts (\<open>preserves f m\<close>) along binds.
  \<^item> \<open>Py_Str\<close>: \<^verbatim>\<open>in\<close>, \<^verbatim>\<open>str.replace\<close>, \<^verbatim>\<open>str.split(sep)\<close>,
    \<^verbatim>\<open>str.join\<close> (\<open>py_in\<close>, \<open>py_replace\<close> with its scanning loop
    \<open>replace_scan\<close>, \<open>split_on\<close>, \<open>py_join\<close>), with the equivalence
    \<open>py_replace = py_join new \<circ> split_on old\<close>, the round trip
    \<open>py_join sep (split_on sep s) = s\<close>, and the rewriting lemmas on concatenations.
  \<^item> \<open>Config\<close>: start-up (lines 15--36): \<^verbatim>\<open>load_dotenv\<close>,
    \<^verbatim>\<open>os.getenv\<close>, Python's \<^verbatim>\<open>int()\<close> (\<open>py_int\<close>, with whitespace, sign,
    underscores and the 4300-digit limit) and \<^verbatim>\<open>str.split\<close> on
    \<^verbatim>\<open>str | None\<close>, aiogram's token check (\<open>validate_token\<close>), and \<open>startup\<close>,
    which runs them in the order of the source and stops at the first exception.
  \<^item> \<open>Docx\<close>: the Document Filler, \<^verbatim>\<open>fill_document\<close> (lines 77--96), over a
    model of python-docx (runs with text, font name and size; the paragraph text
    getter and setter) and a file system \<open>files\<close>.  The two loops of the code are
    \<open>fill_paragraphs\<close> and \<open>format_runs\<close>.
  \<^item> \<open>Http\<close>: \<^verbatim>\<open>requests.post\<close> as \<open>post\<close>, which logs its request in
    \<open>http_log\<close> and takes the next answer from the queue \<open>net\<close> (an empty queue or
    \<open>ConnError\<close> raises).  The servers' answers are thus inputs, and every claim
    holds for all of them.
  \<^item> \<open>Token\<close>: the Token Manager, \<^verbatim>\<open>ACCESS_TOKEN\<close>/\<^verbatim>\<open>REFRESH_TOKEN\<close> (record
    \<open>cred_st\<close>) and \<^verbatim>\<open>refresh_access_token\<close> (lines 48--65).
  \<^item> \<open>Mail\<close>: the Mail Dispatcher, \<^verbatim>\<open>send_email\<close> (lines 99--138): it reads
    the file's bytes (\<open>read_file\<close>), encodes them with \<open>b64encode\<close> of theory
    \<open>Base64\<close> into \<^verbatim>\<open>contentBytes\<close> (\<open>build_email_data\<close>), posts, and retries
    once after 401 \<^verbatim>\<open>InvalidAuthenticationToken\<close> (\<open>token_expired\<close>).
  \<^item> \<open>Bot\<close>: the Access Guard (\<open>is_user_allowed\<close>, \<open>guarded\<close>), the Mode Switch
    (\<open>change_mode\<close>, \<open>toggle_mode\<close>, \<open>recipients_for\<close>), the Conversation State
    Machine (handlers \<open>start\<close>, \<open>departure_date\<close>, \<open>arrival_date\<close> with its body
    \<open>arrival_work\<close>), aiogram's FSM context (\<open>set_state\<close>, \<open>update_data\<close>,
    \<open>get_data\<close>, \<open>clear_state\<close>, keyed by chat and user), aiogram's \<^verbatim>\<open>Command\<close>
    and \<^verbatim>\<open>StateFilter\<close> filters and handler order (\<open>command_filter\<close>,
    \<open>state_filter\<close>, \<open>dispatch\<close>), and one update of the polling loop
    (\<open>feed_update\<close>, \<open>bot_step\<close>: a handler's exception is logged and the state it
    reached is kept).  \<open>state_filter\<close> reads \<^verbatim>\<open>~StateFilter()\<close> as "no form
    state", the meaning aiogram 2 gave it and the code intends; under aiogram 3 the
    filter is never built (\<open>make_state_filter\<close>, \<open>register_handlers\<close>, C5), and
    \<open>dispatch_mode_idle\<close> shows that for \<^verbatim>\<open>/mode\<close> the reading does not matter.
    \<open>reachable\<close> is the inductive set of states from start-up under messages
    handled one at a time to their end and under changes of the servers' answers and
    of the files: the atomic schedule only, an under-approximation of the runtime
    of theory \<open>Tasks\<close>, where the invariants that hold under every interleaving are
    stated over \<open>conc_reach\<close>.
  \<^item> \<open>Tasks\<close>: the runtime of \<^verbatim>\<open>main()\<close> (lines 209--215).  aiogram 3 handles each
    update in a task of its own, so handlers interleave where they await a Telegram
    call.  Each handler is cut at those awaits into segments (\<open>handler_segment\<close>,
    \<open>task_step\<close>, with the stopped handler as a \<open>task\<close>); a pool of tasks runs under
    any schedule (\<open>conc_step\<close>, \<open>conc_run\<close>).  \<open>task_rest\<close> maps a stopped task to
    what is left of it in the atomic model, and \<open>task_step_rest\<close> is the simulation.
    \<open>conc_reach\<close> is the inductive set of configurations (state and pool) from
    start-up; \<open>key_view\<close> and the collection \<open>key_frame\<close> state which operations
    leave the session of another chat and user alone; \<open>key_ok\<close> is the shape of
    one session that every segment keeps.
  \<^item> \<open>Status_Edits\<close>: the status messages of \<^verbatim>\<open>arrival_date\<close> and
    \<^verbatim>\<open>update_status\<close> (lines 68--74, 177--192) under the runtime.  A small Hoare
    logic on the chat log (\<open>log_triple\<close>, weakest-precondition rules \<open>log_wp\<close>)
    shows for every segment that the log only grows and that every edit names the
    placeholder it replaces (\<open>edits_wf\<close>); the pool invariant \<open>log_inv\<close> adds
    that every stopped arrival task holds the id of its own placeholder.
  \<^item> \<open>Base64\<close>: \<^verbatim>\<open>base64.b64encode(...).decode('utf-8')\<close> of line 103 on
    \<open>8 word\<close> bytes: three bytes form a 24-bit group in a \<open>32 word\<close>
    (\<open>group24\<close>), cut into four indices by \<open>drop_bit\<close> and \<open>AND 0x3F\<close>
    (\<open>sextet\<close>), with the padding of a short last group (\<open>b64encode\<close>).
    \<open>rfc_encode\<close> and \<open>rfc_decode\<close> are RFC 4648 on numbers, the reference;
    \<open>send_email\<close> applies the encoder to the bytes of the attachment.
  \<^item> \<open>Dialog_Spec\<close>: the design's conversation machine (spec 4.4) as
    \<open>spec_step\<close> on a stage and the mode, and the abstraction \<open>abs_dialog\<close> of the
    bot's state for one chat.
  \<^item> This theory: importing the module (\<open>import_main\<close>: start-up, then the
    registration of the handlers).

  The state is one extensible record: \<open>fs_st\<close> (files) is extended by \<open>net_st\<close>
  (HTTP), by \<open>cred_st\<close> (tokens) and by \<open>bot\<close> (mode, FSM storage, chat log).
  Each component's operations are polymorphic in the extension, so the Mail
  Dispatcher calls the Token Manager and the bot calls both on its own state, and
  each component's frame lemma (\<open>fill_document_effect\<close>, \<open>post_effect\<close>,
  \<open>refresh_access_token_effect\<close>, \<open>send_email_effect\<close>) states which fields an
  operation may change.

  \<^bold>\<open>What is proved.\<close>
  Token Manager: the rotated refresh token is captured and used by the next refresh
  (C2); a 200 answer returns the new access token (C19); any other status raises
  with both tokens unchanged (C16).  Mail Dispatcher: one retry, with the refreshed
  token, after an expired-token answer and never a second one (C1); no retry
  otherwise (C17); at most three requests in a fixed order in every run (C11); every
  mail posted carries, in \<^verbatim>\<open>contentBytes\<close>, ASCII text whose Base64 decoding is
  exactly the bytes of the file read (C12), which rests on the Base64 lemmas
  (\<open>b64encode_rfc\<close>, \<open>b64encode_roundtrip\<close>, \<open>b64encode_length\<close>,
  \<open>b64encode_ascii\<close>).  Document Filler: both dates replace their placeholders in
  a template line (C9); every run of the saved document is Times New Roman 14 pt
  (C10); idempotence (C21); an arrival placeholder alone in its paragraph is never
  filled (C13, a finding).  Bot: the Access Guard lets a foreign user change nothing
  (C3); a completed arrival step sends exactly one mail to the recipients of the
  current mode and clears the session whatever the status (C4); \<^verbatim>\<open>/mode\<close> in an
  idle chat switches the mode to the other one and a second one restores it (C18);
  refinement of the design's state machine (C7).  Findings: a failed refresh leaves
  the conversation in the arrival stage with no message to the user (C8);
  \<^verbatim>\<open>/mode\<close> during a conversation is taken as a date (C14); a foreign user's
  plain message gets no denial (C15); a message without text is taken as a date and
  renders as \<^verbatim>\<open>None\<close> (C20).  Import: with aiogram 3 the module raises on
  import in every environment, \<^verbatim>\<open>StateFilter()\<close> of line 197 refusing an empty
  list of states (C5, a finding).  Start-up: an unset \<^verbatim>\<open>ALLOWED_USER_ID\<close> stops
  start-up first (C22); when start-up succeeds (C23) the recipient lists are exactly
  the comma-separated parts of their variables (C24), untrimmed, and an empty
  variable is one empty address (C25, a finding).  Runtime: the segments agree with
  the atomic model on the sequential schedule (\<open>sequential_schedule\<close>); every task
  ends within five segments (C26); under interleaving two arrival dates send two
  mails (C27), two departure dates can lose the departure date (C28) and leave the
  chat stuck on \<^verbatim>\<open>KeyError\<close> (C29), and the success message can name the wrong
  mode (C30); still, under every interleaving every session keeps its shape (idle
  means empty, only the two date fields stored, C6), another user's session stays
  idle and empty (C31), every status edit names its own placeholder in the same chat
  (C33), and from every configuration \<^verbatim>\<open>/start\<close> and a date bring the chat back
  to a sound arrival stage (C32, liveness).

  \<^bold>\<open>Loops, bounds, fuel.\<close>  The only loops are the string scans of
  \<^verbatim>\<open>str.replace\<close>/\<^verbatim>\<open>str.split\<close> (\<^theory_text>\<open>function\<close> with the measure
  \<open>length\<close>) and the loops over paragraphs and runs (\<open>map\<close>); all are total and
  executable, so no fuel is needed.  The retry is not a loop: the code posts at most
  twice, and C11 states the bound.  The Base64 encoder is structural recursion on
  groups of three bytes.  The runtime may interleave forever, but every task ends
  within five of its segments (C26, by the rank \<open>task_rank\<close>), so running the
  front task \<open>5 n\<close> times drains a pool of \<open>n\<close> tasks; the liveness claim C32
  uses exactly that schedule.  Where a 32-bit word holds a 24-bit group no
  wrap-around can occur (\<open>unat_group24\<close>).  \<^verbatim>\<open>int()\<close> refuses more than 4300
  digits, the default of \<^verbatim>\<open>sys.int_info.default_max_str_digits\<close> since
  CPython 3.11.

  \<^bold>\<open>Not modelled, and why.\<close>  Logging (no effect on the state).  The parsing of
  the \<^verbatim>\<open>.env\<close> file itself (its contents are a map) and the construction of the
  \<^verbatim>\<open>Dispatcher\<close> (no failure mode).  Failures of \<^verbatim>\<open>message.answer\<close>
  and of \<^verbatim>\<open>edit_message_text\<close> on Telegram's side (the model takes the chat
  as reliable; C33 shows that the bot itself never asks for an edit Telegram
  would refuse).  The \<^verbatim>\<open>.docx\<close> serialisation of python-docx: the file system
  holds documents, and \<open>docx_bytes\<close> (theory \<open>Mail\<close>) is a stand-in for the bytes
  of a saved document; C12 holds for every byte list, so it does not depend on that
  choice.  The Cyrillic texts of messages and of the mail (their interpolated values
  are kept).  JSON values other than strings in the token answer.  Tables, headers,
  hyperlinks and other content of the template: a paragraph is its list of plain
  runs, so \<open>paragraph_text\<close> is the text of those runs (python-docx 1.x also
  includes the text of hyperlinks, whose runs are not in \<^verbatim>\<open>paragraph.runs\<close>).
  The network request aiogram makes the first time a command carries an
  \<^verbatim>\<open>@mention\<close> (to learn the bot's user name), an extra await inside the filter.
\<close>

subsection \<open>Importing the module\<close>

text \<open>
  Running \<^verbatim>\<open>src/main.py\<close> first executes its top level: the start-up of lines
  15--36 (theory \<open>Config\<close>), then the class \<^verbatim>\<open>Form\<close> and the decorated
  handlers of lines 147--206, whose filters are built as the decorators are
  evaluated (\<open>register_handlers\<close>, theory \<open>Bot\<close>); only then is \<^verbatim>\<open>main()\<close>
  called.
\<close>

definition import_main :: "env \<Rightarrow> env \<Rightarrow> string \<Rightarrow> exc + (config \<times> pyval \<times> pyval) \<times> handler list" where
  "import_main dotenv environ username =
     bindS (startup dotenv environ username) (\<lambda>r.
     bindS register_handlers (\<lambda>hs. Inr (r, hs)))"

text \<open>
  C5. With aiogram 3, importing \<^verbatim>\<open>src/main.py\<close> raises under every environment:
  the first exception of start-up if there is one, and otherwise the
  \<^verbatim>\<open>ValueError\<close> of \<^verbatim>\<open>StateFilter()\<close> on line 197.  \<^verbatim>\<open>main()\<close> and the polling
  loop are never reached, so no message is ever handled.
\<close>

theorem import_always_raises:
  "import_main dotenv environ username =
     Inl (case startup dotenv environ username of
            Inl e \<Rightarrow> e
          | Inr r \<Rightarrow> ValueError ''At least one state is required'')"
  by (simp add: import_main_def register_handlers_def make_state_filter_def bindS_def
      split: sum.split)

end
